theory Spec2Isabelle
  imports Complex_Main
begin


section \<open>JavaScript strings and values\<close>

text \<open>
  A JavaScript string is modelled as a \<^typ>\<open>string\<close>; one \<^typ>\<open>char\<close> stands for one
  code unit, so the model covers the code units below 256. \<open>s.slice(0, n)\<close> is
  \<^term>\<open>take n s\<close>. The white space of \<open>\s\<close> and of \<open>trim()\<close> in that range is
  TAB, LF, VT, FF, CR, space and the no-break space.
\<close>

definition isSpace :: "char \<Rightarrow> bool" where
  "isSpace c \<longleftrightarrow> c \<in> set [CHR 0x09, CHR 0x0A, CHR 0x0B, CHR 0x0C, CHR 0x0D, CHR 0x20, CHR 0xA0]"

definition trim :: "string \<Rightarrow> string" where
  "trim s = rev (dropWhile isSpace (rev (dropWhile isSpace s)))"

text \<open>\<open>s.replace(/\s+/g, ' ')\<close>: every maximal run of white space becomes one space.\<close>

function collapseSpaces :: "string \<Rightarrow> string" where
  "collapseSpaces [] = []"
| "collapseSpaces (c # cs) =
     (if isSpace c then CHR 0x20 # collapseSpaces (dropWhile isSpace cs)
      else c # collapseSpaces cs)"
  by pat_completeness auto
termination
  by (relation "measure length") (auto simp: length_dropWhile_le less_Suc_eq_le)

text \<open>\<open>s.split(/\s+/)\<close>; the empty string splits into one empty part.\<close>

function splitSpaces :: "string \<Rightarrow> string list" where
  "splitSpaces [] = [[]]"
| "splitSpaces (c # cs) =
     (if isSpace c then [] # splitSpaces (dropWhile isSpace cs)
      else (case splitSpaces cs of [] \<Rightarrow> [[c]] | w # ws \<Rightarrow> (c # w) # ws))"
  by pat_completeness auto
termination
  by (relation "measure length") (auto simp: length_dropWhile_le less_Suc_eq_le)

fun join :: "string \<Rightarrow> string list \<Rightarrow> string" where
  "join sep [] = []"
| "join sep [x] = x"
| "join sep (x # y # ys) = x @ sep @ join sep (y # ys)"

definition startsWith :: "string \<Rightarrow> string \<Rightarrow> bool" where
  "startsWith s p \<longleftrightarrow> take (length p) s = p"

text \<open>
  \<open>toLowerCase()\<close> on the code units below 256: the letters A to Z and the capital letters
  from 0xC0 to 0xDE, the multiplication sign 0xD7 apart, move up by 32.
\<close>

definition lowerChar :: "char \<Rightarrow> char" where
  "lowerChar c =
     (let n = (of_char c :: nat)
      in if (65 \<le> n \<and> n \<le> 90) \<or> (192 \<le> n \<and> n \<le> 222 \<and> n \<noteq> 215) then char_of (n + 32)
         else c)"

definition toLowerCase :: "string \<Rightarrow> string" where
  "toLowerCase s = map lowerChar s"

text \<open>The decimal digits of a number, as a template literal prints a counter.\<close>

definition digitChar :: "nat \<Rightarrow> char" where
  "digitChar d = char_of (48 + d)"

function showNat :: "nat \<Rightarrow> string" where
  "showNat n = (if n < 10 then [digitChar n] else showNat (n div 10) @ [digitChar (n mod 10)])"
  by pat_completeness auto
termination
  by (relation "measure id") auto

declare showNat.simps [simp del]

text \<open>
  A value that is a string or \<open>null\<close> is a \<^typ>\<open>string option\<close>. Such a value is truthy
  when it is a non-empty string, and \<open>a || b\<close> is \<open>a\<close> when \<open>a\<close> is truthy, \<open>b\<close> otherwise.
\<close>

definition truthy :: "string option \<Rightarrow> bool" where
  "truthy v \<longleftrightarrow> (case v of None \<Rightarrow> False | Some s \<Rightarrow> s \<noteq> [])"

definition orElse :: "string option \<Rightarrow> string option \<Rightarrow> string option" where
  "orElse a b = (if truthy a then a else b)"

section \<open>The document as the extractor sees it\<close>

text \<open>
  One element of the live document, with what the script run by \<open>page.evaluate\<close> reads from
  it: the tag name, the attributes, \<open>className\<close> (\<open>None\<close> when it is not a string, as for
  SVG elements), \<open>textContent\<close>, the \<open>type\<close> property of a form control, the bounding box and
  the computed style, whether the element is \<open>document.body\<close>, the parent element, and for an
  element with a parent the number of the parent's children with the same tag name and the
  element's index among them.
\<close>

datatype node = Node
  (tagName: string)
  (attributes: "(string \<times> string) list")
  (className: "string option")
  (textContent: string)
  (typeProp: string)
  (rectWidth: real)
  (rectHeight: real)
  (styleVisibility: string)
  (styleDisplay: string)
  (styleOpacity: string)
  (isBody: bool)
  (parentElement: "node option")
  (sameTagSiblings: nat)
  (siblingIndex: nat)

definition getAttribute :: "node \<Rightarrow> string \<Rightarrow> string option" where
  "getAttribute el name = map_of (attributes el) name"

text \<open>The properties \<open>id\<close>, \<open>placeholder\<close> and \<open>name\<close> reflect the attribute, \<open>''\<close> when absent.\<close>

definition reflected :: "node \<Rightarrow> string \<Rightarrow> string" where
  "reflected el name = (case getAttribute el name of None \<Rightarrow> [] | Some v \<Rightarrow> v)"

text \<open>
  The results of the four \<open>document.querySelectorAll\<close> calls, each in document order:
  \<open>a[href]\<close>; \<open>button, [role="button"], input[type="submit"], input[type="button"]\<close>;
  the inputs that are not hidden, submit or button together with \<open>textarea\<close>; \<open>select\<close>.
\<close>

record document =
  queryLinks :: "node list"
  queryButtons :: "node list"
  queryInputs :: "node list"
  querySelects :: "node list"

record raw_element =
  rawType :: string
  rawText :: string
  rawSelector :: string
  rawHref :: "string option"

record page_element =
  ref :: string
  elemType :: string
  elemText :: string
  selector :: string
  href :: "string option"

record page_context =
  url :: string
  title :: string
  elements :: "page_element list"

subsection \<open>getSelector\<close>

definition pathPart :: "node \<Rightarrow> string" where
  "pathPart current =
     (let sel = toLowerCase (tagName current);
          sel1 = (case className current of
                    None \<Rightarrow> sel
                  | Some cn \<Rightarrow>
                      if cn = [] then sel
                      else (let classes = join ''.'' (take 2 (splitSpaces (trim cn)))
                            in if classes \<noteq> [] then sel @ ''.'' @ classes else sel))
      in (case parentElement current of
            None \<Rightarrow> sel1
          | Some parentEl \<Rightarrow>
              if sameTagSiblings current > 1
              then sel1 @ '':nth-of-type('' @ showNat (siblingIndex current + 1) @ '')''
              else sel1))"

text \<open>
  The loop \<open>while (current && current !== document.body)\<close>, which prepends one part per
  level and stops once more than four parts are collected.
\<close>

function buildPath :: "node option \<Rightarrow> string list \<Rightarrow> string list" where
  "buildPath None pathParts = pathParts"
| "buildPath (Some current) pathParts =
     (if isBody current then pathParts
      else (let pathParts1 = pathPart current # pathParts
            in if length pathParts1 > 4 then pathParts1
               else buildPath (parentElement current) pathParts1))"
  by pat_completeness auto
termination
  by (relation "measure (\<lambda>(current, pathParts). 5 - length pathParts)") auto

definition getSelector :: "node \<Rightarrow> string" where
  "getSelector el =
     (if reflected el ''id'' \<noteq> [] then ''#'' @ reflected el ''id''
      else if truthy (getAttribute el ''data-testid'')
      then ''[data-testid='' @ [CHR 0x22] @ reflected el ''data-testid'' @ [CHR 0x22] @ '']''
      else if truthy (getAttribute el ''aria-label'')
      then ''[aria-label='' @ [CHR 0x22] @ reflected el ''aria-label'' @ [CHR 0x22] @ '']''
      else join '' > '' (buildPath (Some el) []))"

subsection \<open>getText and isVisible\<close>

definition getText :: "node \<Rightarrow> string" where
  "getText el = take 100 (collapseSpaces (trim (textContent el)))"

definition isVisible :: "node \<Rightarrow> bool" where
  "isVisible el \<longleftrightarrow>
     rectWidth el > 0 \<and> rectHeight el > 0 \<and> styleVisibility el \<noteq> ''hidden'' \<and>
     styleDisplay el \<noteq> ''none'' \<and> styleOpacity el \<noteq> ''0''"

subsection \<open>The four passes of the page script\<close>

text \<open>
  Each pass is a \<open>forEach\<close> whose callback pushes at most one entry; the callback is a
  function to \<^typ>\<open>raw_element option\<close> and the pass is \<^const>\<open>List.map_filter\<close> of it.
\<close>

definition linkLabel :: "node \<Rightarrow> string option" where
  "linkLabel el =
     orElse (orElse (Some (getText el)) (getAttribute el ''aria-label''))
            (Some (reflected el ''href''))"

definition linkEntry :: "node \<Rightarrow> raw_element option" where
  "linkEntry el =
     (if \<not> isVisible el then None
      else (let hrefv = reflected el ''href'' in
            case linkLabel el of
              None \<Rightarrow> None
            | Some txt \<Rightarrow>
                if txt \<noteq> [] \<and> hrefv \<noteq> [] \<and> \<not> startsWith hrefv ''javascript:''
                then Some \<lparr>rawType = ''link'', rawText = take 80 txt,
                           rawSelector = getSelector el, rawHref = Some hrefv\<rparr>
                else None))"

definition buttonLabel :: "node \<Rightarrow> string" where
  "buttonLabel el =
     (case orElse (orElse (orElse (Some (getText el)) (getAttribute el ''aria-label''))
                          (getAttribute el ''value''))
                  (Some ''Button'') of
        None \<Rightarrow> ''Button'' | Some txt \<Rightarrow> txt)"

definition buttonEntry :: "node \<Rightarrow> raw_element option" where
  "buttonEntry el =
     (if \<not> isVisible el then None
      else Some \<lparr>rawType = ''button'', rawText = take 80 (buttonLabel el),
                 rawSelector = getSelector el, rawHref = None\<rparr>)"

definition inputLabel :: "node \<Rightarrow> string" where
  "inputLabel el =
     (case orElse (orElse (orElse (orElse (Some (reflected el ''placeholder''))
                                          (getAttribute el ''aria-label''))
                                  (Some (reflected el ''name'')))
                          (Some (typeProp el)))
                  (Some ''Input'') of
        None \<Rightarrow> ''Input'' | Some txt \<Rightarrow> txt)"

definition inputEntry :: "node \<Rightarrow> raw_element option" where
  "inputEntry el =
     (if \<not> isVisible el then None
      else Some \<lparr>rawType = (if toLowerCase (tagName el) = ''textarea'' then ''textarea''
                             else ''input''),
                 rawText = take 80 (inputLabel el),
                 rawSelector = getSelector el, rawHref = None\<rparr>)"

definition selectLabel :: "node \<Rightarrow> string" where
  "selectLabel el =
     (case orElse (orElse (getAttribute el ''aria-label'') (Some (reflected el ''name'')))
                  (Some ''Select'') of
        None \<Rightarrow> ''Select'' | Some txt \<Rightarrow> txt)"

definition selectEntry :: "node \<Rightarrow> raw_element option" where
  "selectEntry el =
     (if \<not> isVisible el then None
      else Some \<lparr>rawType = ''select'', rawText = take 80 (selectLabel el),
                 rawSelector = getSelector el, rawHref = None\<rparr>)"

definition collectElements :: "document \<Rightarrow> raw_element list" where
  "collectElements doc =
     List.map_filter linkEntry (queryLinks doc) @
     List.map_filter buttonEntry (queryButtons doc) @
     List.map_filter inputEntry (queryInputs doc) @
     List.map_filter selectEntry (querySelects doc)"

subsection \<open>Deduplication, truncation and refs\<close>

text \<open>The key \<open>`${el.type}:${el.text}:${el.href || ''}`\<close> of the \<open>seen\<close> set.\<close>

definition seenKey :: "raw_element \<Rightarrow> string" where
  "seenKey el =
     rawType el @ '':'' @ rawText el @ '':'' @
     (case orElse (rawHref el) (Some []) of None \<Rightarrow> [] | Some h \<Rightarrow> h)"

fun dedupe :: "string set \<Rightarrow> raw_element list \<Rightarrow> raw_element list" where
  "dedupe seen [] = []"
| "dedupe seen (el # els) =
     (if seenKey el \<in> seen then dedupe seen els
      else el # dedupe (insert (seenKey el) seen) els)"

definition refPrefix :: "string \<Rightarrow> string" where
  "refPrefix t = (if t = ''link'' then ''link'' else if t = ''button'' then ''btn'' else t)"

text \<open>\<open>counters[typeKey] || 0\<close>: a missing counter reads as 0.\<close>

definition counterOf :: "(string \<rightharpoonup> nat) \<Rightarrow> string \<Rightarrow> nat" where
  "counterOf counters k = (case counters k of None \<Rightarrow> 0 | Some n \<Rightarrow> n)"

fun assignRefs :: "(string \<rightharpoonup> nat) \<Rightarrow> raw_element list \<Rightarrow> page_element list" where
  "assignRefs counters [] = []"
| "assignRefs counters (el # els) =
     (let n = counterOf counters (rawType el) + 1
      in \<lparr>ref = refPrefix (rawType el) @ ''_'' @ showNat n,
          elemType = rawType el, elemText = rawText el,
          selector = rawSelector el, href = rawHref el\<rparr>
         # assignRefs (counters(rawType el \<mapsto> n)) els)"

definition initialCounters :: "string \<rightharpoonup> nat" where
  "initialCounters =
     [''link'' \<mapsto> 0, ''button'' \<mapsto> 0, ''input'' \<mapsto> 0, ''textarea'' \<mapsto> 0, ''select'' \<mapsto> 0]"

definition pageElements :: "raw_element list \<Rightarrow> page_element list" where
  "pageElements els = assignRefs initialCounters (take 150 (dedupe {} els))"

text \<open>The semantic signature of an entry: its type, text and href.\<close>

definition rawSignature :: "raw_element \<Rightarrow> string \<times> string \<times> string option" where
  "rawSignature el = (rawType el, rawText el, rawHref el)"

definition signature :: "page_element \<Rightarrow> string \<times> string \<times> string option" where
  "signature e = (elemType e, elemText e, href e)"

text \<open>The five element types the page script produces.\<close>

definition knownTypes :: "string set" where
  "knownTypes = {''link'', ''button'', ''input'', ''textarea'', ''select''}"

section \<open>The browser controller\<close>

subsection \<open>Values, results and the browser collaborator\<close>

text \<open>
  JavaScript values as they come out of \<open>JSON.parse\<close> and go into \<open>JSON.stringify\<close>,
  with \<open>undefined\<close> for a missing property.
\<close>

datatype jsval =
    JUndefined
  | JNull
  | JBool bool
  | JNum int
  | JStr string
  | JArr "jsval list"
  | JObj "(string \<times> jsval) list"

text \<open>
  An object lists its own properties, each once, in the order in which \<open>Object.keys\<close>
  enumerates them.
  The numbers are the integers, which JavaScript prints in decimal when their magnitude is
  below ten to the power 21.
\<close>

fun jsTruthy :: "jsval \<Rightarrow> bool" where
  "jsTruthy JUndefined = False"
| "jsTruthy JNull = False"
| "jsTruthy (JBool b) = b"
| "jsTruthy (JNum n) = (n \<noteq> 0)"
| "jsTruthy (JStr s) = (s \<noteq> [])"
| "jsTruthy v = True"

definition showInt :: "int \<Rightarrow> string" where
  "showInt n = (if n < 0 then ''-'' @ showNat (nat (- n)) else showNat (nat n))"

text \<open>
  The text of a value, as a template literal computes it, and the parts that
  \<open>Array.prototype.join\<close> puts between its separators: \<open>null\<close> and \<open>undefined\<close> give the
  empty part. An object prints as \<open>[object Object]\<close> unless it has an own property
  \<open>toString\<close>: a value that came out of \<open>JSON.parse\<close> is not callable there, and the
  conversion throws.
\<close>

fun jsString :: "jsval \<Rightarrow> string + string"
  and joinParts :: "jsval list \<Rightarrow> string + string list" where
  "jsString JUndefined = Inr ''undefined''"
| "jsString JNull = Inr ''null''"
| "jsString (JBool b) = Inr (if b then ''true'' else ''false'')"
| "jsString (JNum n) = Inr (showInt n)"
| "jsString (JStr s) = Inr s"
| "jsString (JArr xs) =
     (case joinParts xs of Inl e \<Rightarrow> Inl e | Inr parts \<Rightarrow> Inr (join '','' parts))"
| "jsString (JObj props) =
     (if ''toString'' \<in> set (map fst props)
      then Inl ''TypeError: Cannot convert object to primitive value''
      else Inr ''[object Object]'')"
| "joinParts [] = Inr []"
| "joinParts (x # xs) =
     (case (if x = JUndefined \<or> x = JNull then Inr [] else jsString x) of
        Inl e \<Rightarrow> Inl e
      | Inr part \<Rightarrow>
          (case joinParts xs of Inl e \<Rightarrow> Inl e | Inr parts \<Rightarrow> Inr (part # parts)))"

text \<open>
  The state of the live browser is a value of an arbitrary type \<open>'b\<close>. An awaited operation
  of the browser either completes with a value or throws; a thrown error is carried as the
  text that \<open>`${error}`\<close> prints. Fixed delays (\<open>waitForTimeout\<close>) have no result and are
  not modelled: what the page does meanwhile is part of what the next operation sees.
\<close>

type_synonym ('b, 'a) action = "'b \<Rightarrow> (string + 'a) \<times> 'b"

definition succeed :: "'a \<Rightarrow> ('b, 'a) action" where
  "succeed x b = (Inr x, b)"

definition andThen :: "('b, 'a) action \<Rightarrow> ('a \<Rightarrow> ('b, 'c) action) \<Rightarrow> ('b, 'c) action" where
  "andThen m f b = (case m b of (Inl e, b1) \<Rightarrow> (Inl e, b1) | (Inr x, b1) \<Rightarrow> f x b1)"

text \<open>
  The Playwright operations the controller calls. \<open>locatorClick selector force clickCount\<close>
  is \<open>page.locator(selector).first().click({force, clickCount})\<close>; the operations that
  type a text take the value that the caller hands over, a string in the typed program;
  \<open>evaluateDocument\<close> is what the script of \<open>extractPageContext\<close> finds in the page; the
  other \<open>eval\<close> fields are the results of the remaining extraction scripts, which no
  property below looks into.
\<close>

record 'b playwright =
  launch :: "('b, unit) action"
  goto :: "string \<Rightarrow> ('b, unit) action"
  pageUrl :: "'b \<Rightarrow> string"
  pageTitle :: "('b, string) action"
  scrollIntoViewIfNeeded :: "string \<Rightarrow> ('b, unit) action"
  locatorClick :: "string \<Rightarrow> bool \<Rightarrow> nat \<Rightarrow> ('b, unit) action"
  locatorFill :: "string \<Rightarrow> jsval \<Rightarrow> ('b, unit) action"
  pressSequentially :: "string \<Rightarrow> jsval \<Rightarrow> ('b, unit) action"
  keyboardPress :: "string \<Rightarrow> ('b, unit) action"
  keyboardType :: "jsval \<Rightarrow> ('b, unit) action"
  mouseWheel :: "int \<Rightarrow> ('b, unit) action"
  waitForLoadState :: "('b, unit) action"
  evaluateDocument :: "('b, document) action"
  evalCandidates :: "('b, jsval) action"
  evalSocialLinks :: "('b, jsval) action"
  evalProfileTabs :: "('b, jsval) action"
  evalDetailedProfileInfo :: "('b, jsval) action"
  evalPageTextSummary :: "('b, string) action"

text \<open>The \<open>ToolResult\<close> envelope \<open>{success, data?, error?}\<close>.\<close>

datatype tool_data = DataJs jsval | DataContext page_context

record tool_result =
  success :: bool
  resultData :: "tool_data option"
  resultError :: "string option"

definition succeeded :: "tool_data \<Rightarrow> tool_result" where
  "succeeded d = \<lparr>success = True, resultData = Some d, resultError = None\<rparr>"

definition failure :: "string \<Rightarrow> tool_result" where
  "failure msg = \<lparr>success = False, resultData = None, resultError = Some msg\<rparr>"

subsection \<open>State of the controller\<close>

datatype page_handle = PageHandle

record controller =
  page :: "page_handle option"
  elementMap :: "string \<rightharpoonup> string"
  retryCount :: "string \<rightharpoonup> nat"

text \<open>The field initialisers of the class.\<close>

definition newController :: controller where
  "newController = \<lparr>page = None, elementMap = Map.empty, retryCount = Map.empty\<rparr>"

text \<open>
  A method of the controller returns its envelope (\<open>Inr\<close>) or throws (\<open>Inl\<close>), and leaves
  a controller and a browser state behind.
\<close>

type_synonym 'b outcome = "(string + tool_result) \<times> controller \<times> 'b"

definition initialize :: "'b playwright \<Rightarrow> controller \<Rightarrow> 'b \<Rightarrow> (string + unit) \<times> controller \<times> 'b" where
  "initialize pw c b =
     (case launch pw b of
        (Inl e, b1) \<Rightarrow> (Inl e, c, b1)
      | (Inr u, b1) \<Rightarrow> (Inr (), c\<lparr>page := Some PageHandle\<rparr>, b1))"

definition getPage :: "controller \<Rightarrow> string + page_handle" where
  "getPage c = (case page c of None \<Rightarrow> Inl ''Error: Browser not initialized'' | Some p \<Rightarrow> Inr p)"

definition getRetryKey :: "string \<Rightarrow> string list \<Rightarrow> string" where
  "getRetryKey action args = action @ '':'' @ join '':'' args"

definition checkRetryLimit :: "string \<Rightarrow> controller \<Rightarrow> bool \<times> controller" where
  "checkRetryLimit key c =
     (let count = (case retryCount c key of None \<Rightarrow> 0 | Some n \<Rightarrow> n)
      in if count \<ge> 3 then (False, c\<lparr>retryCount := (retryCount c)(key := None)\<rparr>)
         else (True, c\<lparr>retryCount := (retryCount c)(key \<mapsto> count + 1)\<rparr>))"

definition clearRetry :: "string \<Rightarrow> controller \<Rightarrow> controller" where
  "clearRetry key c = c\<lparr>retryCount := (retryCount c)(key := None)\<rparr>"

subsection \<open>navigate\<close>

definition navigateCatch :: "string \<Rightarrow> string \<Rightarrow> controller \<Rightarrow> 'b \<Rightarrow> 'b outcome" where
  "navigateCatch retryKey err c b =
     (case checkRetryLimit retryKey c of
        (True, c1) \<Rightarrow> (Inr (failure (''Navigation failed: '' @ err @ ''. Retrying...'')), c1, b)
      | (False, c1) \<Rightarrow> (Inr (failure (''Navigation failed after retries: '' @ err)), c1, b))"

definition navigate :: "'b playwright \<Rightarrow> string \<Rightarrow> controller \<Rightarrow> 'b \<Rightarrow> 'b outcome" where
  "navigate pw url0 c b =
     (case getPage c of
        Inl e \<Rightarrow> (Inl e, c, b)
      | Inr p \<Rightarrow>
          (let retryKey = getRetryKey ''navigate'' [url0];
               url1 = (if \<not> startsWith url0 ''http://'' \<and> \<not> startsWith url0 ''https://''
                       then ''https://'' @ url0 else url0)
           in case goto pw url1 b of
                (Inl err, b1) \<Rightarrow> navigateCatch retryKey err c b1
              | (Inr u, b1) \<Rightarrow>
                  (let c1 = clearRetry retryKey c; shown = pageUrl pw b1
                   in case pageTitle pw b1 of
                        (Inl err, b2) \<Rightarrow> navigateCatch retryKey err c1 b2
                      | (Inr t, b2) \<Rightarrow>
                          (Inr (succeeded (DataJs (JObj [(''url'', JStr shown), (''title'', JStr t)]))),
                           c1, b2))))"

text \<open>
  The handlers cast the parsed arguments of a tool to its argument interface and pass them
  on, so a method can receive any value where it declares a string. \<open>navigate\<close> then
  builds its key, which can throw, and fails inside its \<open>try\<close> on \<open>url.startsWith\<close>.
\<close>

definition startsWithError :: "jsval \<Rightarrow> string" where
  "startsWithError v =
     (case v of
        JUndefined \<Rightarrow>
          ''TypeError: Cannot read properties of undefined (reading '' @ [CHR 0x27] @
          ''startsWith'' @ [CHR 0x27] @ '')''
      | JNull \<Rightarrow>
          ''TypeError: Cannot read properties of null (reading '' @ [CHR 0x27] @
          ''startsWith'' @ [CHR 0x27] @ '')''
      | _ \<Rightarrow> ''TypeError: url.startsWith is not a function'')"

definition navigateUntyped :: "'b playwright \<Rightarrow> jsval \<Rightarrow> controller \<Rightarrow> 'b \<Rightarrow> 'b outcome" where
  "navigateUntyped pw v c b =
     (case v of
        JStr url0 \<Rightarrow> navigate pw url0 c b
      | _ \<Rightarrow>
          (case getPage c of
             Inl e \<Rightarrow> (Inl e, c, b)
           | Inr p \<Rightarrow>
               (case joinParts [v] of
                  Inl e \<Rightarrow> (Inl e, c, b)
                | Inr parts \<Rightarrow>
                    navigateCatch (getRetryKey ''navigate'' parts) (startsWithError v) c b)))"

subsection \<open>click\<close>

text \<open>The error for a ref that does not resolve.\<close>

definition clickNotFound :: "string \<Rightarrow> string" where
  "clickNotFound r =
     ''Element '' @ [CHR 0x22] @ r @ [CHR 0x22] @
     '' not found. Call get_page_context() first to refresh elements.''"

definition clickPrimary :: "'b playwright \<Rightarrow> string \<Rightarrow> ('b, unit) action" where
  "clickPrimary pw sel = andThen (scrollIntoViewIfNeeded pw sel) (\<lambda>u. locatorClick pw sel False 1)"

text \<open>The \<open>try\<close> statement of \<open>click\<close>, entered once the ref has resolved to a selector.\<close>

definition clickSelector :: "'b playwright \<Rightarrow> string \<Rightarrow> string \<Rightarrow> controller \<Rightarrow> 'b \<Rightarrow> 'b outcome" where
  "clickSelector pw r sel c b =
     (let retryKey = getRetryKey ''click'' [r]
      in case clickPrimary pw sel b of
           (Inr u, b1) \<Rightarrow>
             (Inr (succeeded (DataJs (JObj [(''clicked'', JStr r)]))), clearRetry retryKey c, b1)
         | (Inl err, b1) \<Rightarrow>
             (case checkRetryLimit retryKey c of
                (True, c1) \<Rightarrow>
                  (case locatorClick pw sel True 1 b1 of
                     (Inr u, b2) \<Rightarrow>
                       (Inr (succeeded (DataJs (JObj [(''clicked'', JStr r), (''forced'', JBool True)]))),
                        clearRetry retryKey c1, b2)
                   | (Inl err2, b2) \<Rightarrow>
                       (Inr (failure (''Click failed: '' @ err @
                                      ''. Try scrolling or refreshing page context.'')), c1, b2))
              | (False, c1) \<Rightarrow>
                  (Inr (failure (''Click failed after retries: '' @ err)), c1, b1)))"

definition click :: "'b playwright \<Rightarrow> string \<Rightarrow> controller \<Rightarrow> 'b \<Rightarrow> 'b outcome" where
  "click pw r c b =
     (case getPage c of
        Inl e \<Rightarrow> (Inl e, c, b)
      | Inr p \<Rightarrow>
          (case elementMap c r of
             None \<Rightarrow> (Inr (failure (clickNotFound r)), c, b)
           | Some sel \<Rightarrow>
               if sel = [] then (Inr (failure (clickNotFound r)), c, b)
               else clickSelector pw r sel c b))"

text \<open>
  A ref that is not a string is no key of the element map: once the key of the retry
  counter is built, the call reports the ref as not found, printed as the template literal
  prints it.
\<close>

definition clickUntyped :: "'b playwright \<Rightarrow> jsval \<Rightarrow> controller \<Rightarrow> 'b \<Rightarrow> 'b outcome" where
  "clickUntyped pw v c b =
     (case v of
        JStr r \<Rightarrow> click pw r c b
      | _ \<Rightarrow>
          (case getPage c of
             Inl e \<Rightarrow> (Inl e, c, b)
           | Inr p \<Rightarrow>
               (case joinParts [v] of
                  Inl e \<Rightarrow> (Inl e, c, b)
                | Inr parts \<Rightarrow>
                    (case jsString v of
                       Inl e \<Rightarrow> (Inl e, c, b)
                     | Inr shown \<Rightarrow> (Inr (failure (clickNotFound shown)), c, b)))))"

subsection \<open>typeText\<close>

text \<open>
  The text and \<open>pressEnter\<close> are the values handed over. \<open>pressEnter\<close> is tested for
  truthiness; its default \<open>false\<close> replaces \<open>undefined\<close>, which shows in the data of the
  result only.
\<close>

definition typeNotFound :: "string \<Rightarrow> string" where
  "typeNotFound r =
     ''Element '' @ [CHR 0x22] @ r @ [CHR 0x22] @ '' not found. Call get_page_context() first.''"

definition pressEnterIf :: "'b playwright \<Rightarrow> jsval \<Rightarrow> ('b, unit) action" where
  "pressEnterIf pw pressEnter =
     (if jsTruthy pressEnter then keyboardPress pw ''Enter'' else succeed ())"

definition typePrimary :: "'b playwright \<Rightarrow> string \<Rightarrow> jsval \<Rightarrow> jsval \<Rightarrow> ('b, unit) action" where
  "typePrimary pw sel txt pressEnter =
     andThen (scrollIntoViewIfNeeded pw sel) (\<lambda>u.
     andThen (locatorClick pw sel False 1) (\<lambda>u.
     andThen (locatorClick pw sel False 3) (\<lambda>u.
     andThen (keyboardPress pw ''Delete'') (\<lambda>u.
     andThen (keyboardType pw txt) (\<lambda>u.
     pressEnterIf pw pressEnter)))))"

definition typeFill :: "'b playwright \<Rightarrow> string \<Rightarrow> jsval \<Rightarrow> jsval \<Rightarrow> ('b, unit) action" where
  "typeFill pw sel txt pressEnter =
     andThen (scrollIntoViewIfNeeded pw sel) (\<lambda>u.
     andThen (locatorFill pw sel txt) (\<lambda>u.
     pressEnterIf pw pressEnter))"

definition typeSequentially :: "'b playwright \<Rightarrow> string \<Rightarrow> jsval \<Rightarrow> jsval \<Rightarrow> ('b, unit) action" where
  "typeSequentially pw sel txt pressEnter =
     andThen (locatorClick pw sel False 1) (\<lambda>u.
     andThen (pressSequentially pw sel txt) (\<lambda>u.
     pressEnterIf pw pressEnter))"

definition typedData :: "jsval \<Rightarrow> jsval \<Rightarrow> (string \<times> jsval) list \<Rightarrow> tool_data" where
  "typedData txt pressEnter extra =
     DataJs (JObj ([(''typed'', txt),
                    (''pressedEnter'', if pressEnter = JUndefined then JBool False else pressEnter)] @
                   extra))"

definition typeSelector ::
  "'b playwright \<Rightarrow> string \<Rightarrow> string \<Rightarrow> jsval \<Rightarrow> jsval \<Rightarrow> controller \<Rightarrow> 'b \<Rightarrow> 'b outcome" where
  "typeSelector pw r sel txt pressEnter c b =
     (let retryKey = getRetryKey ''type'' [r]
      in case typePrimary pw sel txt pressEnter b of
           (Inr u, b1) \<Rightarrow> (Inr (succeeded (typedData txt pressEnter [])), clearRetry retryKey c, b1)
         | (Inl err, b1) \<Rightarrow>
             (case checkRetryLimit retryKey c of
                (True, c1) \<Rightarrow>
                  (case typeFill pw sel txt pressEnter b1 of
                     (Inr u, b2) \<Rightarrow>
                       (Inr (succeeded (typedData txt pressEnter [(''method'', JStr ''fill'')])),
                        clearRetry retryKey c1, b2)
                   | (Inl fillError, b2) \<Rightarrow>
                       (case typeSequentially pw sel txt pressEnter b2 of
                          (Inr u, b3) \<Rightarrow>
                            (Inr (succeeded (typedData txt pressEnter
                                   [(''method'', JStr ''pressSequentially'')])),
                             clearRetry retryKey c1, b3)
                        | (Inl err3, b3) \<Rightarrow>
                            (Inr (failure (''All type methods failed. Last error: '' @ err)), c1, b3)))
              | (False, c1) \<Rightarrow>
                  (Inr (failure (''Type failed after retries: '' @ err)), c1, b1)))"

definition typeText ::
  "'b playwright \<Rightarrow> string \<Rightarrow> jsval \<Rightarrow> jsval \<Rightarrow> controller \<Rightarrow> 'b \<Rightarrow> 'b outcome" where
  "typeText pw r txt pressEnter c b =
     (case getPage c of
        Inl e \<Rightarrow> (Inl e, c, b)
      | Inr p \<Rightarrow>
          (case elementMap c r of
             None \<Rightarrow> (Inr (failure (typeNotFound r)), c, b)
           | Some sel \<Rightarrow>
               if sel = [] then (Inr (failure (typeNotFound r)), c, b)
               else typeSelector pw r sel txt pressEnter c b))"

definition typeTextUntyped ::
  "'b playwright \<Rightarrow> jsval \<Rightarrow> jsval \<Rightarrow> jsval \<Rightarrow> controller \<Rightarrow> 'b \<Rightarrow> 'b outcome" where
  "typeTextUntyped pw v txt pressEnter c b =
     (case v of
        JStr r \<Rightarrow> typeText pw r txt pressEnter c b
      | _ \<Rightarrow>
          (case getPage c of
             Inl e \<Rightarrow> (Inl e, c, b)
           | Inr p \<Rightarrow>
               (case joinParts [v] of
                  Inl e \<Rightarrow> (Inl e, c, b)
                | Inr parts \<Rightarrow>
                    (case jsString v of
                       Inl e \<Rightarrow> (Inl e, c, b)
                     | Inr shown \<Rightarrow> (Inr (failure (typeNotFound shown)), c, b)))))"

subsection \<open>scroll\<close>

text \<open>The direction is the value handed over; every value other than \<open>down\<close> scrolls up.\<close>

definition scroll :: "'b playwright \<Rightarrow> jsval \<Rightarrow> controller \<Rightarrow> 'b \<Rightarrow> 'b outcome" where
  "scroll pw direction c b =
     (case getPage c of
        Inl e \<Rightarrow> (Inl e, c, b)
      | Inr p \<Rightarrow>
          (let delta = (if direction = JStr ''down'' then 500 else - 500)
           in case mouseWheel pw delta b of
                (Inr u, b1) \<Rightarrow>
                  (Inr (succeeded (DataJs (JObj [(''scrolled'', direction)]))), c, b1)
              | (Inl err, b1) \<Rightarrow> (Inr (failure (''Scroll failed: '' @ err)), c, b1)))"

subsection \<open>getPageContext and the extractions\<close>

definition extractPageContext :: "'b playwright \<Rightarrow> ('b, page_context) action" where
  "extractPageContext pw b =
     (let shown = pageUrl pw b
      in andThen (pageTitle pw) (\<lambda>t.
         andThen (evaluateDocument pw) (\<lambda>doc.
         succeed \<lparr>url = shown, title = t, elements = pageElements (collectElements doc)\<rparr>)) b)"

text \<open>\<open>elementMap.clear()\<close> followed by one \<open>set\<close> per element, in order.\<close>

definition refreshMap :: "page_element list \<Rightarrow> (string \<rightharpoonup> string)" where
  "refreshMap els = fold (\<lambda>el m. m(ref el \<mapsto> selector el)) els Map.empty"

definition getPageContext :: "'b playwright \<Rightarrow> controller \<Rightarrow> 'b \<Rightarrow> 'b outcome" where
  "getPageContext pw c b =
     (case getPage c of
        Inl e \<Rightarrow> (Inl e, c, b)
      | Inr p \<Rightarrow>
          (case andThen (waitForLoadState pw) (\<lambda>u. extractPageContext pw) b of
             (Inr ctx, b1) \<Rightarrow>
               (Inr (succeeded (DataContext ctx)), c\<lparr>elementMap := refreshMap (elements ctx)\<rparr>, b1)
           | (Inl err, b1) \<Rightarrow>
               (Inr (failure (''Failed to extract page context: '' @ err)), c, b1)))"

text \<open>
  The five remaining methods have one shape: run an extraction script, wrap its value or
  report its error.
\<close>

definition extraction ::
  "('b, 'a) action \<Rightarrow> ('a \<Rightarrow> jsval) \<Rightarrow> string \<Rightarrow> controller \<Rightarrow> 'b \<Rightarrow> 'b outcome" where
  "extraction script wrap what c b =
     (case getPage c of
        Inl e \<Rightarrow> (Inl e, c, b)
      | Inr p \<Rightarrow>
          (case script b of
             (Inr v, b1) \<Rightarrow> (Inr (succeeded (DataJs (wrap v))), c, b1)
           | (Inl err, b1) \<Rightarrow> (Inr (failure (''Failed to '' @ what @ '': '' @ err)), c, b1)))"

definition extractCandidates :: "'b playwright \<Rightarrow> controller \<Rightarrow> 'b \<Rightarrow> 'b outcome" where
  "extractCandidates pw =
     extraction (evalCandidates pw) (\<lambda>v. JObj [(''candidates'', v)]) ''extract candidates''"

definition extractSocialLinks :: "'b playwright \<Rightarrow> controller \<Rightarrow> 'b \<Rightarrow> 'b outcome" where
  "extractSocialLinks pw = extraction (evalSocialLinks pw) (\<lambda>v. v) ''extract social links''"

definition extractProfileTabs :: "'b playwright \<Rightarrow> controller \<Rightarrow> 'b \<Rightarrow> 'b outcome" where
  "extractProfileTabs pw = extraction (evalProfileTabs pw) (\<lambda>v. v) ''extract profile tabs''"

definition extractDetailedProfileInfo :: "'b playwright \<Rightarrow> controller \<Rightarrow> 'b \<Rightarrow> 'b outcome" where
  "extractDetailedProfileInfo pw =
     extraction (evalDetailedProfileInfo pw) (\<lambda>v. v) ''extract detailed profile info''"

definition getPageTextSummary :: "'b playwright \<Rightarrow> controller \<Rightarrow> 'b \<Rightarrow> 'b outcome" where
  "getPageTextSummary pw = extraction (evalPageTextSummary pw) JStr ''get page text summary''"

section \<open>The agents\<close>

subsection \<open>Conversation, collaborators and state\<close>

record tool_call =
  callId :: string
  callName :: string
  callArguments :: string

text \<open>A model proposal; an absent \<open>tool_calls\<close> is the empty list.\<close>

record assistant_message =
  content :: "string option"
  toolCalls :: "tool_call list"

text \<open>
  A tool entry carries the invocation identifier and the value whose JSON text the source
  stores as its content.
\<close>

datatype message =
    SystemMessage string
  | UserMessage string
  | AssistantMessage assistant_message
  | ToolMessage string jsval

text \<open>
  The world outside the process: the browser, the person at the terminal and the
  inference service, each with a state of its own.
\<close>

record ('b, 'h, 'l) world =
  browserState :: 'b
  humanState :: 'h
  modelState :: 'l

text \<open>
  The collaborators: Playwright, \<open>rl.question\<close>, the two chat completion calls (each
  returns \<open>choices[0].message\<close> or throws), \<open>JSON.parse\<close> (\<open>None\<close> when it throws), the
  environment variable with the API key, and the prompt texts.
\<close>

record ('b, 'h, 'l) collaborators =
  playwrightOps :: "'b playwright"
  question :: "string \<Rightarrow> ('h, string) action"
  chatMain :: "message list \<Rightarrow> ('l, assistant_message) action"
  chatSub :: "message list \<Rightarrow> ('l, assistant_message) action"
  jsonParse :: "string \<Rightarrow> jsval option"
  apiKey :: "string option"
  systemPrompt :: string
  formatTaskPrompt :: "string \<Rightarrow> string"
  subAgentSystemPrompt :: string

record profile_scan_result =
  scanSuccess :: bool
  profileUrl :: jsval
  socialLinks :: jsval
  tldrSummary :: jsval
  additionalData :: jsval

record sub_agent =
  scanComplete :: bool
  scanResult :: "profile_scan_result option"

record task_result =
  taskSuccess :: bool
  candidates :: jsval
  summary :: jsval

record coordinator =
  messages :: "message list"
  taskComplete :: bool
  taskResult :: "task_result option"
  browser :: controller
  subAgent :: "sub_agent option"

subsection \<open>Tool arguments and results as values\<close>

text \<open>Reading a property throws a TypeError on \<open>null\<close> and \<open>undefined\<close>.\<close>

fun getProp :: "jsval \<Rightarrow> string \<Rightarrow> string + jsval" where
  "getProp JUndefined k =
     Inl (''TypeError: Cannot read properties of undefined (reading '' @ [CHR 0x27] @ k @ [CHR 0x27] @ '')'')"
| "getProp JNull k =
     Inl (''TypeError: Cannot read properties of null (reading '' @ [CHR 0x27] @ k @ [CHR 0x27] @ '')'')"
| "getProp (JObj props) k = Inr (case map_of props k of None \<Rightarrow> JUndefined | Some v \<Rightarrow> v)"
| "getProp v k = Inr JUndefined"

definition elementJs :: "page_element \<Rightarrow> jsval" where
  "elementJs e =
     JObj ([(''ref'', JStr (ref e)), (''type'', JStr (elemType e)), (''text'', JStr (elemText e)),
            (''selector'', JStr (selector e))] @
           (case href e of None \<Rightarrow> [] | Some h \<Rightarrow> [(''href'', JStr h)]))"

definition contextJs :: "page_context \<Rightarrow> jsval" where
  "contextJs ctx =
     JObj [(''url'', JStr (url ctx)), (''title'', JStr (title ctx)),
           (''elements'', JArr (map elementJs (elements ctx)))]"

definition dataJs :: "tool_data \<Rightarrow> jsval" where
  "dataJs d = (case d of DataJs v \<Rightarrow> v | DataContext ctx \<Rightarrow> contextJs ctx)"

definition toolResultJs :: "tool_result \<Rightarrow> jsval" where
  "toolResultJs r =
     JObj ([(''success'', JBool (success r))] @
           (case resultData r of None \<Rightarrow> [] | Some d \<Rightarrow> [(''data'', dataJs d)]) @
           (case resultError r of None \<Rightarrow> [] | Some e \<Rightarrow> [(''error'', JStr e)]))"

text \<open>\<open>r.success ? r.data : fallback\<close>.\<close>

definition dataOr :: "tool_result \<Rightarrow> jsval \<Rightarrow> jsval" where
  "dataOr r fallback =
     (if success r then (case resultData r of None \<Rightarrow> JUndefined | Some d \<Rightarrow> dataJs d)
      else fallback)"

definition textOr :: "tool_result \<Rightarrow> string" where
  "textOr r =
     (if success r then (case resultData r of Some (DataJs (JStr s)) \<Rightarrow> s | _ \<Rightarrow> []) else [])"

subsection \<open>The profile scanner sub-agent\<close>

abbreviation SUB_AGENT_MAX_ITERATIONS :: nat where
  "SUB_AGENT_MAX_ITERATIONS \<equiv> 15"

text \<open>
  A method of the sub-agent returns a value or throws, and leaves the sub-agent, the
  controller it shares with the coordinator, and the world behind.
\<close>

type_synonym ('a, 'b, 'h, 'l) scan_outcome =
  "(string + 'a) \<times> sub_agent \<times> controller \<times> ('b, 'h, 'l) world"

definition onBrowser ::
  "(controller \<Rightarrow> 'b \<Rightarrow> 'b outcome) \<Rightarrow> sub_agent \<Rightarrow> controller \<Rightarrow> ('b, 'h, 'l) world \<Rightarrow>
   (tool_result, 'b, 'h, 'l) scan_outcome" where
  "onBrowser method sub c w =
     (case method c (browserState w) of
        (r, c1, b1) \<Rightarrow> (r, sub, c1, w\<lparr>browserState := b1\<rparr>))"

definition newSubAgent :: "('b, 'h, 'l) collaborators \<Rightarrow> string + sub_agent" where
  "newSubAgent env =
     (if truthy (apiKey env) then Inr \<lparr>scanComplete = False, scanResult = None\<rparr>
      else Inl ''Error: OPENAI_API_KEY environment variable is required'')"

definition completeScan :: "jsval \<Rightarrow> jsval \<Rightarrow> jsval \<Rightarrow> sub_agent \<Rightarrow> jsval \<times> sub_agent" where
  "completeScan links tldr extra sub =
     (JObj [(''success'', JBool True), (''message'', JStr ''Scan completed'')],
      sub\<lparr>scanComplete := True,
          scanResult := Some \<lparr>scanSuccess = True, profileUrl = JStr [],
                              socialLinks = (if jsTruthy links then links else JObj []),
                              tldrSummary = (if jsTruthy tldr then tldr
                                             else JStr ''No summary generated''),
                              additionalData = extra\<rparr>\<rparr>)"

definition extractProfileData ::
  "('b, 'h, 'l) collaborators \<Rightarrow> sub_agent \<Rightarrow> controller \<Rightarrow> ('b, 'h, 'l) world \<Rightarrow>
   (jsval, 'b, 'h, 'l) scan_outcome" where
  "extractProfileData env sub c w =
     (case onBrowser (extractSocialLinks (playwrightOps env)) sub c w of
        (Inl e, sub1, c1, w1) \<Rightarrow> (Inl e, sub1, c1, w1)
      | (Inr links, sub1, c1, w1) \<Rightarrow>
     (case onBrowser (extractProfileTabs (playwrightOps env)) sub1 c1 w1 of
        (Inl e, sub2, c2, w2) \<Rightarrow> (Inl e, sub2, c2, w2)
      | (Inr tabs, sub2, c2, w2) \<Rightarrow>
     (case onBrowser (extractDetailedProfileInfo (playwrightOps env)) sub2 c2 w2 of
        (Inl e, sub3, c3, w3) \<Rightarrow> (Inl e, sub3, c3, w3)
      | (Inr info, sub3, c3, w3) \<Rightarrow>
     (case onBrowser (getPageTextSummary (playwrightOps env)) sub3 c3 w3 of
        (Inl e, sub4, c4, w4) \<Rightarrow> (Inl e, sub4, c4, w4)
      | (Inr pageText, sub4, c4, w4) \<Rightarrow>
          (Inr (JObj [(''success'', JBool True),
                      (''socialLinks'', dataOr links (JObj [])),
                      (''tabs'', dataOr tabs (JArr [])),
                      (''detailedInfo'', dataOr info (JObj [])),
                      (''pageTextPreview'', JStr (take 500 (textOr pageText)))]),
           sub4, c4, w4)))))"

definition parseArguments :: "('b, 'h, 'l) collaborators \<Rightarrow> tool_call \<Rightarrow> jsval" where
  "parseArguments env toolCall =
     (case jsonParse env (callArguments toolCall) of None \<Rightarrow> JObj [] | Some args \<Rightarrow> args)"

definition resultJs :: "(tool_result, 'b, 'h, 'l) scan_outcome \<Rightarrow> (jsval, 'b, 'h, 'l) scan_outcome" where
  "resultJs out =
     (case out of
        (Inl e, rest) \<Rightarrow> (Inl e, rest)
      | (Inr r, rest) \<Rightarrow> (Inr (toolResultJs r), rest))"

definition executeSubAgentTool ::
  "('b, 'h, 'l) collaborators \<Rightarrow> tool_call \<Rightarrow> sub_agent \<Rightarrow> controller \<Rightarrow> ('b, 'h, 'l) world \<Rightarrow>
   (jsval, 'b, 'h, 'l) scan_outcome" where
  "executeSubAgentTool env toolCall sub c w =
     (let name = callName toolCall; args = parseArguments env toolCall
      in if name = ''get_page_context''
         then resultJs (onBrowser (getPageContext (playwrightOps env)) sub c w)
         else if name = ''click''
         then (case getProp args ''ref'' of
                 Inl e \<Rightarrow> (Inl e, sub, c, w)
               | Inr r \<Rightarrow> resultJs (onBrowser (clickUntyped (playwrightOps env) r) sub c w))
         else if name = ''scroll''
         then (case getProp args ''direction'' of
                 Inl e \<Rightarrow> (Inl e, sub, c, w)
               | Inr d \<Rightarrow> resultJs (onBrowser (scroll (playwrightOps env) d) sub c w))
         else if name = ''extract_profile_data''
         then extractProfileData env sub c w
         else if name = ''complete_scan''
         then (case getProp args ''socialLinks'' of
                 Inl e \<Rightarrow> (Inl e, sub, c, w)
               | Inr links \<Rightarrow>
             (case getProp args ''tldrSummary'' of
                 Inl e \<Rightarrow> (Inl e, sub, c, w)
               | Inr tldr \<Rightarrow>
             (case getProp args ''additionalData'' of
                 Inl e \<Rightarrow> (Inl e, sub, c, w)
               | Inr extra \<Rightarrow>
                   (case completeScan links tldr extra sub of
                      (v, sub1) \<Rightarrow> (Inr v, sub1, c, w)))))
         else (Inr (JObj [(''error'', JStr (''Unknown tool: '' @ name))]), sub, c, w))"

text \<open>
  The \<open>for\<close> loop over the tool calls of one response. An exception leaves the loop with the
  entries appended so far.
\<close>

fun runSubAgentTools ::
  "('b, 'h, 'l) collaborators \<Rightarrow> tool_call list \<Rightarrow> message list \<Rightarrow> sub_agent \<Rightarrow> controller \<Rightarrow>
   ('b, 'h, 'l) world \<Rightarrow> (string + unit) \<times> message list \<times> sub_agent \<times> controller \<times> ('b, 'h, 'l) world" where
  "runSubAgentTools env [] msgs sub c w = (Inr (), msgs, sub, c, w)"
| "runSubAgentTools env (toolCall # rest) msgs sub c w =
     (case executeSubAgentTool env toolCall sub c w of
        (Inl e, sub1, c1, w1) \<Rightarrow> (Inl e, msgs, sub1, c1, w1)
      | (Inr result, sub1, c1, w1) \<Rightarrow>
          runSubAgentTools env rest (msgs @ [ToolMessage (callId toolCall) result]) sub1 c1 w1)"

text \<open>
  One pass of the \<open>while\<close> loop of \<open>scanProfile\<close>. The first component is \<open>False\<close> when the
  pass ends in the \<open>catch\<close> block, which breaks out of the loop.
\<close>

definition scanIteration ::
  "('b, 'h, 'l) collaborators \<Rightarrow> message list \<Rightarrow> sub_agent \<Rightarrow> controller \<Rightarrow> ('b, 'h, 'l) world \<Rightarrow>
   bool \<times> message list \<times> sub_agent \<times> controller \<times> ('b, 'h, 'l) world" where
  "scanIteration env msgs sub c w =
     (case chatSub env msgs (modelState w) of
        (Inl e, l1) \<Rightarrow> (False, msgs, sub, c, w\<lparr>modelState := l1\<rparr>)
      | (Inr response, l1) \<Rightarrow>
          if toolCalls response \<noteq> []
          then (case runSubAgentTools env (toolCalls response) (msgs @ [AssistantMessage response])
                       sub c (w\<lparr>modelState := l1\<rparr>) of
                  (Inl e, rest) \<Rightarrow> (False, rest)
                | (Inr u, rest) \<Rightarrow> (True, rest))
          else if truthy (content response)
          then (True, msgs @ [AssistantMessage response], sub, c, w\<lparr>modelState := l1\<rparr>)
          else (True, msgs, sub, c, w\<lparr>modelState := l1\<rparr>))"

function scanLoop ::
  "('b, 'h, 'l) collaborators \<Rightarrow> nat \<Rightarrow> message list \<Rightarrow> sub_agent \<Rightarrow> controller \<Rightarrow>
   ('b, 'h, 'l) world \<Rightarrow> nat \<times> message list \<times> sub_agent \<times> controller \<times> ('b, 'h, 'l) world" where
  "scanLoop env iteration msgs sub c w =
     (if \<not> scanComplete sub \<and> iteration < SUB_AGENT_MAX_ITERATIONS
      then (case scanIteration env msgs sub c w of
              (True, msgs1, sub1, c1, w1) \<Rightarrow> scanLoop env (iteration + 1) msgs1 sub1 c1 w1
            | (False, rest) \<Rightarrow> (iteration + 1, rest))
      else (iteration, msgs, sub, c, w))"
  by pat_completeness auto
termination
  by (relation "measure (\<lambda>(env, iteration, rest). SUB_AGENT_MAX_ITERATIONS - iteration)") auto

declare scanLoop.simps [simp del]

definition scanTask :: "string \<Rightarrow> string \<Rightarrow> string" where
  "scanTask target username =
     ''Scan this profile thoroughly: '' @ target @ [CHR 0x0A] @ ''Username: '' @ username @
     [CHR 0x0A, CHR 0x0A] @
     ''Start by extracting profile data, then explore tabs and create a TL;DR summary.''"

text \<open>The result synthesised when the loop ends without \<open>complete_scan\<close>.\<close>

definition fallbackScan ::
  "('b, 'h, 'l) collaborators \<Rightarrow> string \<Rightarrow> sub_agent \<Rightarrow> controller \<Rightarrow> ('b, 'h, 'l) world \<Rightarrow>
   (profile_scan_result, 'b, 'h, 'l) scan_outcome" where
  "fallbackScan env target sub c w =
     (case onBrowser (extractSocialLinks (playwrightOps env)) sub c w of
        (Inl e, sub1, c1, w1) \<Rightarrow> (Inl e, sub1, c1, w1)
      | (Inr links, sub1, c1, w1) \<Rightarrow>
     (case onBrowser (getPageTextSummary (playwrightOps env)) sub1 c1 w1 of
        (Inl e, sub2, c2, w2) \<Rightarrow> (Inl e, sub2, c2, w2)
      | (Inr pageTextResult, sub2, c2, w2) \<Rightarrow>
          (let result = \<lparr>scanSuccess = True, profileUrl = JStr target,
                         socialLinks = dataOr links (JObj []),
                         tldrSummary = JStr (''Profile scanned (fallback): '' @
                                             take 200 (textOr pageTextResult) @ ''...''),
                         additionalData = JUndefined\<rparr>
           in (Inr result, sub2\<lparr>scanResult := Some result\<rparr>, c2, w2))))"

text \<open>
  The line that \<open>scanProfile\<close> prints before it returns,
  \<open>`TL;DR: ${this.scanResult.tldrSummary?.slice(0, 80)}...`\<close>: a summary that is neither
  absent, a string nor an array has no \<open>slice\<close> to call.
\<close>

definition summaryLine :: "jsval \<Rightarrow> string + string" where
  "summaryLine v =
     (case v of
        JUndefined \<Rightarrow> Inr ''TL;DR: undefined...''
      | JNull \<Rightarrow> Inr ''TL;DR: undefined...''
      | JStr s \<Rightarrow> Inr (''TL;DR: '' @ take 80 s @ ''...'')
      | JArr xs \<Rightarrow>
          (case jsString (JArr (take 80 xs)) of
             Inl e \<Rightarrow> Inl e
           | Inr shown \<Rightarrow> Inr (''TL;DR: '' @ shown @ ''...''))
      | _ \<Rightarrow> Inl ''TypeError: this.scanResult.tldrSummary?.slice is not a function'')"

definition announce ::
  "(profile_scan_result, 'b, 'h, 'l) scan_outcome \<Rightarrow> (profile_scan_result, 'b, 'h, 'l) scan_outcome" where
  "announce out =
     (case out of
        (Inl e, rest) \<Rightarrow> (Inl e, rest)
      | (Inr result, rest) \<Rightarrow>
          (case summaryLine (tldrSummary result) of
             Inl e \<Rightarrow> (Inl e, rest)
           | Inr line \<Rightarrow> (Inr result, rest)))"

definition scanProfile ::
  "('b, 'h, 'l) collaborators \<Rightarrow> string \<Rightarrow> string \<Rightarrow> sub_agent \<Rightarrow> controller \<Rightarrow>
   ('b, 'h, 'l) world \<Rightarrow> (profile_scan_result, 'b, 'h, 'l) scan_outcome" where
  "scanProfile env target username sub c w =
     (let sub0 = sub\<lparr>scanComplete := False, scanResult := None\<rparr>
      in case onBrowser (navigate (playwrightOps env) target) sub0 c w of
           (Inl e, sub1, c1, w1) \<Rightarrow> (Inl e, sub1, c1, w1)
         | (Inr currentUrl, sub1, c1, w1) \<Rightarrow>
             if \<not> success currentUrl
             then (Inr \<lparr>scanSuccess = False, profileUrl = JStr target, socialLinks = JObj [],
                        tldrSummary = JStr ''Failed to scan profile - navigation error'',
                        additionalData = JUndefined\<rparr>, sub1, c1, w1)
             else (case scanLoop env 0 [SystemMessage (subAgentSystemPrompt env),
                                         UserMessage (scanTask target username)] sub1 c1 w1 of
                     (iteration, msgs, sub2, c2, w2) \<Rightarrow>
                       announce
                         (case scanResult sub2 of
                            Some result \<Rightarrow> (Inr result, sub2, c2, w2)
                          | None \<Rightarrow> fallbackScan env target sub2 c2 w2)))"

text \<open>
  \<open>scanProfile\<close> as the coordinator calls it, with the values of the arguments. The banner
  needs \<open>username.slice(0, 45).padEnd(45)\<close>, which only a string has. A URL that is not a
  string makes \<open>navigate\<close> fail or throw, so the scan ends with the result of a failed
  navigation, which carries the value as its URL.
\<close>

definition usernameError :: "jsval \<Rightarrow> string" where
  "usernameError v =
     (case v of
        JUndefined \<Rightarrow>
          ''TypeError: Cannot read properties of undefined (reading '' @ [CHR 0x27] @ ''slice'' @
          [CHR 0x27] @ '')''
      | JNull \<Rightarrow>
          ''TypeError: Cannot read properties of null (reading '' @ [CHR 0x27] @ ''slice'' @
          [CHR 0x27] @ '')''
      | JArr xs \<Rightarrow> ''TypeError: username.slice(...).padEnd is not a function''
      | _ \<Rightarrow> ''TypeError: username.slice is not a function'')"

definition scanProfileUntyped ::
  "('b, 'h, 'l) collaborators \<Rightarrow> jsval \<Rightarrow> jsval \<Rightarrow> sub_agent \<Rightarrow> controller \<Rightarrow>
   ('b, 'h, 'l) world \<Rightarrow> (profile_scan_result, 'b, 'h, 'l) scan_outcome" where
  "scanProfileUntyped env target username sub c w =
     (let sub0 = sub\<lparr>scanComplete := False, scanResult := None\<rparr>
      in case username of
           JStr name \<Rightarrow>
             (case target of
                JStr address \<Rightarrow> scanProfile env address name sub c w
              | _ \<Rightarrow>
                  (case onBrowser (navigateUntyped (playwrightOps env) target) sub0 c w of
                     (Inl e, sub1, c1, w1) \<Rightarrow> (Inl e, sub1, c1, w1)
                   | (Inr currentUrl, sub1, c1, w1) \<Rightarrow>
                       (Inr \<lparr>scanSuccess = False, profileUrl = target, socialLinks = JObj [],
                             tldrSummary = JStr ''Failed to scan profile - navigation error'',
                             additionalData = JUndefined\<rparr>, sub1, c1, w1)))
         | _ \<Rightarrow> (Inl (usernameError username), sub0, c, w))"

subsection \<open>The coordinator\<close>

abbreviation MAX_ITERATIONS :: nat where
  "MAX_ITERATIONS \<equiv> 500"

text \<open>
  A tool handler returns the value whose JSON text becomes the tool result, or throws, and
  leaves the coordinator and the world behind.
\<close>

type_synonym ('b, 'h, 'l) handled = "(string + jsval) \<times> coordinator \<times> ('b, 'h, 'l) world"

definition viaBrowser ::
  "(controller \<Rightarrow> 'b \<Rightarrow> 'b outcome) \<Rightarrow> coordinator \<Rightarrow> ('b, 'h, 'l) world \<Rightarrow> ('b, 'h, 'l) handled" where
  "viaBrowser method s w =
     (case method (browser s) (browserState w) of
        (Inl e, c1, b1) \<Rightarrow> (Inl e, s\<lparr>browser := c1\<rparr>, w\<lparr>browserState := b1\<rparr>)
      | (Inr r, c1, b1) \<Rightarrow> (Inr (toolResultJs r), s\<lparr>browser := c1\<rparr>, w\<lparr>browserState := b1\<rparr>))"

definition handleNavigate ::
  "('b, 'h, 'l) collaborators \<Rightarrow> jsval \<Rightarrow> coordinator \<Rightarrow> ('b, 'h, 'l) world \<Rightarrow> ('b, 'h, 'l) handled" where
  "handleNavigate env args s w =
     (case getProp args ''url'' of
        Inl e \<Rightarrow> (Inl e, s, w)
      | Inr u \<Rightarrow> viaBrowser (navigateUntyped (playwrightOps env) u) s w)"

definition handleClick ::
  "('b, 'h, 'l) collaborators \<Rightarrow> jsval \<Rightarrow> coordinator \<Rightarrow> ('b, 'h, 'l) world \<Rightarrow> ('b, 'h, 'l) handled" where
  "handleClick env args s w =
     (case getProp args ''ref'' of
        Inl e \<Rightarrow> (Inl e, s, w)
      | Inr r \<Rightarrow> viaBrowser (clickUntyped (playwrightOps env) r) s w)"

definition handleTypeText ::
  "('b, 'h, 'l) collaborators \<Rightarrow> jsval \<Rightarrow> coordinator \<Rightarrow> ('b, 'h, 'l) world \<Rightarrow> ('b, 'h, 'l) handled" where
  "handleTypeText env args s w =
     (case getProp args ''ref'' of
        Inl e \<Rightarrow> (Inl e, s, w)
      | Inr r \<Rightarrow>
     (case getProp args ''text'' of
        Inl e \<Rightarrow> (Inl e, s, w)
      | Inr txt \<Rightarrow>
     (case getProp args ''pressEnter'' of
        Inl e \<Rightarrow> (Inl e, s, w)
      | Inr pressEnter \<Rightarrow>
          viaBrowser (typeTextUntyped (playwrightOps env) r txt pressEnter) s w)))"

definition handleScroll ::
  "('b, 'h, 'l) collaborators \<Rightarrow> jsval \<Rightarrow> coordinator \<Rightarrow> ('b, 'h, 'l) world \<Rightarrow> ('b, 'h, 'l) handled" where
  "handleScroll env args s w =
     (case getProp args ''direction'' of
        Inl e \<Rightarrow> (Inl e, s, w)
      | Inr d \<Rightarrow> viaBrowser (scroll (playwrightOps env) d) s w)"

text \<open>The context as the model sees it: no selectors, hrefs cut at 100 characters.\<close>

definition formattedElement :: "page_element \<Rightarrow> jsval" where
  "formattedElement e =
     JObj ([(''ref'', JStr (ref e)), (''type'', JStr (elemType e)), (''text'', JStr (elemText e))] @
           (case href e of
              None \<Rightarrow> []
            | Some h \<Rightarrow> if h \<noteq> [] then [(''href'', JStr (take 100 h))] else []))"

definition formattedContext :: "page_context \<Rightarrow> jsval" where
  "formattedContext ctx =
     JObj [(''success'', JBool True),
           (''data'', JObj [(''url'', JStr (url ctx)), (''title'', JStr (title ctx)),
                           (''elements'', JArr (map formattedElement (elements ctx)))])]"

definition handleGetPageContext ::
  "('b, 'h, 'l) collaborators \<Rightarrow> coordinator \<Rightarrow> ('b, 'h, 'l) world \<Rightarrow> ('b, 'h, 'l) handled" where
  "handleGetPageContext env s w =
     (case getPageContext (playwrightOps env) (browser s) (browserState w) of
        (Inl e, c1, b1) \<Rightarrow> (Inl e, s\<lparr>browser := c1\<rparr>, w\<lparr>browserState := b1\<rparr>)
      | (Inr r, c1, b1) \<Rightarrow>
          (Inr (if success r
                then (case resultData r of
                        Some (DataContext ctx) \<Rightarrow> formattedContext ctx
                      | _ \<Rightarrow> toolResultJs r)
                else toolResultJs r),
           s\<lparr>browser := c1\<rparr>, w\<lparr>browserState := b1\<rparr>))"

definition handleExtractCandidates ::
  "('b, 'h, 'l) collaborators \<Rightarrow> coordinator \<Rightarrow> ('b, 'h, 'l) world \<Rightarrow> ('b, 'h, 'l) handled" where
  "handleExtractCandidates env s w = viaBrowser (extractCandidates (playwrightOps env)) s w"

definition handleTaskComplete ::
  "jsval \<Rightarrow> coordinator \<Rightarrow> ('b, 'h, 'l) world \<Rightarrow> ('b, 'h, 'l) handled" where
  "handleTaskComplete args s w =
     (let s1 = s\<lparr>taskComplete := True\<rparr>
      in case getProp args ''candidates'' of
           Inl e \<Rightarrow> (Inl e, s1, w)
         | Inr found \<Rightarrow>
        (case getProp args ''summary'' of
           Inl e \<Rightarrow> (Inl e, s1, w)
         | Inr told \<Rightarrow>
             (Inr (JObj [(''success'', JBool True), (''message'', JStr ''Task marked as complete'')]),
              s1\<lparr>taskResult := Some \<lparr>taskSuccess = True, candidates = found, summary = told\<rparr>\<rparr>,
              w)))"

definition askHuman ::
  "('b, 'h, 'l) collaborators \<Rightarrow> string \<Rightarrow> ('b, 'h, 'l) world \<Rightarrow> (string + string) \<times> ('b, 'h, 'l) world" where
  "askHuman env prompt w =
     (case question env prompt (humanState w) of (r, h1) \<Rightarrow> (r, w\<lparr>humanState := h1\<rparr>))"

definition handleAskUser ::
  "('b, 'h, 'l) collaborators \<Rightarrow> jsval \<Rightarrow> coordinator \<Rightarrow> ('b, 'h, 'l) world \<Rightarrow> ('b, 'h, 'l) handled" where
  "handleAskUser env args s w =
     (case getProp args ''question'' of
        Inl e \<Rightarrow> (Inl e, s, w)
      | Inr shown \<Rightarrow>
          (case askHuman env ''Your answer: '' w of
             (Inl e, w1) \<Rightarrow> (Inl e, s, w1)
           | (Inr answer, w1) \<Rightarrow>
               (Inr (JObj [(''success'', JBool True), (''answer'', JStr answer)]), s, w1)))"

definition confirmationResult :: "bool \<Rightarrow> jsval" where
  "confirmationResult confirmed =
     (if confirmed
      then JObj [(''success'', JBool True), (''confirmed'', JBool True),
                 (''message'', JStr ''User approved. You may proceed with the action.'')]
      else JObj [(''success'', JBool False), (''confirmed'', JBool False),
                 (''message'',
                  JStr ''User rejected. Do not proceed. Consider alternative approaches.'')])"

definition handleRequestConfirmation ::
  "('b, 'h, 'l) collaborators \<Rightarrow> jsval \<Rightarrow> coordinator \<Rightarrow> ('b, 'h, 'l) world \<Rightarrow> ('b, 'h, 'l) handled" where
  "handleRequestConfirmation env args s w =
     (case getProp args ''action'' of
        Inl e \<Rightarrow> (Inl e, s, w)
      | Inr shownAction \<Rightarrow>
     (case getProp args ''reason'' of
        Inl e \<Rightarrow> (Inl e, s, w)
      | Inr shownReason \<Rightarrow>
     (case getProp args ''impact'' of
        Inl e \<Rightarrow> (Inl e, s, w)
      | Inr shownImpact \<Rightarrow>
          (case askHuman env ''Proceed? (yes/no): '' w of
             (Inl e, w1) \<Rightarrow> (Inl e, s, w1)
           | (Inr response, w1) \<Rightarrow>
               (Inr (confirmationResult (toLowerCase (trim response) = ''yes'')), s, w1)))))"

definition scanFailed :: "string \<Rightarrow> jsval" where
  "scanFailed e =
     JObj [(''success'', JBool False), (''error'', JStr (''Sub-agent scan failed: '' @ e))]"

text \<open>
  The summary that \<open>handleScanProfileDeep\<close> prints inside its \<open>try\<close>: for every truthy
  own property of the social links, \<open>value.slice(0, 50) + (value.length > 50 ? '...' : '')\<close>,
  then the summary in a template literal when it is truthy. Only whether it throws matters.
\<close>

definition ownValues :: "jsval \<Rightarrow> string + jsval list" where
  "ownValues v =
     (case v of
        JUndefined \<Rightarrow> Inl ''TypeError: Cannot convert undefined or null to object''
      | JNull \<Rightarrow> Inl ''TypeError: Cannot convert undefined or null to object''
      | JStr s \<Rightarrow> Inr (map (\<lambda>c. JStr [c]) s)
      | JArr xs \<Rightarrow> Inr xs
      | JObj props \<Rightarrow> Inr (map snd props)
      | _ \<Rightarrow> Inr [])"

definition shownLink :: "jsval \<Rightarrow> string + unit" where
  "shownLink v =
     (case v of
        JStr s \<Rightarrow> Inr ()
      | JArr xs \<Rightarrow> (case jsString (JArr (take 50 xs)) of Inl e \<Rightarrow> Inl e | Inr shown \<Rightarrow> Inr ())
      | _ \<Rightarrow> Inl ''TypeError: value.slice is not a function'')"

fun showLinks :: "jsval list \<Rightarrow> string + unit" where
  "showLinks [] = Inr ()"
| "showLinks (v # vs) =
     (if jsTruthy v
      then (case shownLink v of Inl e \<Rightarrow> Inl e | Inr u \<Rightarrow> showLinks vs)
      else showLinks vs)"

definition displayScan :: "profile_scan_result \<Rightarrow> string + unit" where
  "displayScan found =
     (case ownValues (socialLinks found) of
        Inl e \<Rightarrow> Inl e
      | Inr links \<Rightarrow>
          (case showLinks links of
             Inl e \<Rightarrow> Inl e
           | Inr u \<Rightarrow>
               if jsTruthy (tldrSummary found)
               then (case jsString (tldrSummary found) of Inl e \<Rightarrow> Inl e | Inr shown \<Rightarrow> Inr ())
               else Inr ()))"

definition handleScanProfileDeep ::
  "('b, 'h, 'l) collaborators \<Rightarrow> jsval \<Rightarrow> coordinator \<Rightarrow> ('b, 'h, 'l) world \<Rightarrow> ('b, 'h, 'l) handled" where
  "handleScanProfileDeep env args s w =
     (case (case subAgent s of None \<Rightarrow> newSubAgent env | Some sub \<Rightarrow> Inr sub) of
        Inl e \<Rightarrow> (Inl e, s, w)
      | Inr sub \<Rightarrow>
          (let s1 = s\<lparr>subAgent := Some sub\<rparr>
           in case getProp args ''profileUrl'' of
                Inl e \<Rightarrow> (Inr (scanFailed e), s1, w)
              | Inr target \<Rightarrow>
             (case getProp args ''username'' of
                Inl e \<Rightarrow> (Inr (scanFailed e), s1, w)
              | Inr username \<Rightarrow>
                  (case scanProfileUntyped env target username sub (browser s1) w of
                     (Inl e, sub1, c1, w1) \<Rightarrow>
                       (Inr (scanFailed e), s1\<lparr>subAgent := Some sub1, browser := c1\<rparr>, w1)
                   | (Inr found, sub1, c1, w1) \<Rightarrow>
                       (Inr (case displayScan found of
                               Inl e \<Rightarrow> scanFailed e
                             | Inr u \<Rightarrow>
                                 JObj [(''success'', JBool True),
                                       (''data'', JObj [(''socialLinks'', socialLinks found),
                                                       (''tldrSummary'', tldrSummary found),
                                                       (''additionalData'', additionalData found)])]),
                        s1\<lparr>subAgent := Some sub1, browser := c1\<rparr>, w1)))))"

text \<open>The \<open>switch\<close> of \<open>executeTool\<close>.\<close>

definition dispatch ::
  "('b, 'h, 'l) collaborators \<Rightarrow> string \<Rightarrow> jsval \<Rightarrow> coordinator \<Rightarrow> ('b, 'h, 'l) world \<Rightarrow>
   ('b, 'h, 'l) handled" where
  "dispatch env name args s w =
     (if name = ''navigate'' then handleNavigate env args s w
      else if name = ''click'' then handleClick env args s w
      else if name = ''type_text'' then handleTypeText env args s w
      else if name = ''scroll'' then handleScroll env args s w
      else if name = ''get_page_context'' then handleGetPageContext env s w
      else if name = ''extract_candidates'' then handleExtractCandidates env s w
      else if name = ''task_complete'' then handleTaskComplete args s w
      else if name = ''ask_user'' then handleAskUser env args s w
      else if name = ''request_confirmation'' then handleRequestConfirmation env args s w
      else if name = ''scan_profile_deep'' then handleScanProfileDeep env args s w
      else (Inr (JObj [(''error'', JStr (''Unknown tool: '' @ name))]), s, w))"

definition executeTool ::
  "('b, 'h, 'l) collaborators \<Rightarrow> tool_call \<Rightarrow> coordinator \<Rightarrow> ('b, 'h, 'l) world \<Rightarrow>
   coordinator \<times> ('b, 'h, 'l) world" where
  "executeTool env toolCall s w =
     (case dispatch env (callName toolCall) (parseArguments env toolCall) s w of
        (r, s1, w1) \<Rightarrow>
          (let result = (case r of
                           Inr v \<Rightarrow> v
                         | Inl e \<Rightarrow> JObj [(''error'', JStr (''Tool execution failed: '' @ e))])
           in (s1\<lparr>messages := messages s1 @ [ToolMessage (callId toolCall) result]\<rparr>, w1)))"

fun executeTools ::
  "('b, 'h, 'l) collaborators \<Rightarrow> tool_call list \<Rightarrow> coordinator \<Rightarrow> ('b, 'h, 'l) world \<Rightarrow>
   coordinator \<times> ('b, 'h, 'l) world" where
  "executeTools env [] s w = (s, w)"
| "executeTools env (toolCall # rest) s w =
     (case executeTool env toolCall s w of (s1, w1) \<Rightarrow> executeTools env rest s1 w1)"

definition executeStep ::
  "('b, 'h, 'l) collaborators \<Rightarrow> coordinator \<Rightarrow> ('b, 'h, 'l) world \<Rightarrow>
   (string + unit) \<times> coordinator \<times> ('b, 'h, 'l) world" where
  "executeStep env s w =
     (case chatMain env (messages s) (modelState w) of
        (Inl e, l1) \<Rightarrow> (Inl e, s, w\<lparr>modelState := l1\<rparr>)
      | (Inr message, l1) \<Rightarrow>
          (case executeTools env (toolCalls message)
                  (s\<lparr>messages := messages s @ [AssistantMessage message]\<rparr>)
                  (w\<lparr>modelState := l1\<rparr>) of
             (s1, w1) \<Rightarrow> (Inr (), s1, w1)))"

definition errorNote :: "string \<Rightarrow> string" where
  "errorNote e =
     ''System error occurred: '' @ e @ ''. '' @ [CHR 0x0A, CHR 0x0A] @
     ''Please analyze why this error happened and what it tells you about the current situation. '' @
     ''Then decide on the best alternative approach. Don'' @ [CHR 0x27] @
     ''t just retry - think about what went wrong and how to avoid it.''"

text \<open>One pass of the \<open>while\<close> loop of \<open>runTask\<close>, with its \<open>catch\<close> block.\<close>

definition taskIteration ::
  "('b, 'h, 'l) collaborators \<Rightarrow> coordinator \<Rightarrow> ('b, 'h, 'l) world \<Rightarrow>
   coordinator \<times> ('b, 'h, 'l) world" where
  "taskIteration env s w =
     (case executeStep env s w of
        (Inr u, s1, w1) \<Rightarrow> (s1, w1)
      | (Inl e, s1, w1) \<Rightarrow> (s1\<lparr>messages := messages s1 @ [UserMessage (errorNote e)]\<rparr>, w1))"

function taskLoop ::
  "('b, 'h, 'l) collaborators \<Rightarrow> nat \<Rightarrow> coordinator \<Rightarrow> ('b, 'h, 'l) world \<Rightarrow>
   nat \<times> coordinator \<times> ('b, 'h, 'l) world" where
  "taskLoop env iteration s w =
     (if \<not> taskComplete s \<and> iteration < MAX_ITERATIONS
      then (case taskIteration env s w of (s1, w1) \<Rightarrow> taskLoop env (iteration + 1) s1 w1)
      else (iteration, s, w))"
  by pat_completeness auto
termination
  by (relation "measure (\<lambda>(env, iteration, rest). MAX_ITERATIONS - iteration)") auto

declare taskLoop.simps [simp del]

definition runTask ::
  "('b, 'h, 'l) collaborators \<Rightarrow> string \<Rightarrow> coordinator \<Rightarrow> ('b, 'h, 'l) world \<Rightarrow>
   task_result \<times> coordinator \<times> ('b, 'h, 'l) world" where
  "runTask env task s w =
     (case taskLoop env 0
             (s\<lparr>taskComplete := False, taskResult := None,
                messages := [SystemMessage (systemPrompt env),
                             UserMessage (formatTaskPrompt env task)]\<rparr>) w of
        (iteration, s1, w1) \<Rightarrow>
          (case taskResult s1 of
             None \<Rightarrow>
               (\<lparr>taskSuccess = False, candidates = JArr [],
                 summary = JStr (''Task did not complete within '' @ showNat MAX_ITERATIONS @
                                 '' iterations.'')\<rparr>, s1, w1)
           | Some found \<Rightarrow> (found, s1, w1)))"


section \<open>The conversation protocol\<close>



section \<open>Concrete pages and runs\<close>

text \<open>A visible element outside \<open>body\<close>'s special case, with the given tag, attributes and text.\<close>

definition visibleNode :: "string \<Rightarrow> (string \<times> string) list \<Rightarrow> string \<Rightarrow> node" where
  "visibleNode tag attrs txt =
     Node tag attrs (Some []) txt [] 10 10 ''visible'' ''block'' ''1'' False None 0 0"

definition dupCandidates :: "raw_element list" where
  "dupCandidates =
     [\<lparr>rawType = ''link'', rawText = ''Home'', rawSelector = ''#first'', rawHref = Some ''/''\<rparr>,
      \<lparr>rawType = ''link'', rawText = ''Home'', rawSelector = ''#second'', rawHref = Some ''/''\<rparr>,
      \<lparr>rawType = ''button'', rawText = ''Go'', rawSelector = ''#go'', rawHref = None\<rparr>]"

definition twoLinksDoc :: document where
  "twoLinksDoc =
     \<lparr>queryLinks = [visibleNode ''A'' [(''href'', ''/a'')] ''First'',
                    visibleNode ''A'' [(''href'', ''/b'')] ''Second''],
      queryButtons = [visibleNode ''BUTTON'' [] ''Go''],
      queryInputs = [], querySelects = []\<rparr>"

definition firstHome :: page_element where
  "firstHome = \<lparr>ref = ''link_1'', elemType = ''link'', elemText = ''Home'',
                 selector = ''#first'', href = Some ''/''\<rparr>"

definition longLink :: node where
  "longLink = visibleNode ''A'' [(''href'', ''/x'')] (replicate 100 (CHR ''a''))"

definition longLinkDoc :: document where
  "longLinkDoc = \<lparr>queryLinks = [longLink], queryButtons = [], queryInputs = [], querySelects = []\<rparr>"

definition longLinkEntry :: raw_element where
  "longLinkEntry = \<lparr>rawType = ''link'', rawText = replicate 80 (CHR ''a''),
                      rawSelector = ''a'', rawHref = Some ''/x''\<rparr>"

record sim =
  shown :: document
  address :: string
  journal :: "string list"

definition emptyDoc :: document where
  "emptyDoc = \<lparr>queryLinks = [], queryButtons = [], queryInputs = [], querySelects = []\<rparr>"

definition simStart :: sim where
  "simStart = \<lparr>shown = emptyDoc, address = ''about:blank'', journal = []\<rparr>"

definition logEntry :: "string \<Rightarrow> (sim, unit) action" where
  "logEntry entry b = (Inr (), b\<lparr>journal := journal b @ [entry]\<rparr>)"

definition attempt :: "bool \<Rightarrow> string \<Rightarrow> (sim, unit) action" where
  "attempt works entry b = (if works then logEntry entry b else (Inl ''TimeoutError: Timeout 5000ms exceeded.'', b))"

definition simPlaywright :: "(string \<Rightarrow> document) \<Rightarrow> bool \<Rightarrow> sim playwright" where
  "simPlaywright site works =
     \<lparr>launch = succeed (),
      goto = (\<lambda>u b. (Inr (), b\<lparr>shown := site u, address := u, journal := journal b @ [''goto '' @ u]\<rparr>)),
      pageUrl = address,
      pageTitle = succeed ''Page'',
      scrollIntoViewIfNeeded = (\<lambda>sel. attempt works (''scroll to '' @ sel)),
      locatorClick = (\<lambda>sel force n. attempt works (''click '' @ sel)),
      locatorFill = (\<lambda>sel txt. attempt works (''fill '' @ sel)),
      pressSequentially = (\<lambda>sel txt. attempt works (''press '' @ sel)),
      keyboardPress = (\<lambda>k. attempt works (''key '' @ k)),
      keyboardType = (\<lambda>txt. attempt works ''type''),
      mouseWheel = (\<lambda>d. succeed ()),
      waitForLoadState = succeed (),
      evaluateDocument = (\<lambda>b. (Inr (shown b), b)),
      evalCandidates = succeed (JArr []),
      evalSocialLinks = succeed (JObj [(''github'', JStr ''https://github.com/octo'')]),
      evalProfileTabs = succeed (JArr []),
      evalDetailedProfileInfo = succeed (JObj []),
      evalPageTextSummary = succeed ''octo - Go developer''\<rparr>"

definition stuckPage :: "sim playwright" where
  "stuckPage = simPlaywright (\<lambda>u. emptyDoc) False"

definition goController :: controller where
  "goController = \<lparr>page = Some PageHandle, elementMap = [''btn_1'' \<mapsto> ''#go''], retryCount = Map.empty\<rparr>"

definition stuck1 :: "sim outcome" where
  "stuck1 = click stuckPage ''btn_1'' goController simStart"

definition stuck2 :: "sim outcome" where
  "stuck2 = click stuckPage ''btn_1'' (fst (snd stuck1)) (snd (snd stuck1))"

definition stuck3 :: "sim outcome" where
  "stuck3 = click stuckPage ''btn_1'' (fst (snd stuck2)) (snd (snd stuck2))"

definition stuck4 :: "sim outcome" where
  "stuck4 = click stuckPage ''btn_1'' (fst (snd stuck3)) (snd (snd stuck3))"

definition readyController :: controller where
  "readyController = \<lparr>page = Some PageHandle, elementMap = Map.empty, retryCount = Map.empty\<rparr>"

definition oldDoc :: document where
  "oldDoc = \<lparr>queryLinks = [visibleNode ''A'' [(''id'', ''old''), (''href'', ''/old'')] ''Old''],
             queryButtons = [], queryInputs = [], querySelects = []\<rparr>"

definition newDoc :: document where
  "newDoc = \<lparr>queryLinks = [visibleNode ''A'' [(''id'', ''new''), (''href'', ''/new'')] ''New''],
             queryButtons = [], queryInputs = [], querySelects = []\<rparr>"

definition livePage :: "sim playwright" where
  "livePage = simPlaywright (\<lambda>u. if u = ''https://old.test'' then oldDoc else newDoc) True"

definition oldPage :: sim where
  "oldPage = \<lparr>shown = oldDoc, address = ''https://old.test'', journal = []\<rparr>"

definition newPage :: sim where
  "newPage = \<lparr>shown = newDoc, address = ''https://new.test'', journal = []\<rparr>"

definition staleController :: controller where
  "staleController = fst (snd (getPageContext livePage readyController oldPage))"

definition newLink :: page_element where
  "newLink = \<lparr>ref = ''link_1'', elemType = ''link'', elemText = ''New'', selector = ''#new'',
               href = Some ''/new''\<rparr>"

definition newContext :: page_context where
  "newContext = \<lparr>url = ''https://new.test'', title = ''Page'', elements = [newLink]\<rparr>"

definition refreshedController :: controller where
  "refreshedController = staleController\<lparr>elementMap := refreshMap [newLink]\<rparr>"

definition bodyButton :: node where
  "bodyButton =
     Node ''BODY'' [(''role'', ''button'')] (Some []) ''Menu'' [] 10 10 ''visible'' ''block'' ''1'' True
       (Some (Node ''HTML'' [] (Some []) ''Menu'' [] 10 10 ''visible'' ''block'' ''1'' False None 0 0))
       1 0"

definition bodyPage :: sim where
  "bodyPage = \<lparr>shown = \<lparr>queryLinks = [], queryButtons = [bodyButton], queryInputs = [],
                          querySelects = []\<rparr>,
                address = ''https://menu.test'', journal = []\<rparr>"

definition bodyController :: controller where
  "bodyController = fst (snd (getPageContext livePage readyController bodyPage))"

definition keepsTask :: "coordinator \<Rightarrow> coordinator \<Rightarrow> bool" where
  "keepsTask s s1 \<longleftrightarrow>
     taskComplete s1 = taskComplete s \<and> taskResult s1 = taskResult s \<and> messages s1 = messages s"

definition typedLines :: "string \<Rightarrow> (string list, string) action" where
  "typedLines prompt h =
     (case h of [] \<Rightarrow> (Inl ''Error: readline was closed'', []) | line # later \<Rightarrow> (Inr line, later))"

definition scripted ::
  "(nat \<Rightarrow> string + assistant_message) \<Rightarrow> message list \<Rightarrow> (nat, assistant_message) action" where
  "scripted script msgs n = (script n, n + 1)"

definition simCollaborators ::
  "sim playwright \<Rightarrow> (nat \<Rightarrow> string + assistant_message) \<Rightarrow> (nat \<Rightarrow> string + assistant_message) \<Rightarrow>
   (string \<Rightarrow> jsval option) \<Rightarrow> (sim, string list, nat) collaborators" where
  "simCollaborators pw mainScript subScript parse =
     \<lparr>playwrightOps = pw, question = typedLines, chatMain = scripted mainScript,
      chatSub = scripted subScript, jsonParse = parse, apiKey = Some ''sk-test'',
      systemPrompt = ''You are a browsing agent.'',
      formatTaskPrompt = (\<lambda>task. ''Task: '' @ task),
      subAgentSystemPrompt = ''You scan one profile.''\<rparr>"

definition says :: "string \<Rightarrow> string + assistant_message" where
  "says words = Inr \<lparr>content = Some words, toolCalls = []\<rparr>"

definition invokes :: "tool_call list \<Rightarrow> string + assistant_message" where
  "invokes invocations = Inr \<lparr>content = None, toolCalls = invocations\<rparr>"

definition idleScript :: "nat \<Rightarrow> string + assistant_message" where
  "idleScript n = (if even n then says ''Looking at the page.'' else Inl ''Error: 429 Too Many Requests'')"

definition idleAgent :: "(sim, string list, nat) collaborators" where
  "idleAgent = simCollaborators livePage idleScript idleScript (\<lambda>raw. None)"

definition startCoordinator :: coordinator where
  "startCoordinator = \<lparr>messages = [], taskComplete = False, taskResult = None,
                        browser = readyController, subAgent = None\<rparr>"

definition startWorld :: "(sim, string list, nat) world" where
  "startWorld = \<lparr>browserState = simStart, humanState = [], modelState = 0\<rparr>"

definition scanArguments :: string where
  \<open>scanArguments = ''{"socialLinks":{"github":"https://github.com/octo"},"tldrSummary":"Go developer."}''\<close>

definition parseKnown :: "string \<Rightarrow> jsval option" where
  "parseKnown raw =
     (if raw = scanArguments
      then Some (JObj [(''socialLinks'', JObj [(''github'', JStr ''https://github.com/octo'')]),
                       (''tldrSummary'', JStr ''Go developer.'')])
      else if raw = ''{}'' then Some (JObj [])
      else if raw = ''null'' then Some JNull
      else None)"

definition completingScript :: "nat \<Rightarrow> string + assistant_message" where
  "completingScript n =
     invokes [\<lparr>callId = ''call_1'', callName = ''complete_scan'', callArguments = scanArguments\<rparr>]"

definition scanningAgent :: "(sim, string list, nat) collaborators" where
  "scanningAgent = simCollaborators livePage idleScript completingScript parseKnown"

definition freshSubAgent :: sub_agent where
  "freshSubAgent = \<lparr>scanComplete = False, scanResult = None\<rparr>"

definition confirmArguments :: jsval where
  "confirmArguments =
     JObj [(''action'', JStr ''Send a message to octo''), (''reason'', JStr ''Contact the candidate''),
           (''impact'', JStr ''The message cannot be recalled'')]"

definition rejectingWorld :: "(sim, string list, nat) world" where
  "rejectingWorld = startWorld\<lparr>humanState := [''no'']\<rparr>"

definition approvingWorld :: "(sim, string list, nat) world" where
  "approvingWorld = startWorld\<lparr>humanState := [''  YES '']\<rparr>"





subsection \<open>Retry counters and browsers that fail\<close>

text \<open>The controller with the retry counter of one key set.\<close>

definition withCount :: "string \<Rightarrow> nat \<Rightarrow> controller \<Rightarrow> controller" where
  "withCount key n c = c\<lparr>retryCount := (retryCount c)(key \<mapsto> n)\<rparr>"

text \<open>A browser on which every operation on an element times out and no address loads.\<close>

definition offlinePage :: "sim playwright" where
  "offlinePage = stuckPage\<lparr>goto := (\<lambda>u b. (Inl ''Error: net::ERR_INTERNET_DISCONNECTED'', b))\<rparr>"

text \<open>The address that \<open>navigate\<close> hands to \<open>goto\<close>.\<close>

definition withProtocol :: "string \<Rightarrow> string" where
  "withProtocol url0 =
     (if \<not> startsWith url0 ''http://'' \<and> \<not> startsWith url0 ''https://''
      then ''https://'' @ url0 else url0)"

text \<open>A controller that has counted two failures for each of three keys.\<close>

definition retriedController :: controller where
  "retriedController =
     withCount (getRetryKey ''navigate'' [''new.test'']) 2
       (withCount (getRetryKey ''type'' [''btn_1'']) 2
         (withCount (getRetryKey ''click'' [''btn_1'']) 2 goController))"

subsection \<open>A proposal that asks and acts at once\<close>

text \<open>
  A model that asks for confirmation and proposes the click in the same message, with the
  parser of the two argument texts, on a controller that has \<open>btn_1\<close> bound.
\<close>

definition confirmText :: string where
  \<open>confirmText = ''{"action":"Send a message to octo","reason":"Contact the candidate","impact":"The message cannot be recalled"}''\<close>

definition sendText :: string where
  \<open>sendText = ''{"ref":"btn_1"}''\<close>

definition parseSend :: "string \<Rightarrow> jsval option" where
  "parseSend raw =
     (if raw = confirmText then Some confirmArguments
      else if raw = sendText then Some (JObj [(''ref'', JStr ''btn_1'')])
      else None)"

definition confirmCall :: tool_call where
  "confirmCall = \<lparr>callId = ''call_confirm'', callName = ''request_confirmation'',
                   callArguments = confirmText\<rparr>"

definition sendCall :: tool_call where
  "sendCall = \<lparr>callId = ''call_send'', callName = ''click'', callArguments = sendText\<rparr>"

definition hastyProposal :: assistant_message where
  "hastyProposal = \<lparr>content = None, toolCalls = [confirmCall, sendCall]\<rparr>"

definition hastyAgent :: "(sim, string list, nat) collaborators" where
  "hastyAgent = simCollaborators livePage (\<lambda>n. Inr hastyProposal) idleScript parseSend"

definition sendCoordinator :: coordinator where
  "sendCoordinator = startCoordinator\<lparr>browser := goController\<rparr>"

section \<open>Properties of the page context compressor\<close>

lemma dedupe_keys_fresh: "e \<in> set (dedupe seen els) \<Longrightarrow> seenKey e \<notin> seen"
  by (induction els arbitrary: seen) (auto split: if_splits)

lemma dedupe_subset: "set (dedupe seen els) \<subseteq> set els"
  by (induction els arbitrary: seen) auto

lemma dedupe_distinct_keys: "distinct (map seenKey (dedupe seen els))"
  by (induction els arbitrary: seen) (auto dest: dedupe_keys_fresh)

lemma dedupe_first_occurrence:
  "e \<in> set (dedupe seen els) \<Longrightarrow> find (\<lambda>r. seenKey r = seenKey e) els = Some e"
proof (induction els arbitrary: seen)
  case Nil
  then show ?case by simp
next
  case (Cons el els)
  show ?case
  proof (cases "seenKey el \<in> seen")
    case True
    with Cons.prems have mem: "e \<in> set (dedupe seen els)" by simp
    then have "seenKey e \<notin> seen" by (rule dedupe_keys_fresh)
    with True have "seenKey el \<noteq> seenKey e" by auto
    with Cons.IH[OF mem] show ?thesis by simp
  next
    case False
    with Cons.prems have "e = el \<or> e \<in> set (dedupe (insert (seenKey el) seen) els)" by auto
    then show ?thesis
    proof
      assume "e = el" then show ?thesis by simp
    next
      assume mem: "e \<in> set (dedupe (insert (seenKey el) seen) els)"
      then have "seenKey e \<notin> insert (seenKey el) seen" by (rule dedupe_keys_fresh)
      then have "seenKey el \<noteq> seenKey e" by auto
      with Cons.IH[OF mem] show ?thesis by simp
    qed
  qed
qed

lemma dedupe_length: "length (dedupe seen els) = card (seenKey ` set els - seen)"
proof (induction els arbitrary: seen)
  case Nil
  then show ?case by simp
next
  case (Cons el els)
  show ?case
  proof (cases "seenKey el \<in> seen")
    case True
    then have "seenKey ` set (el # els) - seen = seenKey ` set els - seen" by auto
    with True Cons.IH[of seen] show ?thesis by simp
  next
    case False
    have eq: "seenKey ` set (el # els) - seen =
              insert (seenKey el) (seenKey ` set els - insert (seenKey el) seen)"
      using False by auto
    have "card (insert (seenKey el) (seenKey ` set els - insert (seenKey el) seen)) =
          Suc (card (seenKey ` set els - insert (seenKey el) seen))"
      by (rule card_insert_disjoint) auto
    with False eq Cons.IH[of "insert (seenKey el) seen"] show ?thesis by simp
  qed
qed

lemma seenKey_signature: "rawSignature a = rawSignature b \<Longrightarrow> seenKey a = seenKey b"
  by (simp add: rawSignature_def seenKey_def)

lemma distinct_map_coarser:
  assumes dist: "distinct (map f xs)" and coarse: "\<And>x y. g x = g y \<Longrightarrow> f x = f y"
  shows "distinct (map g xs)"
proof -
  from dist have d: "distinct xs" and inj: "inj_on f (set xs)"
    by (simp_all add: distinct_map)
  have "inj_on g (set xs)"
  proof (rule inj_onI)
    fix x y assume x: "x \<in> set xs" and y: "y \<in> set xs" and g: "g x = g y"
    from coarse[OF g] have fxy: "f x = f y" .
    from inj fxy x y show "x = y" by (rule inj_onD)
  qed
  with d show ?thesis by (simp add: distinct_map)
qed

lemma assignRefs_signature: "map signature (assignRefs counters els) = map rawSignature els"
  by (induction els arbitrary: counters) (simp_all add: signature_def rawSignature_def Let_def)

lemma assignRefs_length: "length (assignRefs counters els) = length els"
  by (induction els arbitrary: counters) (simp_all add: Let_def)

lemma assignRefs_fields:
  "map (\<lambda>e. (signature e, selector e)) (assignRefs counters els) =
   map (\<lambda>r. (rawSignature r, rawSelector r)) els"
  by (induction els arbitrary: counters) (simp_all add: signature_def rawSignature_def Let_def)

lemma assignRefs_origin:
  assumes "e \<in> set (assignRefs counters els)"
  shows "\<exists>r \<in> set els. rawSignature r = signature e \<and> rawSelector r = selector e"
proof -
  from assms have "(signature e, selector e) \<in>
      set (map (\<lambda>e. (signature e, selector e)) (assignRefs counters els))"
    by (simp only: set_map) (rule imageI)
  then have "(signature e, selector e) \<in> set (map (\<lambda>r. (rawSignature r, rawSelector r)) els)"
    by (simp only: assignRefs_fields)
  then obtain r where "r \<in> set els" "(signature e, selector e) = (rawSignature r, rawSelector r)"
    by (auto simp only: set_map image_iff)
  then show ?thesis by (intro bexI[of _ r]) simp_all
qed

lemma find_coarser:
  assumes found: "find (\<lambda>r. f r = f e) xs = Some e"
    and coarse: "\<And>x y. g x = g y \<Longrightarrow> f x = f y"
  shows "find (\<lambda>r. g r = g e) xs = Some e"
  using found
proof (induction xs)
  case Nil
  then show ?case by simp
next
  case (Cons x xs)
  show ?case
  proof (cases "f x = f e")
    case True
    with Cons.prems have "x = e" by simp
    then show ?thesis by simp
  next
    case False
    with coarse[of x e] have "g x \<noteq> g e" by blast
    moreover from False Cons.prems have "find (\<lambda>r. f r = f e) xs = Some e" by simp
    ultimately show ?thesis using Cons.IH by simp
  qed
qed

text \<open>
  Claim C2. For every list of candidate entries the snapshot has at most 150 elements and no
  two of them share the same (type, text, href) signature; every element of the snapshot
  is the first candidate, in document order, with its signature; and deduplication comes
  before the truncation: the snapshot has 150 elements as soon as the candidates carry 150
  different keys, whatever their positions.
\<close>

text \<open>
  Claim C2. For every list of candidate entries the snapshot has at most 150 elements and no
  two of them share the same (type, text, href) signature; every element of the snapshot
  is the first candidate, in document order, with its signature; and deduplication comes
  before the truncation: the snapshot has 150 elements as soon as the candidates carry 150
  different keys, whatever their positions.
\<close>

theorem pageElements_bounded_deduplicated:
  "length (pageElements els) \<le> 150 \<and>
   distinct (map signature (pageElements els)) \<and>
   (\<forall>e \<in> set (pageElements els).
      \<exists>r. find (\<lambda>r. rawSignature r = signature e) els = Some r \<and> selector e = rawSelector r) \<and>
   length (pageElements els) = min 150 (card (seenKey ` set els))"
proof (intro conjI ballI)
  show "length (pageElements els) \<le> 150"
    by (simp add: pageElements_def assignRefs_length)
  have "distinct (map seenKey (take 150 (dedupe {} els)))"
    using dedupe_distinct_keys[of "{}" els] by (simp add: take_map[symmetric] distinct_take)
  then have "distinct (map rawSignature (take 150 (dedupe {} els)))"
    by (rule distinct_map_coarser) (rule seenKey_signature)
  then show "distinct (map signature (pageElements els))"
    by (simp add: pageElements_def assignRefs_signature)
  show "length (pageElements els) = min 150 (card (seenKey ` set els))"
    by (simp add: pageElements_def assignRefs_length dedupe_length min.commute)
next
  fix e assume "e \<in> set (pageElements els)"
  then obtain r where r: "r \<in> set (take 150 (dedupe {} els))"
      and sig: "rawSignature r = signature e" and sel: "rawSelector r = selector e"
    unfolding pageElements_def by (blast dest: assignRefs_origin)
  from r have "r \<in> set (dedupe {} els)" by (rule in_set_takeD)
  then have "find (\<lambda>x. seenKey x = seenKey r) els = Some r" by (rule dedupe_first_occurrence)
  then have "find (\<lambda>x. rawSignature x = rawSignature r) els = Some r"
    by (rule find_coarser) (rule seenKey_signature)
  then have "find (\<lambda>x. rawSignature x = signature e) els = Some r"
    unfolding sig .
  with sel show "\<exists>r. find (\<lambda>r. rawSignature r = signature e) els = Some r \<and> selector e = rawSelector r"
    by (intro exI[of _ r]) simp
qed

theorem pageElements_bounded_deduplicated_witness:
  "map selector (pageElements dupCandidates) = [''#first'', ''#go''] \<and>
   distinct (map signature (pageElements dupCandidates)) \<and>
   (\<exists>r. find (\<lambda>r. rawSignature r = signature firstHome) dupCandidates = Some r \<and>
        selector firstHome = rawSelector r)"
proof -
  have sel: "map selector (pageElements dupCandidates) = [''#first'', ''#go'']"
    by code_simp
  have mem: "firstHome \<in> set (pageElements dupCandidates)"
    by code_simp
  from pageElements_bounded_deduplicated[of dupCandidates] mem sel show ?thesis by blast
qed


lemma showNat_nonempty: "showNat n \<noteq> []"
  by (subst showNat.simps) simp

lemma digitChar_inj: "a < 10 \<Longrightarrow> b < 10 \<Longrightarrow> digitChar a = digitChar b \<Longrightarrow> a = b"
  by (simp add: digitChar_def char_of_eq_iff take_bit_eq_mod)

lemma showNat_inj: "showNat n = showNat m \<Longrightarrow> n = m"
proof (induction n arbitrary: m rule: showNat.induct)
  case (1 n)
  show ?case
  proof (cases "n < 10")
    case small_n: True
    show ?thesis
    proof (cases "m < 10")
      case True
      with small_n "1.prems" have "digitChar n = digitChar m"
        by (simp add: showNat.simps[of n] showNat.simps[of m])
      with small_n True show ?thesis by (rule digitChar_inj)
    next
      case False
      with small_n "1.prems" have "[digitChar n] = showNat (m div 10) @ [digitChar (m mod 10)]"
        by (simp add: showNat.simps[of n] showNat.simps[of m])
      then have "showNat (m div 10) = []" by simp
      with showNat_nonempty show ?thesis by blast
    qed
  next
    case big_n: False
    show ?thesis
    proof (cases "m < 10")
      case True
      with big_n "1.prems" have "showNat (n div 10) @ [digitChar (n mod 10)] = [digitChar m]"
        by (simp add: showNat.simps[of n] showNat.simps[of m])
      then have "showNat (n div 10) = []" by simp
      with showNat_nonempty show ?thesis by blast
    next
      case False
      with big_n "1.prems" have
        "showNat (n div 10) @ [digitChar (n mod 10)] = showNat (m div 10) @ [digitChar (m mod 10)]"
        by (simp add: showNat.simps[of n] showNat.simps[of m])
      then have eq: "showNat (n div 10) = showNat (m div 10)"
        and dig: "digitChar (n mod 10) = digitChar (m mod 10)" by simp_all
      from "1.IH"[OF big_n eq] have "n div 10 = m div 10" .
      moreover from dig have "n mod 10 = m mod 10" by (intro digitChar_inj) simp_all
      ultimately show ?thesis by (metis div_mult_mod_eq)
    qed
  qed
qed

lemma ref_parts:
  assumes "t1 \<in> knownTypes" and "t2 \<in> knownTypes"
    and "refPrefix t1 @ ''_'' @ s1 = refPrefix t2 @ ''_'' @ s2"
  shows "t1 = t2 \<and> s1 = s2"
  using assms unfolding knownTypes_def
  by (elim insertE emptyE; simp add: refPrefix_def)

lemma counterOf_upd:
  "counterOf (counters(t \<mapsto> n)) x = (if x = t then n else counterOf counters x)"
  by (simp add: counterOf_def)

lemma assignRefs_refs:
  "e \<in> set (assignRefs counters els) \<Longrightarrow>
   \<exists>n. counterOf counters (elemType e) < n \<and> ref e = refPrefix (elemType e) @ ''_'' @ showNat n"
proof (induction els arbitrary: counters)
  case Nil
  then show ?case by simp
next
  case (Cons el els)
  let ?n = "counterOf counters (rawType el) + 1"
  let ?head = "\<lparr>ref = refPrefix (rawType el) @ ''_'' @ showNat ?n, elemType = rawType el,
                elemText = rawText el, selector = rawSelector el, href = rawHref el\<rparr>"
  from Cons.prems have "e = ?head \<or> e \<in> set (assignRefs (counters(rawType el \<mapsto> ?n)) els)"
    by (simp add: Let_def)
  then show ?case
  proof
    assume "e = ?head"
    then have "counterOf counters (elemType e) < ?n \<and>
               ref e = refPrefix (elemType e) @ ''_'' @ showNat ?n" by simp
    then show ?thesis by blast
  next
    assume "e \<in> set (assignRefs (counters(rawType el \<mapsto> ?n)) els)"
    from Cons.IH[OF this] obtain m where
      m: "counterOf (counters(rawType el \<mapsto> ?n)) (elemType e) < m"
      and r: "ref e = refPrefix (elemType e) @ ''_'' @ showNat m" by blast
    from m have "counterOf counters (elemType e) < m"
      by (simp add: counterOf_upd split: if_splits)
    with r show ?thesis by blast
  qed
qed

lemma assignRefs_elemType: "elemType ` set (assignRefs counters els) = rawType ` set els"
  by (induction els arbitrary: counters) (simp_all add: Let_def)

lemma assignRefs_distinct:
  "rawType ` set els \<subseteq> knownTypes \<Longrightarrow> distinct (map ref (assignRefs counters els))"
proof (induction els arbitrary: counters)
  case Nil
  then show ?case by simp
next
  case (Cons el els)
  let ?n = "counterOf counters (rawType el) + 1"
  let ?cs = "counters(rawType el \<mapsto> ?n)"
  from Cons.prems have known: "rawType el \<in> knownTypes" and rest: "rawType ` set els \<subseteq> knownTypes"
    by simp_all
  have fresh: "refPrefix (rawType el) @ ''_'' @ showNat ?n \<notin> ref ` set (assignRefs ?cs els)"
  proof
    assume "refPrefix (rawType el) @ ''_'' @ showNat ?n \<in> ref ` set (assignRefs ?cs els)"
    then obtain e where e: "e \<in> set (assignRefs ?cs els)"
      and eq: "refPrefix (rawType el) @ ''_'' @ showNat ?n = ref e" by blast
    from assignRefs_refs[OF e] obtain m where
      m: "counterOf ?cs (elemType e) < m"
      and r: "ref e = refPrefix (elemType e) @ ''_'' @ showNat m" by blast
    from e have "elemType e \<in> rawType ` set els"
      using assignRefs_elemType[of ?cs els] by blast
    with rest have "elemType e \<in> knownTypes" by blast
    from ref_parts[OF known this eq[unfolded r]]
    have both: "rawType el = elemType e \<and> showNat ?n = showNat m" .
    from both have same: "rawType el = elemType e" by (rule conjunct1)
    from both have shown: "showNat ?n = showNat m" by (rule conjunct2)
    from shown have "?n = m" by (rule showNat_inj)
    with m same show False by (simp add: counterOf_upd)
  qed
  from Cons.IH[OF rest] have "distinct (map ref (assignRefs ?cs els))" .
  with fresh show ?case by (simp add: Let_def)
qed

lemma set_map_filter: "set (List.map_filter f xs) = {y. \<exists>x \<in> set xs. f x = Some y}"
  by (induction xs) (auto simp: List.map_filter_simps split: option.splits)

lemma linkEntry_type: "linkEntry el = Some r \<Longrightarrow> rawType r = ''link''"
  by (auto simp: linkEntry_def Let_def split: if_splits option.splits)

lemma buttonEntry_type: "buttonEntry el = Some r \<Longrightarrow> rawType r = ''button''"
  by (auto simp: buttonEntry_def split: if_splits)

lemma inputEntry_type:
  "inputEntry el = Some r \<Longrightarrow> rawType r = ''input'' \<or> rawType r = ''textarea''"
  by (auto simp: inputEntry_def split: if_splits)

lemma selectEntry_type: "selectEntry el = Some r \<Longrightarrow> rawType r = ''select''"
  by (auto simp: selectEntry_def split: if_splits)

lemma collectElements_cases:
  assumes "r \<in> set (collectElements doc)"
  shows "(\<exists>el \<in> set (queryLinks doc). linkEntry el = Some r) \<or>
         (\<exists>el \<in> set (queryButtons doc). buttonEntry el = Some r) \<or>
         (\<exists>el \<in> set (queryInputs doc). inputEntry el = Some r) \<or>
         (\<exists>el \<in> set (querySelects doc). selectEntry el = Some r)"
  using assms unfolding collectElements_def set_append set_map_filter by blast

lemma collectElements_types: "rawType ` set (collectElements doc) \<subseteq> knownTypes"
proof
  fix t assume "t \<in> rawType ` set (collectElements doc)"
  then obtain r where r: "r \<in> set (collectElements doc)" and t: "t = rawType r" by blast
  from collectElements_cases[OF r] have "rawType r \<in> knownTypes"
    unfolding knownTypes_def
    by (elim disjE bexE)
       (auto dest: linkEntry_type buttonEntry_type inputEntry_type selectEntry_type)
  with t show "t \<in> knownTypes" by simp
qed

lemma kept_subset: "set (take 150 (dedupe {} els)) \<subseteq> set els"
  using dedupe_subset[of "{}" els] by (blast dest: in_set_takeD)

lemma assignRefs_nth:
  "i < length els \<Longrightarrow>
   ref (assignRefs counters els ! i) =
     refPrefix (rawType (els ! i)) @ ''_'' @
     showNat (counterOf counters (rawType (els ! i)) +
              length (filter (\<lambda>r. rawType r = rawType (els ! i)) (take (Suc i) els)))"
proof (induction els arbitrary: counters i)
  case Nil
  then show ?case by simp
next
  case (Cons el els)
  show ?case
  proof (cases i)
    case 0
    then show ?thesis by (simp add: Let_def)
  next
    case (Suc j)
    with Cons.prems have j: "j < length els" by simp
    let ?cs = "counters(rawType el \<mapsto> counterOf counters (rawType el) + 1)"
    let ?t = "rawType (els ! j)"
    have step: "assignRefs counters (el # els) ! i = assignRefs ?cs els ! j"
      using Suc by (simp add: Let_def)
    have here: "(el # els) ! i = els ! j" using Suc by simp
    have count: "counterOf ?cs ?t + length (filter (\<lambda>r. rawType r = ?t) (take (Suc j) els)) =
        counterOf counters ?t +
        length (filter (\<lambda>r. rawType r = ?t) (take (Suc i) (el # els)))"
      using Suc by (simp add: counterOf_upd)
    have "ref (assignRefs ?cs els ! j) = refPrefix ?t @ ''_'' @
        showNat (counterOf ?cs ?t + length (filter (\<lambda>r. rawType r = ?t) (take (Suc j) els)))"
      by (rule Cons.IH[OF j])
    then show ?thesis unfolding step here count .
  qed
qed

lemma assignRefs_types: "map elemType (assignRefs counters els) = map rawType els"
  by (induction els arbitrary: counters) (simp_all add: Let_def)

lemma count_by_type:
  "length (filter (\<lambda>x. f x = t) xs) = length (filter (\<lambda>y. y = t) (map f xs))"
  by (induction xs) simp_all

lemma initialCounters_zero: "counterOf initialCounters t = 0"
  by (simp add: counterOf_def initialCounters_def)

lemma assignRefs_numbering:
  assumes i: "i < length (assignRefs initialCounters els)"
  shows "ref (assignRefs initialCounters els ! i) =
     refPrefix (elemType (assignRefs initialCounters els ! i)) @ ''_'' @
     showNat (length (filter (\<lambda>e. elemType e = elemType (assignRefs initialCounters els ! i))
                        (take (Suc i) (assignRefs initialCounters els))))"
proof -
  let ?es = "assignRefs initialCounters els"
  from i have i': "i < length els" by (simp add: assignRefs_length)
  have ty: "elemType (?es ! i) = rawType (els ! i)"
    using i i' nth_map[of i ?es elemType] nth_map[of i els rawType]
    by (simp add: assignRefs_types)
  have "length (filter (\<lambda>e. elemType e = rawType (els ! i)) (take (Suc i) ?es)) =
        length (filter (\<lambda>y. y = rawType (els ! i)) (map elemType (take (Suc i) ?es)))"
    by (rule count_by_type)
  also have "map elemType (take (Suc i) ?es) = map rawType (take (Suc i) els)"
    by (simp only: take_map[symmetric] assignRefs_types)
  also have "length (filter (\<lambda>y. y = rawType (els ! i)) (map rawType (take (Suc i) els))) =
        length (filter (\<lambda>r. rawType r = rawType (els ! i)) (take (Suc i) els))"
    by (rule count_by_type[symmetric])
  finally show ?thesis
    using assignRefs_nth[OF i', of initialCounters] by (simp add: ty initialCounters_zero)
qed

text \<open>
  Claim C9. In every snapshot the refs are pairwise distinct. The ref of an element is the
  prefix of its type (\<open>link\<close>, \<open>btn\<close>, \<open>input\<close>, \<open>textarea\<close>, \<open>select\<close>), an underscore
  and the number of elements of that type up to and including it, so each category counts
  from 1.
\<close>

theorem refs_pairwise_distinct:
  "distinct (map ref (pageElements (collectElements doc))) \<and>
   (\<forall>i < length (pageElements (collectElements doc)).
      ref (pageElements (collectElements doc) ! i) =
        refPrefix (elemType (pageElements (collectElements doc) ! i)) @ ''_'' @
        showNat (length (filter (\<lambda>e. elemType e = elemType (pageElements (collectElements doc) ! i))
                           (take (Suc i) (pageElements (collectElements doc))))))"
proof (intro conjI allI impI)
  have "rawType ` set (take 150 (dedupe {} (collectElements doc))) \<subseteq> knownTypes"
    using kept_subset[of "collectElements doc"] collectElements_types[of doc] by blast
  then show "distinct (map ref (pageElements (collectElements doc)))"
    unfolding pageElements_def by (rule assignRefs_distinct)
next
  fix i assume "i < length (pageElements (collectElements doc))"
  then show "ref (pageElements (collectElements doc) ! i) =
        refPrefix (elemType (pageElements (collectElements doc) ! i)) @ ''_'' @
        showNat (length (filter (\<lambda>e. elemType e = elemType (pageElements (collectElements doc) ! i))
                           (take (Suc i) (pageElements (collectElements doc)))))"
    unfolding pageElements_def by (rule assignRefs_numbering)
qed

theorem refs_pairwise_distinct_witness:
  "map ref (pageElements (collectElements twoLinksDoc)) = [''link_1'', ''link_2'', ''btn_1''] \<and>
   distinct (map ref (pageElements (collectElements twoLinksDoc)))"
proof -
  have "map ref (pageElements (collectElements twoLinksDoc)) = [''link_1'', ''link_2'', ''btn_1'']"
    by code_simp
  with refs_pairwise_distinct[of twoLinksDoc] show ?thesis by blast
qed

lemma getText_le: "length (getText el) \<le> 100"
  by (simp add: getText_def)

lemma linkEntry_text:
  "linkEntry el = Some r \<Longrightarrow>
   rawText r = take 80 (if getText el \<noteq> [] then getText el
                        else if truthy (getAttribute el ''aria-label'') then reflected el ''aria-label''
                        else reflected el ''href'')"
  by (auto simp: linkEntry_def linkLabel_def orElse_def truthy_def reflected_def Let_def
           split: if_splits option.splits)

lemma buttonEntry_text:
  "buttonEntry el = Some r \<Longrightarrow>
   rawText r = take 80 (if getText el \<noteq> [] then getText el
                        else if truthy (getAttribute el ''aria-label'') then reflected el ''aria-label''
                        else if truthy (getAttribute el ''value'') then reflected el ''value''
                        else ''Button'')"
  by (auto simp: buttonEntry_def buttonLabel_def orElse_def truthy_def reflected_def
           split: if_splits option.splits)

lemma inputEntry_text:
  "inputEntry el = Some r \<Longrightarrow>
   rawText r = take 80 (if reflected el ''placeholder'' \<noteq> [] then reflected el ''placeholder''
                        else if truthy (getAttribute el ''aria-label'') then reflected el ''aria-label''
                        else if reflected el ''name'' \<noteq> [] then reflected el ''name''
                        else if typeProp el \<noteq> [] then typeProp el
                        else ''Input'')"
  by (auto simp: inputEntry_def inputLabel_def orElse_def truthy_def reflected_def
           split: if_splits option.splits)

lemma selectEntry_text:
  "selectEntry el = Some r \<Longrightarrow>
   rawText r = take 80 (if truthy (getAttribute el ''aria-label'') then reflected el ''aria-label''
                        else if reflected el ''name'' \<noteq> [] then reflected el ''name''
                        else ''Select'')"
  by (auto simp: selectEntry_def selectLabel_def orElse_def truthy_def reflected_def
           split: if_splits option.splits)

lemma collected_text_le:
  assumes "r \<in> set (collectElements doc)" shows "length (rawText r) \<le> 80"
  using collectElements_cases[OF assms]
  by (elim disjE bexE)
     (simp_all add: linkEntry_text buttonEntry_text inputEntry_text selectEntry_text)

lemma assignRefs_texts: "map elemText (assignRefs counters els) = map rawText els"
  by (induction els arbitrary: counters) (simp_all add: Let_def)

lemma pageElements_texts:
  assumes "e \<in> set (pageElements els)" shows "\<exists>r \<in> set els. elemText e = rawText r"
proof -
  from assms have "elemText e \<in> set (map elemText (pageElements els))" by simp
  then have "elemText e \<in> set (map rawText (take 150 (dedupe {} els)))"
    by (simp only: pageElements_def assignRefs_texts)
  then obtain r where "r \<in> set (take 150 (dedupe {} els))" "elemText e = rawText r" by auto
  with kept_subset[of els] show ?thesis by blast
qed

text \<open>
  Claim C4, as stated, fails: a visible link whose collapsed text has exactly 100 characters
  enters the snapshot with 80 characters, because every pass applies \<open>text.slice(0, 80)\<close>
  to the label that \<open>getText\<close> had capped at 100.
\<close>

theorem hundred_characters_cut_to_80:
  "length (collapseSpaces (trim (textContent longLink))) = 100 \<and>
   map (\<lambda>e. length (elemText e)) (pageElements (collectElements longLinkDoc)) = [80]"
  by code_simp

text \<open>
  Claim C4, amended. The text of every element of a snapshot has at most 80 characters and is
  the text of a collected entry. The text of an entry is the first 80 characters of its
  label: for a link the visible text (trimmed, white space collapsed, capped at 100), else
  the aria-label, else the href; for a button the visible text, else the aria-label, else the
  value, else \<open>Button\<close>; for an input or a textarea the placeholder, else the aria-label,
  else the name, else the type, else \<open>Input\<close>, the visible text not being read; for a select
  the aria-label, else the name, else \<open>Select\<close>.
\<close>

theorem snapshot_text_capped_at_80:
  "(e \<in> set (pageElements (collectElements doc)) \<longrightarrow>
      length (elemText e) \<le> 80 \<and> (\<exists>r \<in> set (collectElements doc). elemText e = rawText r)) \<and>
   (linkEntry el = Some r \<longrightarrow>
      rawText r = take 80 (if getText el \<noteq> [] then getText el
                           else if truthy (getAttribute el ''aria-label'')
                           then reflected el ''aria-label'' else reflected el ''href'')) \<and>
   (buttonEntry el = Some r \<longrightarrow>
      rawText r = take 80 (if getText el \<noteq> [] then getText el
                           else if truthy (getAttribute el ''aria-label'')
                           then reflected el ''aria-label''
                           else if truthy (getAttribute el ''value'')
                           then reflected el ''value'' else ''Button'')) \<and>
   (inputEntry el = Some r \<longrightarrow>
      rawText r = take 80 (if reflected el ''placeholder'' \<noteq> [] then reflected el ''placeholder''
                           else if truthy (getAttribute el ''aria-label'')
                           then reflected el ''aria-label''
                           else if reflected el ''name'' \<noteq> [] then reflected el ''name''
                           else if typeProp el \<noteq> [] then typeProp el else ''Input'')) \<and>
   (selectEntry el = Some r \<longrightarrow>
      rawText r = take 80 (if truthy (getAttribute el ''aria-label'')
                           then reflected el ''aria-label''
                           else if reflected el ''name'' \<noteq> [] then reflected el ''name''
                           else ''Select'')) \<and>
   getText el = take 100 (collapseSpaces (trim (textContent el)))"
proof (intro conjI impI)
  assume mem: "e \<in> set (pageElements (collectElements doc))"
  from pageElements_texts[OF mem] obtain r where
    r: "r \<in> set (collectElements doc)" and eq: "elemText e = rawText r" by blast
  from collected_text_le[OF r] eq show "length (elemText e) \<le> 80" by simp
  from r eq show "\<exists>r \<in> set (collectElements doc). elemText e = rawText r" by blast
next
  show "getText el = take 100 (collapseSpaces (trim (textContent el)))"
    by (simp add: getText_def)
qed (erule linkEntry_text buttonEntry_text inputEntry_text selectEntry_text)+

theorem snapshot_text_capped_at_80_witness:
  "linkEntry longLink = Some longLinkEntry \<and> length (getText longLink) = 100 \<and>
   rawText longLinkEntry = take 80 (getText longLink) \<and> length (rawText longLinkEntry) = 80"
proof -
  have entry: "linkEntry longLink = Some longLinkEntry" by code_simp
  have full: "length (getText longLink) = 100" by code_simp
  then have nonempty: "getText longLink \<noteq> []" by auto
  from snapshot_text_capped_at_80[of _ _ longLink longLinkEntry] entry nonempty
  have cut: "rawText longLinkEntry = take 80 (getText longLink)" by simp
  with full have "length (rawText longLinkEntry) = 80" by simp
  with entry full cut show ?thesis by simp
qed

section \<open>Properties of the browser controller\<close>

text \<open>
  Claim C1, as stated, fails: on a page where every click times out, the third consecutive
  failing \<open>click\<close> of one ref still returns the retry message and leaves the counter at 3;
  the fourth returns \<open>Click failed after retries\<close> and deletes the counter.
\<close>

theorem third_failing_click_is_not_terminal:
  "fst stuck3 = Inr (failure
      ''Click failed: TimeoutError: Timeout 5000ms exceeded.. Try scrolling or refreshing page context.'') \<and>
   retryCount (fst (snd stuck3)) ''click:btn_1'' = Some 3 \<and>
   fst stuck4 = Inr (failure ''Click failed after retries: TimeoutError: Timeout 5000ms exceeded.'') \<and>
   retryCount (fst (snd stuck4)) ''click:btn_1'' = None"
  by code_simp

lemma click_success_clears:
  assumes "click pw r c b = (Inr res, c1, b1)" and "success res"
  shows "retryCount c1 (getRetryKey ''click'' [r]) = None"
  using assms
  by (auto simp: click_def getPage_def clickSelector_def checkRetryLimit_def clearRetry_def
        failure_def Let_def split: option.splits sum.splits prod.splits if_splits)

lemma withCount_fields:
  "page (withCount key n c) = page c"
  "elementMap (withCount key n c) = elementMap c"
  "retryCount (withCount key n c) key = Some n"
  by (simp_all add: withCount_def)

lemma withCount_again: "withCount key m (withCount key n c) = withCount key m c"
  by (simp add: withCount_def)

lemma withCount_next:
  "(withCount key n c)\<lparr>retryCount := (retryCount (withCount key n c))(key \<mapsto> m)\<rparr> = withCount key m c"
  by (simp add: withCount_def)

lemma withCount_first:
  "c\<lparr>retryCount := (retryCount c)(key \<mapsto> m)\<rparr> = withCount key m c"
  by (simp add: withCount_def)

lemma withCount_deleted:
  "retryCount c key = None \<Longrightarrow>
   (withCount key n c)\<lparr>retryCount := (retryCount (withCount key n c))(key := None)\<rparr> = c"
  by (simp add: withCount_def fun_upd_idem)

lemma checkRetryLimit_cycle:
  assumes "retryCount c key = None"
  shows "checkRetryLimit key c = (True, withCount key 1 c)"
    and "checkRetryLimit key (withCount key 1 c) = (True, withCount key 2 c)"
    and "checkRetryLimit key (withCount key 2 c) = (True, withCount key 3 c)"
    and "checkRetryLimit key (withCount key 3 c) = (False, c)"
  using assms
  by (simp_all add: checkRetryLimit_def withCount_def fun_upd_idem eval_nat_numeral)

text \<open>A call with a given verdict of \<open>checkRetryLimit\<close>.\<close>

lemma click_admitted:
  assumes "page c = Some p" and "elementMap c r = Some sel" and "sel \<noteq> []"
    and "clickPrimary pw sel b = (Inl e, b1)"
    and "locatorClick pw sel True 1 b1 = (Inl e2, b2)"
    and "checkRetryLimit (getRetryKey ''click'' [r]) c = (True, c1)"
  shows "click pw r c b =
     (Inr (failure (''Click failed: '' @ e @ ''. Try scrolling or refreshing page context.'')), c1, b2)"
  using assms by (simp add: click_def getPage_def clickSelector_def)

lemma click_refused:
  assumes "page c = Some p" and "elementMap c r = Some sel" and "sel \<noteq> []"
    and "clickPrimary pw sel b = (Inl e, b1)"
    and "checkRetryLimit (getRetryKey ''click'' [r]) c = (False, c1)"
  shows "click pw r c b = (Inr (failure (''Click failed after retries: '' @ e)), c1, b1)"
  using assms by (simp add: click_def getPage_def clickSelector_def)

lemma typeText_admitted:
  assumes "page c = Some p" and "elementMap c r = Some sel" and "sel \<noteq> []"
    and "typePrimary pw sel typed pressEnter b = (Inl e, b1)"
    and "typeFill pw sel typed pressEnter b1 = (Inl e2, b2)"
    and "typeSequentially pw sel typed pressEnter b2 = (Inl e3, b3)"
    and "checkRetryLimit (getRetryKey ''type'' [r]) c = (True, c1)"
  shows "typeText pw r typed pressEnter c b =
     (Inr (failure (''All type methods failed. Last error: '' @ e)), c1, b3)"
  using assms by (simp add: typeText_def getPage_def typeSelector_def)

lemma typeText_refused:
  assumes "page c = Some p" and "elementMap c r = Some sel" and "sel \<noteq> []"
    and "typePrimary pw sel typed pressEnter b = (Inl e, b1)"
    and "checkRetryLimit (getRetryKey ''type'' [r]) c = (False, c1)"
  shows "typeText pw r typed pressEnter c b =
     (Inr (failure (''Type failed after retries: '' @ e)), c1, b1)"
  using assms by (simp add: typeText_def getPage_def typeSelector_def)

lemma navigate_admitted:
  assumes "page c = Some p"
    and "goto pw (withProtocol url0) b = (Inl e, b1)"
    and "checkRetryLimit (getRetryKey ''navigate'' [url0]) c = (True, c1)"
  shows "navigate pw url0 c b =
     (Inr (failure (''Navigation failed: '' @ e @ ''. Retrying...'')), c1, b1)"
  using assms by (simp add: navigate_def getPage_def navigateCatch_def withProtocol_def)

lemma navigate_refused:
  assumes "page c = Some p"
    and "goto pw (withProtocol url0) b = (Inl e, b1)"
    and "checkRetryLimit (getRetryKey ''navigate'' [url0]) c = (False, c1)"
  shows "navigate pw url0 c b =
     (Inr (failure (''Navigation failed after retries: '' @ e)), c1, b1)"
  using assms by (simp add: navigate_def getPage_def navigateCatch_def withProtocol_def)

lemma typeText_success_clears:
  assumes "typeText pw r typed pressEnter c b = (Inr res, c1, b1)" and "success res"
  shows "retryCount c1 (getRetryKey ''type'' [r]) = None"
  using assms
  by (auto simp: typeText_def getPage_def typeSelector_def checkRetryLimit_def clearRetry_def
        failure_def Let_def split: option.splits sum.splits prod.splits if_splits)

lemma navigate_success_clears:
  assumes "navigate pw url0 c b = (Inr res, c1, b1)" and "success res"
  shows "retryCount c1 (getRetryKey ''navigate'' [url0]) = None"
  using assms
  by (auto simp: navigate_def getPage_def navigateCatch_def checkRetryLimit_def clearRetry_def
        failure_def Let_def split: option.splits sum.splits prod.splits if_splits bool.splits)

lemma click_four_failures:
  assumes ready: "page c = Some p"
    and bound: "elementMap c r = Some sel" and nonempty: "sel \<noteq> []"
    and fresh: "retryCount c (getRetryKey ''click'' [r]) = None"
    and primaryFails: "\<forall>b. \<exists>e b1. clickPrimary pw sel b = (Inl e, b1)"
    and forcedFails: "\<forall>b. \<exists>e b1. locatorClick pw sel True 1 b = (Inl e, b1)"
  shows "\<exists>e1 b1 e2 b2 e3 b3 e4 b4.
      click pw r c b0 =
        (Inr (failure (''Click failed: '' @ e1 @ ''. Try scrolling or refreshing page context.'')),
         withCount (getRetryKey ''click'' [r]) 1 c, b1) \<and>
      click pw r (withCount (getRetryKey ''click'' [r]) 1 c) b1 =
        (Inr (failure (''Click failed: '' @ e2 @ ''. Try scrolling or refreshing page context.'')),
         withCount (getRetryKey ''click'' [r]) 2 c, b2) \<and>
      click pw r (withCount (getRetryKey ''click'' [r]) 2 c) b2 =
        (Inr (failure (''Click failed: '' @ e3 @ ''. Try scrolling or refreshing page context.'')),
         withCount (getRetryKey ''click'' [r]) 3 c, b3) \<and>
      clickPrimary pw sel b3 = (Inl e4, b4) \<and>
      click pw r (withCount (getRetryKey ''click'' [r]) 3 c) b3 =
        (Inr (failure (''Click failed after retries: '' @ e4)), c, b4)"
proof -
  let ?key = "getRetryKey ''click'' [r]"
  note cycle = checkRetryLimit_cycle[OF fresh]
  have ready': "page (withCount ?key n c) = Some p" for n
    using ready by (simp add: withCount_fields)
  have bound': "elementMap (withCount ?key n c) r = Some sel" for n
    using bound by (simp add: withCount_fields)
  from primaryFails obtain e1 a1 where p1: "clickPrimary pw sel b0 = (Inl e1, a1)" by blast
  from forcedFails obtain f1 b1 where q1: "locatorClick pw sel True 1 a1 = (Inl f1, b1)" by blast
  from primaryFails obtain e2 a2 where p2: "clickPrimary pw sel b1 = (Inl e2, a2)" by blast
  from forcedFails obtain f2 b2 where q2: "locatorClick pw sel True 1 a2 = (Inl f2, b2)" by blast
  from primaryFails obtain e3 a3 where p3: "clickPrimary pw sel b2 = (Inl e3, a3)" by blast
  from forcedFails obtain f3 b3 where q3: "locatorClick pw sel True 1 a3 = (Inl f3, b3)" by blast
  from primaryFails obtain e4 b4 where p4: "clickPrimary pw sel b3 = (Inl e4, b4)" by blast
  note s1 = click_admitted[OF ready bound nonempty p1 q1 cycle(1)]
  note s2 = click_admitted[OF ready' bound' nonempty p2 q2 cycle(2)]
  note s3 = click_admitted[OF ready' bound' nonempty p3 q3 cycle(3)]
  note s4 = click_refused[OF ready' bound' nonempty p4 cycle(4)]
  from s1 s2 s3 p4 s4 show ?thesis by blast
qed

lemma typeText_four_failures:
  assumes ready: "page c = Some p"
    and bound: "elementMap c r = Some sel" and nonempty: "sel \<noteq> []"
    and fresh: "retryCount c (getRetryKey ''type'' [r]) = None"
    and primaryFails: "\<forall>b. \<exists>e b1. typePrimary pw sel typed pressEnter b = (Inl e, b1)"
    and fillFails: "\<forall>b. \<exists>e b1. typeFill pw sel typed pressEnter b = (Inl e, b1)"
    and sequentialFails: "\<forall>b. \<exists>e b1. typeSequentially pw sel typed pressEnter b = (Inl e, b1)"
  shows "\<exists>e1 b1 e2 b2 e3 b3 e4 b4.
      typeText pw r typed pressEnter c b0 =
        (Inr (failure (''All type methods failed. Last error: '' @ e1)),
         withCount (getRetryKey ''type'' [r]) 1 c, b1) \<and>
      typeText pw r typed pressEnter (withCount (getRetryKey ''type'' [r]) 1 c) b1 =
        (Inr (failure (''All type methods failed. Last error: '' @ e2)),
         withCount (getRetryKey ''type'' [r]) 2 c, b2) \<and>
      typeText pw r typed pressEnter (withCount (getRetryKey ''type'' [r]) 2 c) b2 =
        (Inr (failure (''All type methods failed. Last error: '' @ e3)),
         withCount (getRetryKey ''type'' [r]) 3 c, b3) \<and>
      typePrimary pw sel typed pressEnter b3 = (Inl e4, b4) \<and>
      typeText pw r typed pressEnter (withCount (getRetryKey ''type'' [r]) 3 c) b3 =
        (Inr (failure (''Type failed after retries: '' @ e4)), c, b4)"
proof -
  let ?key = "getRetryKey ''type'' [r]"
  note cycle = checkRetryLimit_cycle[OF fresh]
  have ready': "page (withCount ?key n c) = Some p" for n
    using ready by (simp add: withCount_fields)
  have bound': "elementMap (withCount ?key n c) r = Some sel" for n
    using bound by (simp add: withCount_fields)
  from primaryFails obtain e1 a1 where p1: "typePrimary pw sel typed pressEnter b0 = (Inl e1, a1)" by blast
  from fillFails obtain f1 g1 where q1: "typeFill pw sel typed pressEnter a1 = (Inl f1, g1)" by blast
  from sequentialFails obtain h1 b1 where t1: "typeSequentially pw sel typed pressEnter g1 = (Inl h1, b1)" by blast
  from primaryFails obtain e2 a2 where p2: "typePrimary pw sel typed pressEnter b1 = (Inl e2, a2)" by blast
  from fillFails obtain f2 g2 where q2: "typeFill pw sel typed pressEnter a2 = (Inl f2, g2)" by blast
  from sequentialFails obtain h2 b2 where t2: "typeSequentially pw sel typed pressEnter g2 = (Inl h2, b2)" by blast
  from primaryFails obtain e3 a3 where p3: "typePrimary pw sel typed pressEnter b2 = (Inl e3, a3)" by blast
  from fillFails obtain f3 g3 where q3: "typeFill pw sel typed pressEnter a3 = (Inl f3, g3)" by blast
  from sequentialFails obtain h3 b3 where t3: "typeSequentially pw sel typed pressEnter g3 = (Inl h3, b3)" by blast
  from primaryFails obtain e4 b4 where p4: "typePrimary pw sel typed pressEnter b3 = (Inl e4, b4)" by blast
  note s1 = typeText_admitted[OF ready bound nonempty p1 q1 t1 cycle(1)]
  note s2 = typeText_admitted[OF ready' bound' nonempty p2 q2 t2 cycle(2)]
  note s3 = typeText_admitted[OF ready' bound' nonempty p3 q3 t3 cycle(3)]
  note s4 = typeText_refused[OF ready' bound' nonempty p4 cycle(4)]
  from s1 s2 s3 p4 s4 show ?thesis by blast
qed

lemma navigate_four_failures:
  assumes ready: "page c = Some p"
    and fresh: "retryCount c (getRetryKey ''navigate'' [url0]) = None"
    and gotoFails: "\<forall>b. \<exists>e b1. goto pw (withProtocol url0) b = (Inl e, b1)"
  shows "\<exists>e1 b1 e2 b2 e3 b3 e4 b4.
      navigate pw url0 c b0 =
        (Inr (failure (''Navigation failed: '' @ e1 @ ''. Retrying...'')),
         withCount (getRetryKey ''navigate'' [url0]) 1 c, b1) \<and>
      navigate pw url0 (withCount (getRetryKey ''navigate'' [url0]) 1 c) b1 =
        (Inr (failure (''Navigation failed: '' @ e2 @ ''. Retrying...'')),
         withCount (getRetryKey ''navigate'' [url0]) 2 c, b2) \<and>
      navigate pw url0 (withCount (getRetryKey ''navigate'' [url0]) 2 c) b2 =
        (Inr (failure (''Navigation failed: '' @ e3 @ ''. Retrying...'')),
         withCount (getRetryKey ''navigate'' [url0]) 3 c, b3) \<and>
      goto pw (withProtocol url0) b3 = (Inl e4, b4) \<and>
      navigate pw url0 (withCount (getRetryKey ''navigate'' [url0]) 3 c) b3 =
        (Inr (failure (''Navigation failed after retries: '' @ e4)), c, b4)"
proof -
  let ?key = "getRetryKey ''navigate'' [url0]"
  note cycle = checkRetryLimit_cycle[OF fresh]
  have ready': "page (withCount ?key n c) = Some p" for n
    using ready by (simp add: withCount_fields)
  from gotoFails obtain e1 b1 where p1: "goto pw (withProtocol url0) b0 = (Inl e1, b1)" by blast
  from gotoFails obtain e2 b2 where p2: "goto pw (withProtocol url0) b1 = (Inl e2, b2)" by blast
  from gotoFails obtain e3 b3 where p3: "goto pw (withProtocol url0) b2 = (Inl e3, b3)" by blast
  from gotoFails obtain e4 b4 where p4: "goto pw (withProtocol url0) b3 = (Inl e4, b4)" by blast
  note s1 = navigate_admitted[OF ready p1 cycle(1)]
  note s2 = navigate_admitted[OF ready' p2 cycle(2)]
  note s3 = navigate_admitted[OF ready' p3 cycle(3)]
  note s4 = navigate_refused[OF ready' p4 cycle(4)]
  from s1 s2 s3 p4 s4 show ?thesis by blast
qed

text \<open>
  Claim C1, amended. For every key, \<open>checkRetryLimit\<close> lets a failing call through while
  the counter of the key is below 3 and increments it, and refuses it once the counter is 3
  or more and deletes the counter: from a key without a counter, three checks pass and leave
  the counter at 1, 2 and 3, and the fourth check fails and deletes the counter, which gives
  back the controller the cycle started from. The three operations that
  count retries follow it, each under its own key, \<open>click:ref\<close>, \<open>type:ref\<close> and
  \<open>navigate:url\<close>. When the primary strategy and every fallback of an operation fail on
  consecutive calls, the first three calls return the non-terminal failure and the fourth
  call returns the terminal \<open>failed after retries\<close> failure, carrying the error of the primary
  attempt and leaving the browser as the primary attempt left it, no fallback being tried;
  the controller is then the one before the first call, so a fifth call starts a fresh
  cycle. \<open>navigate\<close> has no fallback. Whenever a call of one of the three operations succeeds,
  the counter of its key is deleted.
\<close>

theorem fourth_consecutive_failure_is_terminal:
  fixes pw :: "'b playwright"
  shows
  "(retryCount c key = Some n \<and> n < 3 \<longrightarrow>
      checkRetryLimit key c = (True, withCount key (n + 1) c)) \<and>
   (retryCount c key = Some n \<and> 3 \<le> n \<longrightarrow>
      checkRetryLimit key c = (False, c\<lparr>retryCount := (retryCount c)(key := None)\<rparr>)) \<and>
   (retryCount c key = None \<longrightarrow>
      checkRetryLimit key c = (True, withCount key 1 c) \<and>
      checkRetryLimit key (withCount key 1 c) = (True, withCount key 2 c) \<and>
      checkRetryLimit key (withCount key 2 c) = (True, withCount key 3 c) \<and>
      checkRetryLimit key (withCount key 3 c) = (False, c)) \<and>
   (page c = Some p \<and> elementMap c r = Some sel \<and> sel \<noteq> [] \<and>
    retryCount c (getRetryKey ''click'' [r]) = None \<and>
    (\<forall>b. \<exists>e b1. clickPrimary pw sel b = (Inl e, b1)) \<and>
    (\<forall>b. \<exists>e b1. locatorClick pw sel True 1 b = (Inl e, b1)) \<longrightarrow>
      (\<exists>e1 b1 e2 b2 e3 b3 e4 b4.
         click pw r c b0 =
           (Inr (failure (''Click failed: '' @ e1 @ ''. Try scrolling or refreshing page context.'')),
            withCount (getRetryKey ''click'' [r]) 1 c, b1) \<and>
         click pw r (withCount (getRetryKey ''click'' [r]) 1 c) b1 =
           (Inr (failure (''Click failed: '' @ e2 @ ''. Try scrolling or refreshing page context.'')),
            withCount (getRetryKey ''click'' [r]) 2 c, b2) \<and>
         click pw r (withCount (getRetryKey ''click'' [r]) 2 c) b2 =
           (Inr (failure (''Click failed: '' @ e3 @ ''. Try scrolling or refreshing page context.'')),
            withCount (getRetryKey ''click'' [r]) 3 c, b3) \<and>
         clickPrimary pw sel b3 = (Inl e4, b4) \<and>
         click pw r (withCount (getRetryKey ''click'' [r]) 3 c) b3 =
           (Inr (failure (''Click failed after retries: '' @ e4)), c, b4))) \<and>
   (page c = Some p \<and> elementMap c r = Some sel \<and> sel \<noteq> [] \<and>
    retryCount c (getRetryKey ''type'' [r]) = None \<and>
    (\<forall>b. \<exists>e b1. typePrimary pw sel typed pressEnter b = (Inl e, b1)) \<and>
    (\<forall>b. \<exists>e b1. typeFill pw sel typed pressEnter b = (Inl e, b1)) \<and>
    (\<forall>b. \<exists>e b1. typeSequentially pw sel typed pressEnter b = (Inl e, b1)) \<longrightarrow>
      (\<exists>e1 b1 e2 b2 e3 b3 e4 b4.
         typeText pw r typed pressEnter c b0 =
           (Inr (failure (''All type methods failed. Last error: '' @ e1)),
            withCount (getRetryKey ''type'' [r]) 1 c, b1) \<and>
         typeText pw r typed pressEnter (withCount (getRetryKey ''type'' [r]) 1 c) b1 =
           (Inr (failure (''All type methods failed. Last error: '' @ e2)),
            withCount (getRetryKey ''type'' [r]) 2 c, b2) \<and>
         typeText pw r typed pressEnter (withCount (getRetryKey ''type'' [r]) 2 c) b2 =
           (Inr (failure (''All type methods failed. Last error: '' @ e3)),
            withCount (getRetryKey ''type'' [r]) 3 c, b3) \<and>
         typePrimary pw sel typed pressEnter b3 = (Inl e4, b4) \<and>
         typeText pw r typed pressEnter (withCount (getRetryKey ''type'' [r]) 3 c) b3 =
           (Inr (failure (''Type failed after retries: '' @ e4)), c, b4))) \<and>
   (page c = Some p \<and> retryCount c (getRetryKey ''navigate'' [url0]) = None \<and>
    (\<forall>b. \<exists>e b1. goto pw (withProtocol url0) b = (Inl e, b1)) \<longrightarrow>
      (\<exists>e1 b1 e2 b2 e3 b3 e4 b4.
         navigate pw url0 c b0 =
           (Inr (failure (''Navigation failed: '' @ e1 @ ''. Retrying...'')),
            withCount (getRetryKey ''navigate'' [url0]) 1 c, b1) \<and>
         navigate pw url0 (withCount (getRetryKey ''navigate'' [url0]) 1 c) b1 =
           (Inr (failure (''Navigation failed: '' @ e2 @ ''. Retrying...'')),
            withCount (getRetryKey ''navigate'' [url0]) 2 c, b2) \<and>
         navigate pw url0 (withCount (getRetryKey ''navigate'' [url0]) 2 c) b2 =
           (Inr (failure (''Navigation failed: '' @ e3 @ ''. Retrying...'')),
            withCount (getRetryKey ''navigate'' [url0]) 3 c, b3) \<and>
         goto pw (withProtocol url0) b3 = (Inl e4, b4) \<and>
         navigate pw url0 (withCount (getRetryKey ''navigate'' [url0]) 3 c) b3 =
           (Inr (failure (''Navigation failed after retries: '' @ e4)), c, b4))) \<and>
   (click pw r held b = (Inr res, heldAfter, bAfter) \<and> success res \<longrightarrow>
      retryCount heldAfter (getRetryKey ''click'' [r]) = None) \<and>
   (typeText pw r typed pressEnter held b = (Inr res, heldAfter, bAfter) \<and> success res \<longrightarrow>
      retryCount heldAfter (getRetryKey ''type'' [r]) = None) \<and>
   (navigate pw url0 held b = (Inr res, heldAfter, bAfter) \<and> success res \<longrightarrow>
      retryCount heldAfter (getRetryKey ''navigate'' [url0]) = None)"
proof (intro conjI impI)
  assume "retryCount c key = Some n \<and> n < 3"
  then show "checkRetryLimit key c = (True, withCount key (n + 1) c)"
    by (simp add: checkRetryLimit_def withCount_def)
next
  assume "retryCount c key = Some n \<and> 3 \<le> n"
  then show "checkRetryLimit key c = (False, c\<lparr>retryCount := (retryCount c)(key := None)\<rparr>)"
    by (simp add: checkRetryLimit_def)
next
  assume "retryCount c key = None"
  then show "checkRetryLimit key c = (True, withCount key 1 c)"
    and "checkRetryLimit key (withCount key 1 c) = (True, withCount key 2 c)"
    and "checkRetryLimit key (withCount key 2 c) = (True, withCount key 3 c)"
    and "checkRetryLimit key (withCount key 3 c) = (False, c)"
    by (rule checkRetryLimit_cycle)+
next
  assume "page c = Some p \<and> elementMap c r = Some sel \<and> sel \<noteq> [] \<and>
    retryCount c (getRetryKey ''click'' [r]) = None \<and>
    (\<forall>b. \<exists>e b1. clickPrimary pw sel b = (Inl e, b1)) \<and>
    (\<forall>b. \<exists>e b1. locatorClick pw sel True 1 b = (Inl e, b1))"
  then have "page c = Some p" "elementMap c r = Some sel" "sel \<noteq> []"
    "retryCount c (getRetryKey ''click'' [r]) = None"
    "\<forall>b. \<exists>e b1. clickPrimary pw sel b = (Inl e, b1)"
    "\<forall>b. \<exists>e b1. locatorClick pw sel True 1 b = (Inl e, b1)"
    by blast+
  then show "\<exists>e1 b1 e2 b2 e3 b3 e4 b4.
         click pw r c b0 =
           (Inr (failure (''Click failed: '' @ e1 @ ''. Try scrolling or refreshing page context.'')),
            withCount (getRetryKey ''click'' [r]) 1 c, b1) \<and>
         click pw r (withCount (getRetryKey ''click'' [r]) 1 c) b1 =
           (Inr (failure (''Click failed: '' @ e2 @ ''. Try scrolling or refreshing page context.'')),
            withCount (getRetryKey ''click'' [r]) 2 c, b2) \<and>
         click pw r (withCount (getRetryKey ''click'' [r]) 2 c) b2 =
           (Inr (failure (''Click failed: '' @ e3 @ ''. Try scrolling or refreshing page context.'')),
            withCount (getRetryKey ''click'' [r]) 3 c, b3) \<and>
         clickPrimary pw sel b3 = (Inl e4, b4) \<and>
         click pw r (withCount (getRetryKey ''click'' [r]) 3 c) b3 =
           (Inr (failure (''Click failed after retries: '' @ e4)), c, b4)"
    by (rule click_four_failures)
next
  assume "page c = Some p \<and> elementMap c r = Some sel \<and> sel \<noteq> [] \<and>
    retryCount c (getRetryKey ''type'' [r]) = None \<and>
    (\<forall>b. \<exists>e b1. typePrimary pw sel typed pressEnter b = (Inl e, b1)) \<and>
    (\<forall>b. \<exists>e b1. typeFill pw sel typed pressEnter b = (Inl e, b1)) \<and>
    (\<forall>b. \<exists>e b1. typeSequentially pw sel typed pressEnter b = (Inl e, b1))"
  then have "page c = Some p" "elementMap c r = Some sel" "sel \<noteq> []"
    "retryCount c (getRetryKey ''type'' [r]) = None"
    "\<forall>b. \<exists>e b1. typePrimary pw sel typed pressEnter b = (Inl e, b1)"
    "\<forall>b. \<exists>e b1. typeFill pw sel typed pressEnter b = (Inl e, b1)"
    "\<forall>b. \<exists>e b1. typeSequentially pw sel typed pressEnter b = (Inl e, b1)"
    by blast+
  then show "\<exists>e1 b1 e2 b2 e3 b3 e4 b4.
         typeText pw r typed pressEnter c b0 =
           (Inr (failure (''All type methods failed. Last error: '' @ e1)),
            withCount (getRetryKey ''type'' [r]) 1 c, b1) \<and>
         typeText pw r typed pressEnter (withCount (getRetryKey ''type'' [r]) 1 c) b1 =
           (Inr (failure (''All type methods failed. Last error: '' @ e2)),
            withCount (getRetryKey ''type'' [r]) 2 c, b2) \<and>
         typeText pw r typed pressEnter (withCount (getRetryKey ''type'' [r]) 2 c) b2 =
           (Inr (failure (''All type methods failed. Last error: '' @ e3)),
            withCount (getRetryKey ''type'' [r]) 3 c, b3) \<and>
         typePrimary pw sel typed pressEnter b3 = (Inl e4, b4) \<and>
         typeText pw r typed pressEnter (withCount (getRetryKey ''type'' [r]) 3 c) b3 =
           (Inr (failure (''Type failed after retries: '' @ e4)), c, b4)"
    by (rule typeText_four_failures)
next
  assume "page c = Some p \<and> retryCount c (getRetryKey ''navigate'' [url0]) = None \<and>
    (\<forall>b. \<exists>e b1. goto pw (withProtocol url0) b = (Inl e, b1))"
  then have "page c = Some p" "retryCount c (getRetryKey ''navigate'' [url0]) = None"
    "\<forall>b. \<exists>e b1. goto pw (withProtocol url0) b = (Inl e, b1)"
    by blast+
  then show "\<exists>e1 b1 e2 b2 e3 b3 e4 b4.
         navigate pw url0 c b0 =
           (Inr (failure (''Navigation failed: '' @ e1 @ ''. Retrying...'')),
            withCount (getRetryKey ''navigate'' [url0]) 1 c, b1) \<and>
         navigate pw url0 (withCount (getRetryKey ''navigate'' [url0]) 1 c) b1 =
           (Inr (failure (''Navigation failed: '' @ e2 @ ''. Retrying...'')),
            withCount (getRetryKey ''navigate'' [url0]) 2 c, b2) \<and>
         navigate pw url0 (withCount (getRetryKey ''navigate'' [url0]) 2 c) b2 =
           (Inr (failure (''Navigation failed: '' @ e3 @ ''. Retrying...'')),
            withCount (getRetryKey ''navigate'' [url0]) 3 c, b3) \<and>
         goto pw (withProtocol url0) b3 = (Inl e4, b4) \<and>
         navigate pw url0 (withCount (getRetryKey ''navigate'' [url0]) 3 c) b3 =
           (Inr (failure (''Navigation failed after retries: '' @ e4)), c, b4)"
    by (rule navigate_four_failures)
next
  assume "click pw r held b = (Inr res, heldAfter, bAfter) \<and> success res"
  then show "retryCount heldAfter (getRetryKey ''click'' [r]) = None"
    by (blast intro: click_success_clears)
next
  assume "typeText pw r typed pressEnter held b = (Inr res, heldAfter, bAfter) \<and> success res"
  then show "retryCount heldAfter (getRetryKey ''type'' [r]) = None"
    by (blast intro: typeText_success_clears)
next
  assume "navigate pw url0 held b = (Inr res, heldAfter, bAfter) \<and> success res"
  then show "retryCount heldAfter (getRetryKey ''navigate'' [url0]) = None"
    by (blast intro: navigate_success_clears)
qed

lemma offline_click: "clickPrimary offlinePage sel b = (Inl ''TimeoutError: Timeout 5000ms exceeded.'', b)"
  by (simp add: clickPrimary_def offlinePage_def stuckPage_def simPlaywright_def attempt_def andThen_def)

lemma offline_forced:
  "locatorClick offlinePage sel force n b = (Inl ''TimeoutError: Timeout 5000ms exceeded.'', b)"
  by (simp add: offlinePage_def stuckPage_def simPlaywright_def attempt_def)

lemma offline_type:
  "typePrimary offlinePage sel typed pressEnter b = (Inl ''TimeoutError: Timeout 5000ms exceeded.'', b)"
  by (simp add: typePrimary_def offlinePage_def stuckPage_def simPlaywright_def attempt_def andThen_def)

lemma offline_fill:
  "typeFill offlinePage sel typed pressEnter b = (Inl ''TimeoutError: Timeout 5000ms exceeded.'', b)"
  by (simp add: typeFill_def offlinePage_def stuckPage_def simPlaywright_def attempt_def andThen_def)

lemma offline_sequentially:
  "typeSequentially offlinePage sel typed pressEnter b =
     (Inl ''TimeoutError: Timeout 5000ms exceeded.'', b)"
  by (simp add: typeSequentially_def offlinePage_def stuckPage_def simPlaywright_def attempt_def
        andThen_def)

lemma offline_goto: "goto offlinePage u b = (Inl ''Error: net::ERR_INTERNET_DISCONNECTED'', b)"
  by (simp add: offlinePage_def)

theorem fourth_consecutive_failure_is_terminal_witness:
  "(\<exists>e1 b1 e2 b2 e3 b3 e4 b4.
      click offlinePage ''btn_1'' goController simStart =
        (Inr (failure (''Click failed: '' @ e1 @ ''. Try scrolling or refreshing page context.'')),
         withCount (getRetryKey ''click'' [''btn_1'']) 1 goController, b1) \<and>
      click offlinePage ''btn_1'' (withCount (getRetryKey ''click'' [''btn_1'']) 1 goController) b1 =
        (Inr (failure (''Click failed: '' @ e2 @ ''. Try scrolling or refreshing page context.'')),
         withCount (getRetryKey ''click'' [''btn_1'']) 2 goController, b2) \<and>
      click offlinePage ''btn_1'' (withCount (getRetryKey ''click'' [''btn_1'']) 2 goController) b2 =
        (Inr (failure (''Click failed: '' @ e3 @ ''. Try scrolling or refreshing page context.'')),
         withCount (getRetryKey ''click'' [''btn_1'']) 3 goController, b3) \<and>
      clickPrimary offlinePage ''#go'' b3 = (Inl e4, b4) \<and>
      click offlinePage ''btn_1'' (withCount (getRetryKey ''click'' [''btn_1'']) 3 goController) b3 =
        (Inr (failure (''Click failed after retries: '' @ e4)), goController, b4)) \<and>
   (\<exists>e1 b1 e2 b2 e3 b3 e4 b4.
      typeText offlinePage ''btn_1'' (JStr ''hi'') (JBool True) goController simStart =
        (Inr (failure (''All type methods failed. Last error: '' @ e1)),
         withCount (getRetryKey ''type'' [''btn_1'']) 1 goController, b1) \<and>
      typeText offlinePage ''btn_1'' (JStr ''hi'') (JBool True)
          (withCount (getRetryKey ''type'' [''btn_1'']) 1 goController) b1 =
        (Inr (failure (''All type methods failed. Last error: '' @ e2)),
         withCount (getRetryKey ''type'' [''btn_1'']) 2 goController, b2) \<and>
      typeText offlinePage ''btn_1'' (JStr ''hi'') (JBool True)
          (withCount (getRetryKey ''type'' [''btn_1'']) 2 goController) b2 =
        (Inr (failure (''All type methods failed. Last error: '' @ e3)),
         withCount (getRetryKey ''type'' [''btn_1'']) 3 goController, b3) \<and>
      typePrimary offlinePage ''#go'' (JStr ''hi'') (JBool True) b3 = (Inl e4, b4) \<and>
      typeText offlinePage ''btn_1'' (JStr ''hi'') (JBool True)
          (withCount (getRetryKey ''type'' [''btn_1'']) 3 goController) b3 =
        (Inr (failure (''Type failed after retries: '' @ e4)), goController, b4)) \<and>
   (\<exists>e1 b1 e2 b2 e3 b3 e4 b4.
      navigate offlinePage ''new.test'' goController simStart =
        (Inr (failure (''Navigation failed: '' @ e1 @ ''. Retrying...'')),
         withCount (getRetryKey ''navigate'' [''new.test'']) 1 goController, b1) \<and>
      navigate offlinePage ''new.test''
          (withCount (getRetryKey ''navigate'' [''new.test'']) 1 goController) b1 =
        (Inr (failure (''Navigation failed: '' @ e2 @ ''. Retrying...'')),
         withCount (getRetryKey ''navigate'' [''new.test'']) 2 goController, b2) \<and>
      navigate offlinePage ''new.test''
          (withCount (getRetryKey ''navigate'' [''new.test'']) 2 goController) b2 =
        (Inr (failure (''Navigation failed: '' @ e3 @ ''. Retrying...'')),
         withCount (getRetryKey ''navigate'' [''new.test'']) 3 goController, b3) \<and>
      goto offlinePage (withProtocol ''new.test'') b3 = (Inl e4, b4) \<and>
      navigate offlinePage ''new.test''
          (withCount (getRetryKey ''navigate'' [''new.test'']) 3 goController) b3 =
        (Inr (failure (''Navigation failed after retries: '' @ e4)), goController, b4)) \<and>
   checkRetryLimit ''scan:profile'' (withCount ''scan:profile'' 3 goController) =
     (False, goController) \<and>
   checkRetryLimit (getRetryKey ''click'' [''btn_1'']) retriedController =
     (True, withCount (getRetryKey ''click'' [''btn_1'']) 3 retriedController) \<and>
   checkRetryLimit ''scan:profile'' (withCount ''scan:profile'' 7 goController) =
     (False, (withCount ''scan:profile'' 7 goController)
        \<lparr>retryCount := (retryCount (withCount ''scan:profile'' 7 goController))
           (''scan:profile'' := None)\<rparr>) \<and>
   retryCount retriedController (getRetryKey ''click'' [''btn_1'']) = Some 2 \<and>
   fst (click livePage ''btn_1'' retriedController simStart) =
     Inr (succeeded (DataJs (JObj [(''clicked'', JStr ''btn_1'')]))) \<and>
   retryCount (fst (snd (click livePage ''btn_1'' retriedController simStart)))
     (getRetryKey ''click'' [''btn_1'']) = None \<and>
   retryCount retriedController (getRetryKey ''type'' [''btn_1'']) = Some 2 \<and>
   fst (typeText livePage ''btn_1'' (JStr ''hi'') (JBool True) retriedController simStart) =
     Inr (succeeded (typedData (JStr ''hi'') (JBool True) [])) \<and>
   retryCount (fst (snd (typeText livePage ''btn_1'' (JStr ''hi'') (JBool True) retriedController simStart)))
     (getRetryKey ''type'' [''btn_1'']) = None \<and>
   retryCount retriedController (getRetryKey ''navigate'' [''new.test'']) = Some 2 \<and>
   fst (navigate livePage ''new.test'' retriedController simStart) =
     Inr (succeeded (DataJs (JObj [(''url'', JStr ''https://new.test''), (''title'', JStr ''Page'')]))) \<and>
   retryCount (fst (snd (navigate livePage ''new.test'' retriedController simStart)))
     (getRetryKey ''navigate'' [''new.test'']) = None"
proof -
  note failing = fourth_consecutive_failure_is_terminal[where pw = offlinePage and c = goController
      and p = PageHandle and r = "''btn_1''" and sel = "''#go''" and ?b0.0 = simStart
      and typed = "JStr ''hi''" and pressEnter = "JBool True" and ?url0.0 = "''new.test''"
      and key = "''scan:profile''"]
  have ready: "page goController = Some PageHandle"
    and bound: "elementMap goController ''btn_1'' = Some ''#go''"
    and fresh: "retryCount goController k = None" for k
    by (simp_all add: goController_def)
  from failing ready bound fresh offline_click offline_forced
  have clicks: "\<exists>e1 b1 e2 b2 e3 b3 e4 b4.
      click offlinePage ''btn_1'' goController simStart =
        (Inr (failure (''Click failed: '' @ e1 @ ''. Try scrolling or refreshing page context.'')),
         withCount (getRetryKey ''click'' [''btn_1'']) 1 goController, b1) \<and>
      click offlinePage ''btn_1'' (withCount (getRetryKey ''click'' [''btn_1'']) 1 goController) b1 =
        (Inr (failure (''Click failed: '' @ e2 @ ''. Try scrolling or refreshing page context.'')),
         withCount (getRetryKey ''click'' [''btn_1'']) 2 goController, b2) \<and>
      click offlinePage ''btn_1'' (withCount (getRetryKey ''click'' [''btn_1'']) 2 goController) b2 =
        (Inr (failure (''Click failed: '' @ e3 @ ''. Try scrolling or refreshing page context.'')),
         withCount (getRetryKey ''click'' [''btn_1'']) 3 goController, b3) \<and>
      clickPrimary offlinePage ''#go'' b3 = (Inl e4, b4) \<and>
      click offlinePage ''btn_1'' (withCount (getRetryKey ''click'' [''btn_1'']) 3 goController) b3 =
        (Inr (failure (''Click failed after retries: '' @ e4)), goController, b4)"
    by simp
  from failing ready bound fresh offline_type offline_fill offline_sequentially
  have types: "\<exists>e1 b1 e2 b2 e3 b3 e4 b4.
      typeText offlinePage ''btn_1'' (JStr ''hi'') (JBool True) goController simStart =
        (Inr (failure (''All type methods failed. Last error: '' @ e1)),
         withCount (getRetryKey ''type'' [''btn_1'']) 1 goController, b1) \<and>
      typeText offlinePage ''btn_1'' (JStr ''hi'') (JBool True)
          (withCount (getRetryKey ''type'' [''btn_1'']) 1 goController) b1 =
        (Inr (failure (''All type methods failed. Last error: '' @ e2)),
         withCount (getRetryKey ''type'' [''btn_1'']) 2 goController, b2) \<and>
      typeText offlinePage ''btn_1'' (JStr ''hi'') (JBool True)
          (withCount (getRetryKey ''type'' [''btn_1'']) 2 goController) b2 =
        (Inr (failure (''All type methods failed. Last error: '' @ e3)),
         withCount (getRetryKey ''type'' [''btn_1'']) 3 goController, b3) \<and>
      typePrimary offlinePage ''#go'' (JStr ''hi'') (JBool True) b3 = (Inl e4, b4) \<and>
      typeText offlinePage ''btn_1'' (JStr ''hi'') (JBool True)
          (withCount (getRetryKey ''type'' [''btn_1'']) 3 goController) b3 =
        (Inr (failure (''Type failed after retries: '' @ e4)), goController, b4)"
    by simp
  from failing ready fresh offline_goto
  have navigations: "\<exists>e1 b1 e2 b2 e3 b3 e4 b4.
      navigate offlinePage ''new.test'' goController simStart =
        (Inr (failure (''Navigation failed: '' @ e1 @ ''. Retrying...'')),
         withCount (getRetryKey ''navigate'' [''new.test'']) 1 goController, b1) \<and>
      navigate offlinePage ''new.test''
          (withCount (getRetryKey ''navigate'' [''new.test'']) 1 goController) b1 =
        (Inr (failure (''Navigation failed: '' @ e2 @ ''. Retrying...'')),
         withCount (getRetryKey ''navigate'' [''new.test'']) 2 goController, b2) \<and>
      navigate offlinePage ''new.test''
          (withCount (getRetryKey ''navigate'' [''new.test'']) 2 goController) b2 =
        (Inr (failure (''Navigation failed: '' @ e3 @ ''. Retrying...'')),
         withCount (getRetryKey ''navigate'' [''new.test'']) 3 goController, b3) \<and>
      goto offlinePage (withProtocol ''new.test'') b3 = (Inl e4, b4) \<and>
      navigate offlinePage ''new.test''
          (withCount (getRetryKey ''navigate'' [''new.test'']) 3 goController) b3 =
        (Inr (failure (''Navigation failed after retries: '' @ e4)), goController, b4)"
    by simp
  from failing fresh
  have cycle: "checkRetryLimit ''scan:profile'' (withCount ''scan:profile'' 3 goController) =
     (False, goController)"
    by simp
  have counted: "retryCount retriedController (getRetryKey ''click'' [''btn_1'']) = Some 2"
    "retryCount retriedController (getRetryKey ''type'' [''btn_1'']) = Some 2"
    "retryCount retriedController (getRetryKey ''navigate'' [''new.test'']) = Some 2"
    by code_simp+
  from counted(1) fourth_consecutive_failure_is_terminal[where c = retriedController
      and key = "getRetryKey ''click'' [''btn_1'']" and n = 2, THEN conjunct1]
  have admitted: "checkRetryLimit (getRetryKey ''click'' [''btn_1'']) retriedController =
     (True, withCount (getRetryKey ''click'' [''btn_1'']) 3 retriedController)"
    by simp
  have "retryCount (withCount ''scan:profile'' 7 goController) ''scan:profile'' = Some 7"
    by (simp add: withCount_fields)
  with fourth_consecutive_failure_is_terminal[where c = "withCount ''scan:profile'' 7 goController"
      and key = "''scan:profile''" and n = 7, THEN conjunct2, THEN conjunct1]
  have refused: "checkRetryLimit ''scan:profile'' (withCount ''scan:profile'' 7 goController) =
     (False, (withCount ''scan:profile'' 7 goController)
        \<lparr>retryCount := (retryCount (withCount ''scan:profile'' 7 goController))
           (''scan:profile'' := None)\<rparr>)"
    by simp
  have ok: "success (succeeded d)" for d by (simp add: succeeded_def)
  have clicked: "fst (click livePage ''btn_1'' retriedController simStart) =
     Inr (succeeded (DataJs (JObj [(''clicked'', JStr ''btn_1'')])))"
    by code_simp
  then have "click livePage ''btn_1'' retriedController simStart =
     (Inr (succeeded (DataJs (JObj [(''clicked'', JStr ''btn_1'')]))),
      fst (snd (click livePage ''btn_1'' retriedController simStart)),
      snd (snd (click livePage ''btn_1'' retriedController simStart)))"
    by (metis prod.collapse)
  with ok fourth_consecutive_failure_is_terminal[where pw = livePage and r = "''btn_1''"
      and held = retriedController and b = simStart
      and res = "succeeded (DataJs (JObj [(''clicked'', JStr ''btn_1'')]))"
      and heldAfter = "fst (snd (click livePage ''btn_1'' retriedController simStart))"
      and bAfter = "snd (snd (click livePage ''btn_1'' retriedController simStart))"]
  have clickCleared: "retryCount (fst (snd (click livePage ''btn_1'' retriedController simStart)))
     (getRetryKey ''click'' [''btn_1'']) = None"
    by blast
  have typedIn: "fst (typeText livePage ''btn_1'' (JStr ''hi'') (JBool True) retriedController simStart) =
     Inr (succeeded (typedData (JStr ''hi'') (JBool True) []))"
    by code_simp
  then have "typeText livePage ''btn_1'' (JStr ''hi'') (JBool True) retriedController simStart =
     (Inr (succeeded (typedData (JStr ''hi'') (JBool True) [])),
      fst (snd (typeText livePage ''btn_1'' (JStr ''hi'') (JBool True) retriedController simStart)),
      snd (snd (typeText livePage ''btn_1'' (JStr ''hi'') (JBool True) retriedController simStart)))"
    by (metis prod.collapse)
  with ok fourth_consecutive_failure_is_terminal[where pw = livePage and r = "''btn_1''"
      and typed = "JStr ''hi''" and pressEnter = "JBool True"
      and held = retriedController and b = simStart
      and res = "succeeded (typedData (JStr ''hi'') (JBool True) [])"
      and heldAfter = "fst (snd (typeText livePage ''btn_1'' (JStr ''hi'') (JBool True) retriedController simStart))"
      and bAfter = "snd (snd (typeText livePage ''btn_1'' (JStr ''hi'') (JBool True) retriedController simStart))"]
  have typeCleared:
    "retryCount (fst (snd (typeText livePage ''btn_1'' (JStr ''hi'') (JBool True) retriedController simStart)))
       (getRetryKey ''type'' [''btn_1'']) = None"
    by blast
  have arrived: "fst (navigate livePage ''new.test'' retriedController simStart) =
     Inr (succeeded (DataJs (JObj [(''url'', JStr ''https://new.test''), (''title'', JStr ''Page'')])))"
    by code_simp
  then have "navigate livePage ''new.test'' retriedController simStart =
     (Inr (succeeded (DataJs (JObj [(''url'', JStr ''https://new.test''), (''title'', JStr ''Page'')]))),
      fst (snd (navigate livePage ''new.test'' retriedController simStart)),
      snd (snd (navigate livePage ''new.test'' retriedController simStart)))"
    by (metis prod.collapse)
  with ok fourth_consecutive_failure_is_terminal[where pw = livePage and ?url0.0 = "''new.test''"
      and held = retriedController and b = simStart
      and res = "succeeded (DataJs (JObj [(''url'', JStr ''https://new.test''), (''title'', JStr ''Page'')]))"
      and heldAfter = "fst (snd (navigate livePage ''new.test'' retriedController simStart))"
      and bAfter = "snd (snd (navigate livePage ''new.test'' retriedController simStart))"]
  have navigateCleared:
    "retryCount (fst (snd (navigate livePage ''new.test'' retriedController simStart)))
       (getRetryKey ''navigate'' [''new.test'']) = None"
    by blast
  from clicks types navigations cycle admitted refused counted clicked clickCleared typedIn
    typeCleared arrived navigateCleared
  show ?thesis by blast
qed

lemma snapshot_refs_distinct: "distinct (map ref (pageElements (collectElements doc)))"
proof -
  have "rawType ` set (take 150 (dedupe {} (collectElements doc))) \<subseteq> knownTypes"
    using kept_subset[of "collectElements doc"] collectElements_types[of doc] by blast
  then show ?thesis unfolding pageElements_def by (rule assignRefs_distinct)
qed

lemma fold_refresh_other:
  "k \<notin> ref ` set els \<Longrightarrow> fold (\<lambda>el m. m(ref el \<mapsto> selector el)) els m k = m k"
  by (induction els arbitrary: m) simp_all

lemma fold_refresh_dom:
  "dom (fold (\<lambda>el m. m(ref el \<mapsto> selector el)) els m) = dom m \<union> ref ` set els"
  by (induction els arbitrary: m) auto

lemma fold_refresh_lookup:
  "distinct (map ref els) \<Longrightarrow> e \<in> set els \<Longrightarrow>
   fold (\<lambda>el m. m(ref el \<mapsto> selector el)) els m (ref e) = Some (selector e)"
proof (induction els arbitrary: m)
  case Nil
  then show ?case by simp
next
  case (Cons x xs)
  show ?case
  proof (cases "e = x")
    case True
    from Cons.prems have notin: "ref x \<notin> ref ` set xs" by simp
    have "fold (\<lambda>el m. m(ref el \<mapsto> selector el)) (x # xs) m (ref x) =
          fold (\<lambda>el m. m(ref el \<mapsto> selector el)) xs (m(ref x \<mapsto> selector x)) (ref x)"
      by simp
    also from notin have "\<dots> = (m(ref x \<mapsto> selector x)) (ref x)"
      by (rule fold_refresh_other)
    also have "\<dots> = Some (selector x)" by simp
    finally show ?thesis unfolding True .
  next
    case False
    with Cons.prems have "e \<in> set xs" "distinct (map ref xs)" by simp_all
    from Cons.IH[OF this(2) this(1)] show ?thesis by simp
  qed
qed

lemma refreshMap_dom: "dom (refreshMap els) = ref ` set els"
  by (simp add: refreshMap_def fold_refresh_dom)

lemma refreshMap_lookup:
  "distinct (map ref els) \<Longrightarrow> e \<in> set els \<Longrightarrow> refreshMap els (ref e) = Some (selector e)"
  unfolding refreshMap_def by (rule fold_refresh_lookup)

lemma refreshMap_absent: "r \<notin> ref ` set els \<Longrightarrow> refreshMap els r = None"
  using refreshMap_dom[of els] by blast

lemma extractPageContext_elements:
  "extractPageContext pw b = (Inr ctx, b1) \<Longrightarrow>
   \<exists>doc. elements ctx = pageElements (collectElements doc)"
  by (auto simp: extractPageContext_def andThen_def succeed_def Let_def
        split: prod.splits sum.splits)

lemma getPageContext_success:
  assumes "getPageContext pw c b = (Inr res, c1, b1)" and "success res"
  shows "\<exists>ctx doc. res = succeeded (DataContext ctx) \<and>
           elements ctx = pageElements (collectElements doc) \<and>
           c1 = c\<lparr>elementMap := refreshMap (elements ctx)\<rparr> \<and> page c \<noteq> None"
proof -
  from assms(1) obtain p where p: "page c = Some p"
    by (auto simp: getPageContext_def getPage_def split: option.splits)
  obtain out b2 where run: "andThen (waitForLoadState pw) (\<lambda>u. extractPageContext pw) b = (out, b2)"
    by (cases "andThen (waitForLoadState pw) (\<lambda>u. extractPageContext pw) b")
  show ?thesis
  proof (cases out)
    case (Inl err)
    with assms(1) p run have "res = failure (''Failed to extract page context: '' @ err)"
      by (simp add: getPageContext_def getPage_def)
    with assms(2) show ?thesis by (simp add: failure_def)
  next
    case (Inr ctx)
    from run Inr obtain b0 where "extractPageContext pw b0 = (Inr ctx, b2)"
      by (auto simp: andThen_def split: prod.splits sum.splits)
    from extractPageContext_elements[OF this] obtain doc where
      "elements ctx = pageElements (collectElements doc)" by blast
    with assms p run Inr show ?thesis
      by (auto simp: getPageContext_def getPage_def)
  qed
qed

lemma click_unresolved:
  "page c = Some p \<Longrightarrow> elementMap c r = None \<Longrightarrow>
   click pw r c b = (Inr (failure (clickNotFound r)), c, b)"
  by (simp add: click_def getPage_def)

lemma typeText_unresolved:
  "page c = Some p \<Longrightarrow> elementMap c r = None \<Longrightarrow>
   typeText pw r txt pressEnter c b = (Inr (failure (typeNotFound r)), c, b)"
  by (simp add: typeText_def getPage_def)

lemma click_resolved:
  "page c = Some p \<Longrightarrow> elementMap c r = Some sel \<Longrightarrow> sel \<noteq> [] \<Longrightarrow>
   click pw r c b = clickSelector pw r sel c b"
  by (simp add: click_def getPage_def)

lemma typeText_resolved:
  "page c = Some p \<Longrightarrow> elementMap c r = Some sel \<Longrightarrow> sel \<noteq> [] \<Longrightarrow>
   typeText pw r txt pressEnter c b = typeSelector pw r sel txt pressEnter c b"
  by (simp add: typeText_def getPage_def)

text \<open>
  Claim C5, amended. On an initialized controller, for every ref absent from the current
  element map, \<open>click\<close> and \<open>typeText\<close> return the \<open>{success: false}\<close> envelope whose
  message tells the caller to call \<open>get_page_context()\<close>, and leave the controller and the
  browser as they were. Every successful \<open>getPageContext\<close> replaces the map by the map of
  the new snapshot: its keys are exactly the refs of the snapshot and each ref is bound to
  the selector of its element, whatever the map held before.
\<close>

theorem unresolved_ref_is_reported:
  "(page c = Some p \<and> elementMap c r = None \<longrightarrow>
      click pw r c b =
        (Inr \<lparr>success = False, resultData = None,
              resultError = Some (''Element '' @ [CHR 0x22] @ r @ [CHR 0x22] @
                '' not found. Call get_page_context() first to refresh elements.'')\<rparr>, c, b) \<and>
      typeText pw r txt pressEnter c b =
        (Inr \<lparr>success = False, resultData = None,
              resultError = Some (''Element '' @ [CHR 0x22] @ r @ [CHR 0x22] @
                '' not found. Call get_page_context() first.'')\<rparr>, c, b)) \<and>
   (getPageContext pw c b = (Inr res, c1, b1) \<and> success res \<longrightarrow>
      (\<exists>ctx. resultData res = Some (DataContext ctx) \<and>
         elementMap c1 = refreshMap (elements ctx) \<and>
         dom (elementMap c1) = ref ` set (elements ctx) \<and>
         (\<forall>e \<in> set (elements ctx). elementMap c1 (ref e) = Some (selector e))))"
proof (intro conjI impI)
  assume "page c = Some p \<and> elementMap c r = None"
  then have p: "page c = Some p" and none: "elementMap c r = None" by simp_all
  from click_unresolved[OF p none]
  show "click pw r c b =
        (Inr \<lparr>success = False, resultData = None,
              resultError = Some (''Element '' @ [CHR 0x22] @ r @ [CHR 0x22] @
                '' not found. Call get_page_context() first to refresh elements.'')\<rparr>, c, b)"
    by (simp add: failure_def clickNotFound_def)
  from typeText_unresolved[OF p none]
  show "typeText pw r txt pressEnter c b =
        (Inr \<lparr>success = False, resultData = None,
              resultError = Some (''Element '' @ [CHR 0x22] @ r @ [CHR 0x22] @
                '' not found. Call get_page_context() first.'')\<rparr>, c, b)"
    by (simp add: failure_def typeNotFound_def)
next
  assume "getPageContext pw c b = (Inr res, c1, b1) \<and> success res"
  then have run: "getPageContext pw c b = (Inr res, c1, b1)" and ok: "success res" by simp_all
  from getPageContext_success[OF run ok] obtain ctx doc where
    res: "res = succeeded (DataContext ctx)"
    and els: "elements ctx = pageElements (collectElements doc)"
    and c1: "c1 = c\<lparr>elementMap := refreshMap (elements ctx)\<rparr>" by blast
  have dist: "distinct (map ref (elements ctx))" unfolding els by (rule snapshot_refs_distinct)
  have "resultData res = Some (DataContext ctx)" by (simp add: res succeeded_def)
  moreover have "elementMap c1 = refreshMap (elements ctx)" by (simp add: c1)
  moreover have "dom (elementMap c1) = ref ` set (elements ctx)" by (simp add: c1 refreshMap_dom)
  moreover have "\<forall>e \<in> set (elements ctx). elementMap c1 (ref e) = Some (selector e)"
    using refreshMap_lookup[OF dist] by (simp add: c1)
  ultimately show "\<exists>ctx. resultData res = Some (DataContext ctx) \<and>
         elementMap c1 = refreshMap (elements ctx) \<and>
         dom (elementMap c1) = ref ` set (elements ctx) \<and>
         (\<forall>e \<in> set (elements ctx). elementMap c1 (ref e) = Some (selector e))"
    by blast
qed

text \<open>
  Claim C5, as stated, fails: on a controller whose \<open>initialize\<close> has not run, the map is
  empty, so every ref is absent, and \<open>click\<close> and \<open>typeText\<close> throw
  \<open>Browser not initialized\<close> from \<open>getPage\<close> instead of returning an envelope.
\<close>

theorem uninitialized_click_throws:
  "elementMap newController ''link_1'' = None \<and>
   fst (click livePage ''link_1'' newController simStart) = Inl ''Error: Browser not initialized'' \<and>
   fst (typeText livePage ''link_1'' (JStr ''go'') (JBool False) newController simStart) =
     Inl ''Error: Browser not initialized''"
  by code_simp

text \<open>
  Claim C10, as stated, fails in its last clause: when \<open>document.body\<close> itself is a visible
  \<open>[role="button"]\<close> without id, test id and aria-label, \<open>getSelector\<close> returns the empty
  path, the snapshot binds \<open>btn_1\<close> to the empty selector, and \<open>click\<close> answers with the
  stale-reference error although the ref is present in the newest map, since \<open>!selector\<close>
  is true of the empty string.
\<close>

theorem present_ref_with_empty_selector_reported_missing:
  "fst (getPageContext livePage readyController bodyPage) =
     Inr (succeeded (DataContext \<lparr>url = ''https://menu.test'', title = ''Page'',
        elements = [\<lparr>ref = ''btn_1'', elemType = ''button'', elemText = ''Menu'', selector = [],
                     href = None\<rparr>]\<rparr>)) \<and>
   elementMap bodyController ''btn_1'' = Some [] \<and>
   fst (click livePage ''btn_1'' bodyController bodyPage) =
     Inr (failure (''Element '' @ [CHR 0x22] @ ''btn_1'' @ [CHR 0x22] @
                   '' not found. Call get_page_context() first to refresh elements.''))"
  by code_simp

lemma newSnapshot:
  "getPageContext livePage staleController newPage =
     (Inr (succeeded (DataContext newContext)), refreshedController, newPage)"
proof -
  have els: "pageElements (collectElements newDoc) = [newLink]" by code_simp
  have ready: "page staleController = Some PageHandle" by code_simp
  show ?thesis
    by (simp add: getPageContext_def getPage_def ready andThen_def succeed_def
          extractPageContext_def livePage_def simPlaywright_def newPage_def els
          newContext_def refreshedController_def Let_def)
qed

lemma stale_binding: "elementMap staleController ''link_1'' = Some ''#old''"
  by code_simp

lemma new_selector_clicked: "journal (snd (snd (clickSelector livePage ''link_1'' ''#new'' refreshedController newPage))) =
   [''scroll to #new'', ''click #new'']"
  by code_simp

text \<open>
  Claim C10, amended. After a successful \<open>getPageContext\<close> the element map is the map of the
  new snapshot alone, with no trace of the snapshot a ref was minted from. For every element
  of the new snapshot with a non-empty selector, \<open>click\<close> and \<open>typeText\<close> on its ref run
  their strategies on that element's selector, also when an earlier snapshot had bound the
  same ref string to another selector; for every ref that the new snapshot does not
  assign they return the stale-reference error.
\<close>

theorem newest_snapshot_decides_resolution:
  assumes run: "getPageContext pw c b = (Inr res, c1, b1)" and ok: "success res"
  shows "(\<exists>ctx. resultData res = Some (DataContext ctx) \<and>
        elementMap c1 = refreshMap (elements ctx) \<and>
        (\<forall>e \<in> set (elements ctx). selector e \<noteq> [] \<longrightarrow>
           (\<forall>b2 txt pressEnter.
              click pw (ref e) c1 b2 = clickSelector pw (ref e) (selector e) c1 b2 \<and>
              typeText pw (ref e) txt pressEnter c1 b2 =
                typeSelector pw (ref e) (selector e) txt pressEnter c1 b2)) \<and>
        (\<forall>r b2 txt pressEnter. r \<notin> ref ` set (elements ctx) \<longrightarrow>
           click pw r c1 b2 = (Inr (failure (clickNotFound r)), c1, b2) \<and>
           typeText pw r txt pressEnter c1 b2 = (Inr (failure (typeNotFound r)), c1, b2)))"
proof -
  from getPageContext_success[OF run ok] obtain ctx doc where
    res: "res = succeeded (DataContext ctx)"
    and els: "elements ctx = pageElements (collectElements doc)"
    and c1: "c1 = c\<lparr>elementMap := refreshMap (elements ctx)\<rparr>"
    and ready: "page c \<noteq> None" by blast
  from ready c1 obtain p where p: "page c1 = Some p" by auto
  have map1: "elementMap c1 = refreshMap (elements ctx)" by (simp add: c1)
  have dist: "distinct (map ref (elements ctx))" unfolding els by (rule snapshot_refs_distinct)
  have present: "\<forall>e \<in> set (elements ctx). selector e \<noteq> [] \<longrightarrow>
           (\<forall>b2 txt pressEnter.
              click pw (ref e) c1 b2 = clickSelector pw (ref e) (selector e) c1 b2 \<and>
              typeText pw (ref e) txt pressEnter c1 b2 =
                typeSelector pw (ref e) (selector e) txt pressEnter c1 b2)"
  proof (intro ballI impI allI)
    fix e b2 typed pressEnter
    assume e: "e \<in> set (elements ctx)" and ne: "selector e \<noteq> []"
    from refreshMap_lookup[OF dist e] map1
    have bound: "elementMap c1 (ref e) = Some (selector e)" by simp
    show "click pw (ref e) c1 b2 = clickSelector pw (ref e) (selector e) c1 b2 \<and>
          typeText pw (ref e) typed pressEnter c1 b2 =
            typeSelector pw (ref e) (selector e) typed pressEnter c1 b2"
      by (simp add: click_resolved[OF p bound ne] typeText_resolved[OF p bound ne])
  qed
  have absent: "\<forall>r b2 txt pressEnter. r \<notin> ref ` set (elements ctx) \<longrightarrow>
           click pw r c1 b2 = (Inr (failure (clickNotFound r)), c1, b2) \<and>
           typeText pw r txt pressEnter c1 b2 = (Inr (failure (typeNotFound r)), c1, b2)"
  proof (intro allI impI)
    fix r b2 typed pressEnter
    assume "r \<notin> ref ` set (elements ctx)"
    from refreshMap_absent[OF this] map1 have none: "elementMap c1 r = None" by simp
    show "click pw r c1 b2 = (Inr (failure (clickNotFound r)), c1, b2) \<and>
          typeText pw r typed pressEnter c1 b2 = (Inr (failure (typeNotFound r)), c1, b2)"
      by (simp add: click_unresolved[OF p none] typeText_unresolved[OF p none])
  qed
  have "resultData res = Some (DataContext ctx)" by (simp add: res succeeded_def)
  with map1 present absent show ?thesis
    by blast
qed

theorem newest_snapshot_decides_resolution_witness:
  "elementMap staleController ''link_1'' = Some ''#old'' \<and>
   getPageContext livePage staleController newPage =
     (Inr (succeeded (DataContext newContext)), refreshedController, newPage) \<and>
   click livePage ''link_1'' refreshedController newPage =
     clickSelector livePage ''link_1'' ''#new'' refreshedController newPage \<and>
   journal (snd (snd (click livePage ''link_1'' refreshedController newPage))) =
     [''scroll to #new'', ''click #new''] \<and>
   click livePage ''link_2'' refreshedController newPage =
     (Inr (failure (clickNotFound ''link_2'')), refreshedController, newPage)"
proof -
  have ok: "success (succeeded (DataContext newContext))" by (simp add: succeeded_def)
  from newest_snapshot_decides_resolution[where pw = livePage and c = staleController
      and b = newPage and res = "succeeded (DataContext newContext)"
      and ?c1.0 = refreshedController and ?b1.0 = newPage, OF newSnapshot ok]
  obtain ctx where ctx: "resultData (succeeded (DataContext newContext)) = Some (DataContext ctx)"
    and present: "\<forall>e \<in> set (elements ctx). selector e \<noteq> [] \<longrightarrow>
           (\<forall>b2 txt pressEnter.
              click livePage (ref e) refreshedController b2 =
                clickSelector livePage (ref e) (selector e) refreshedController b2 \<and>
              typeText livePage (ref e) txt pressEnter refreshedController b2 =
                typeSelector livePage (ref e) (selector e) txt pressEnter refreshedController b2)"
    and absent: "\<forall>r b2 txt pressEnter. r \<notin> ref ` set (elements ctx) \<longrightarrow>
           click livePage r refreshedController b2 =
             (Inr (failure (clickNotFound r)), refreshedController, b2) \<and>
           typeText livePage r txt pressEnter refreshedController b2 =
             (Inr (failure (typeNotFound r)), refreshedController, b2)"
    by blast
  from ctx have is_new: "ctx = newContext" by (simp add: succeeded_def)
  have mem: "newLink \<in> set (elements ctx)" by (simp add: is_new newContext_def)
  have "selector newLink \<noteq> []" by (simp add: newLink_def)
  with present mem have
    "click livePage (ref newLink) refreshedController newPage =
     clickSelector livePage (ref newLink) (selector newLink) refreshedController newPage"
    by blast
  then have acted: "click livePage ''link_1'' refreshedController newPage =
     clickSelector livePage ''link_1'' ''#new'' refreshedController newPage"
    by (simp add: newLink_def)
  have "''link_2'' \<notin> ref ` set (elements ctx)" by (simp add: is_new newContext_def newLink_def)
  with absent have gone: "click livePage ''link_2'' refreshedController newPage =
     (Inr (failure (clickNotFound ''link_2'')), refreshedController, newPage)"
    by blast
  from stale_binding newSnapshot acted gone new_selector_clicked show ?thesis by simp
qed

theorem unresolved_ref_is_reported_witness:
  "click livePage ''link_2'' refreshedController newPage =
     (Inr \<lparr>success = False, resultData = None,
           resultError = Some (''Element '' @ [CHR 0x22] @ ''link_2'' @ [CHR 0x22] @
             '' not found. Call get_page_context() first to refresh elements.'')\<rparr>,
      refreshedController, newPage) \<and>
   elementMap staleController ''link_1'' = Some ''#old'' \<and>
   dom (elementMap refreshedController) = {''link_1''} \<and>
   elementMap refreshedController ''link_1'' = Some ''#new''"
proof -
  have ready: "page refreshedController = Some PageHandle" by code_simp
  have none: "elementMap refreshedController ''link_2'' = None" by code_simp
  have ok: "success (succeeded (DataContext newContext))" by (simp add: succeeded_def)
  from unresolved_ref_is_reported[of refreshedController PageHandle "''link_2''" livePage newPage]
    ready none
  have first: "click livePage ''link_2'' refreshedController newPage =
     (Inr \<lparr>success = False, resultData = None,
           resultError = Some (''Element '' @ [CHR 0x22] @ ''link_2'' @ [CHR 0x22] @
             '' not found. Call get_page_context() first to refresh elements.'')\<rparr>,
      refreshedController, newPage)"
    by blast
  from unresolved_ref_is_reported[where pw = livePage and c = staleController and b = newPage
      and res = "succeeded (DataContext newContext)" and ?c1.0 = refreshedController
      and ?b1.0 = newPage] newSnapshot ok
  obtain ctx where ctx: "resultData (succeeded (DataContext newContext)) = Some (DataContext ctx)"
    and dom1: "dom (elementMap refreshedController) = ref ` set (elements ctx)"
    and all: "\<forall>e \<in> set (elements ctx). elementMap refreshedController (ref e) = Some (selector e)"
    by blast
  from ctx have is_new: "ctx = newContext" by (simp add: succeeded_def)
  from dom1 have d: "dom (elementMap refreshedController) = {''link_1''}"
    by (simp add: is_new newContext_def newLink_def)
  have "newLink \<in> set (elements ctx)" by (simp add: is_new newContext_def)
  with all have "elementMap refreshedController (ref newLink) = Some (selector newLink)" by blast
  then have l: "elementMap refreshedController ''link_1'' = Some ''#new''" by (simp add: newLink_def)
  from first stale_binding d l show ?thesis by simp
qed

section \<open>Properties of the agent loops\<close>

lemma keepsTask_refl: "keepsTask s s"
  by (simp add: keepsTask_def)

lemma viaBrowser_keeps: "viaBrowser method s w = (r, s1, w1) \<Longrightarrow> keepsTask s s1"
  by (auto simp: viaBrowser_def keepsTask_def split: prod.splits sum.splits)

lemma handleNavigate_keeps: "handleNavigate env args s w = (r, s1, w1) \<Longrightarrow> keepsTask s s1"
  by (auto simp: handleNavigate_def keepsTask_refl split: sum.splits dest: viaBrowser_keeps)

lemma handleClick_keeps: "handleClick env args s w = (r, s1, w1) \<Longrightarrow> keepsTask s s1"
  by (auto simp: handleClick_def keepsTask_refl split: sum.splits dest: viaBrowser_keeps)

lemma handleTypeText_keeps: "handleTypeText env args s w = (r, s1, w1) \<Longrightarrow> keepsTask s s1"
  by (auto simp: handleTypeText_def keepsTask_refl split: sum.splits dest: viaBrowser_keeps)

lemma handleScroll_keeps: "handleScroll env args s w = (r, s1, w1) \<Longrightarrow> keepsTask s s1"
  by (auto simp: handleScroll_def keepsTask_refl split: sum.splits dest: viaBrowser_keeps)

lemma handleGetPageContext_keeps: "handleGetPageContext env s w = (r, s1, w1) \<Longrightarrow> keepsTask s s1"
  by (auto simp: handleGetPageContext_def keepsTask_def split: prod.splits sum.splits)

lemma handleExtractCandidates_keeps:
  "handleExtractCandidates env s w = (r, s1, w1) \<Longrightarrow> keepsTask s s1"
  by (auto simp: handleExtractCandidates_def dest: viaBrowser_keeps)

lemma handleAskUser_keeps: "handleAskUser env args s w = (r, s1, w1) \<Longrightarrow> keepsTask s s1"
  by (auto simp: handleAskUser_def keepsTask_def split: prod.splits sum.splits)

lemma handleRequestConfirmation_keeps:
  "handleRequestConfirmation env args s w = (r, s1, w1) \<Longrightarrow> keepsTask s s1"
  by (auto simp: handleRequestConfirmation_def keepsTask_def split: prod.splits sum.splits)

lemma handleScanProfileDeep_keeps:
  "handleScanProfileDeep env args s w = (r, s1, w1) \<Longrightarrow> keepsTask s s1"
  by (auto simp: handleScanProfileDeep_def keepsTask_def Let_def
        split: prod.splits sum.splits option.splits)


lemma dispatch_keeps:
  assumes "dispatch env name args s w = (r, s1, w1)" and "name \<noteq> ''task_complete''"
  shows "keepsTask s s1"
  using assms unfolding dispatch_def
  by (auto split: if_splits
        dest: handleNavigate_keeps handleClick_keeps handleTypeText_keeps handleScroll_keeps
          handleGetPageContext_keeps handleExtractCandidates_keeps handleAskUser_keeps
          handleRequestConfirmation_keeps handleScanProfileDeep_keeps
        simp: keepsTask_refl)



lemma executeTool_keeps:
  assumes "callName toolCall \<noteq> ''task_complete''"
  shows "taskComplete (fst (executeTool env toolCall s w)) = taskComplete s \<and>
         taskResult (fst (executeTool env toolCall s w)) = taskResult s"
proof -
  obtain r s1 w1 where d: "dispatch env (callName toolCall) (parseArguments env toolCall) s w = (r, s1, w1)"
    by (cases "dispatch env (callName toolCall) (parseArguments env toolCall) s w") auto
  from dispatch_keeps[OF d assms] d show ?thesis
    by (simp add: executeTool_def Let_def keepsTask_def)
qed


lemma executeTools_keeps:
  "\<forall>toolCall \<in> set calls. callName toolCall \<noteq> ''task_complete'' \<Longrightarrow>
   taskComplete (fst (executeTools env calls s w)) = taskComplete s \<and>
   taskResult (fst (executeTools env calls s w)) = taskResult s"
proof (induction calls arbitrary: s w)
  case Nil
  show ?case by simp
next
  case (Cons toolCall rest)
  obtain s1 w1 where step: "executeTool env toolCall s w = (s1, w1)"
    by (cases "executeTool env toolCall s w") auto
  from Cons.prems have first: "callName toolCall \<noteq> ''task_complete''"
    and others: "\<forall>toolCall \<in> set rest. callName toolCall \<noteq> ''task_complete''" by simp_all
  from executeTool_keeps[OF first, of env s w] step
  have "taskComplete s1 = taskComplete s \<and> taskResult s1 = taskResult s" by simp
  with Cons.IH[OF others, of s1 w1] step show ?case by simp
qed


lemma taskIteration_error:
  assumes "chatMain env (messages s) (modelState w) = (Inl e, l1)"
  shows "taskIteration env s w =
     (s\<lparr>messages := messages s @ [UserMessage (errorNote e)]\<rparr>, w\<lparr>modelState := l1\<rparr>)"
  using assms by (simp add: taskIteration_def executeStep_def)

lemma taskIteration_keeps:
  assumes never: "\<And>msgs l m l1. chatMain env msgs l = (Inr m, l1) \<Longrightarrow>
      \<forall>toolCall \<in> set (toolCalls m). callName toolCall \<noteq> ''task_complete''"
  shows "taskComplete (fst (taskIteration env s w)) = taskComplete s \<and>
         taskResult (fst (taskIteration env s w)) = taskResult s"
proof -
  obtain out l1 where chat: "chatMain env (messages s) (modelState w) = (out, l1)"
    by (cases "chatMain env (messages s) (modelState w)") auto
  show ?thesis
  proof (cases out)
    case (Inl e)
    with chat taskIteration_error[of env s w e l1] show ?thesis by simp
  next
    case (Inr m)
    let ?s0 = "s\<lparr>messages := messages s @ [AssistantMessage m]\<rparr>"
    let ?w0 = "w\<lparr>modelState := l1\<rparr>"
    from never chat Inr have "\<forall>toolCall \<in> set (toolCalls m). callName toolCall \<noteq> ''task_complete''"
      by blast
    from executeTools_keeps[OF this, of env ?s0 ?w0] chat Inr show ?thesis
      by (simp add: taskIteration_def executeStep_def split: prod.splits)
  qed
qed

lemma taskLoop_exhausts:
  "(\<And>msgs l m l1. chatMain env msgs l = (Inr m, l1) \<Longrightarrow>
      \<forall>toolCall \<in> set (toolCalls m). callName toolCall \<noteq> ''task_complete'') \<Longrightarrow>
   \<not> taskComplete s \<Longrightarrow> taskResult s = None \<Longrightarrow> iteration \<le> MAX_ITERATIONS \<Longrightarrow>
     fst (taskLoop env iteration s w) = MAX_ITERATIONS \<and>
     \<not> taskComplete (fst (snd (taskLoop env iteration s w))) \<and>
     taskResult (fst (snd (taskLoop env iteration s w))) = None"
proof (induction env iteration s w rule: taskLoop.induct)
  case (1 env iteration s w)
  note never = "1.prems"(1)
  note running = "1.prems"(2) and pending = "1.prems"(3) and bounded = "1.prems"(4)
  show ?case
  proof (cases "iteration < MAX_ITERATIONS")
    case False
    then have stop: "taskLoop env iteration s w = (iteration, s, w)"
      by (simp add: taskLoop.simps[of env iteration s w])
    from False bounded have "iteration = MAX_ITERATIONS" by simp
    with running pending show ?thesis unfolding stop by simp
  next
    case True
    obtain s1 w1 where step: "taskIteration env s w = (s1, w1)"
      by (cases "taskIteration env s w") auto
    have "taskComplete (fst (taskIteration env s w)) = taskComplete s \<and>
          taskResult (fst (taskIteration env s w)) = taskResult s"
      by (rule taskIteration_keeps) (erule never)
    with step running pending
    have keep: "\<not> taskComplete s1" "taskResult s1 = None" by simp_all
    from True have next_ok: "iteration + 1 \<le> MAX_ITERATIONS" by simp
    have enter: "\<not> taskComplete s \<and> iteration < MAX_ITERATIONS" using True running by simp
    from "1.IH"[OF enter step[symmetric] never keep next_ok]
    have "fst (taskLoop env (iteration + 1) s1 w1) = MAX_ITERATIONS \<and>
          \<not> taskComplete (fst (snd (taskLoop env (iteration + 1) s1 w1))) \<and>
          taskResult (fst (snd (taskLoop env (iteration + 1) s1 w1))) = None" .
    moreover have "taskLoop env iteration s w = taskLoop env (iteration + 1) s1 w1"
      using enter step by (simp add: taskLoop.simps[of env iteration s w])
    ultimately show ?thesis by simp
  qed
qed

lemma showNat_500: "showNat MAX_ITERATIONS = ''500''"
  by code_simp

text \<open>
  Claim C6 against the code. When the model of the sub-agent ends the scan with
  \<open>complete_scan\<close>, the result that \<open>scanProfile\<close> returns has the empty string as its
  profile URL, not the URL that was scanned; the fallback result of the same scan, taken when
  the model never calls \<open>complete_scan\<close>, carries the URL.
\<close>

theorem complete_scan_result_has_no_url:
  "fst (scanProfile scanningAgent ''https://github.com/octo'' ''octo'' freshSubAgent
          readyController startWorld) =
     Inr \<lparr>scanSuccess = True, profileUrl = JStr [],
          socialLinks = JObj [(''github'', JStr ''https://github.com/octo'')],
          tldrSummary = JStr ''Go developer.'', additionalData = JUndefined\<rparr> \<and>
   fst (scanProfile idleAgent ''https://github.com/octo'' ''octo'' freshSubAgent
          readyController startWorld) =
     Inr \<lparr>scanSuccess = True, profileUrl = JStr ''https://github.com/octo'',
          socialLinks = JObj [(''github'', JStr ''https://github.com/octo'')],
          tldrSummary = JStr ''Profile scanned (fallback): octo - Go developer...'',
          additionalData = JUndefined\<rparr>"
  by code_simp

text \<open>
  Claim C3. If no proposal of the model ever contains a \<open>task_complete\<close> invocation, the
  loop of \<open>runTask\<close> runs until its counter, which grows by one with every pass, is exactly
  500, and \<open>runTask\<close> returns the synthesised result with \<open>success = false\<close> and an empty
  candidate list; it returns in every case and never throws. A failed model call appends
  the error note as a user message and the loop goes on. No tool other than \<open>task_complete\<close>
  changes \<open>taskComplete\<close> or \<open>taskResult\<close>, so a result with \<open>success = true\<close> can only
  come from a \<open>task_complete\<close> invocation.
\<close>

theorem runTask_stops_at_budget:
  assumes never: "\<And>msgs l m l1.
      chatMain (env :: ('b, 'h, 'l) collaborators) msgs l = (Inr m, l1) \<Longrightarrow>
      \<forall>toolCall \<in> set (toolCalls m). callName toolCall \<noteq> ''task_complete''"
  shows "fst (runTask env task s w) =
       \<lparr>taskSuccess = False, candidates = JArr [],
        summary = JStr ''Task did not complete within 500 iterations.''\<rparr> \<and>
     fst (taskLoop env 0
            (s\<lparr>taskComplete := False, taskResult := None,
               messages := [SystemMessage (systemPrompt env),
                            UserMessage (formatTaskPrompt env task)]\<rparr>) w) = 500 \<and>
     (\<forall>i s1 w1. \<not> taskComplete s1 \<and> i < 500 \<longrightarrow>
        taskLoop env i s1 w1 =
          taskLoop env (i + 1) (fst (taskIteration env s1 w1)) (snd (taskIteration env s1 w1))) \<and>
     (\<forall>s1 w1 e l1. chatMain env (messages s1) (modelState w1) = (Inl e, l1) \<longrightarrow>
        taskIteration env s1 w1 =
          (s1\<lparr>messages := messages s1 @ [UserMessage (errorNote e)]\<rparr>, w1\<lparr>modelState := l1\<rparr>)) \<and>
     (\<forall>toolCall s1 w1. callName toolCall \<noteq> ''task_complete'' \<longrightarrow>
        taskComplete (fst (executeTool env toolCall s1 w1)) = taskComplete s1 \<and>
        taskResult (fst (executeTool env toolCall s1 w1)) = taskResult s1)"
proof (intro conjI allI impI)
  let ?s0 = "s\<lparr>taskComplete := False, taskResult := None,
               messages := [SystemMessage (systemPrompt env),
                            UserMessage (formatTaskPrompt env task)]\<rparr>"
  have "fst (taskLoop env 0 ?s0 w) = MAX_ITERATIONS \<and>
        \<not> taskComplete (fst (snd (taskLoop env 0 ?s0 w))) \<and>
        taskResult (fst (snd (taskLoop env 0 ?s0 w))) = None"
    by (rule taskLoop_exhausts) (erule never, simp_all)
  then have count: "fst (taskLoop env 0 ?s0 w) = 500"
    and none: "taskResult (fst (snd (taskLoop env 0 ?s0 w))) = None" by simp_all
  from count show "fst (taskLoop env 0 ?s0 w) = 500" .
  obtain n s1 w1 where run: "taskLoop env 0 ?s0 w = (n, s1, w1)"
    by (cases "taskLoop env 0 ?s0 w") auto
  with none have "taskResult s1 = None" by simp
  with run show "fst (runTask env task s w) =
       \<lparr>taskSuccess = False, candidates = JArr [],
        summary = JStr ''Task did not complete within 500 iterations.''\<rparr>"
    by (simp add: runTask_def showNat_500)
next
  fix i :: nat and s1 :: coordinator and w1 :: "('b, 'h, 'l) world"
  assume "\<not> taskComplete s1 \<and> i < 500"
  then show "taskLoop env i s1 w1 =
      taskLoop env (i + 1) (fst (taskIteration env s1 w1)) (snd (taskIteration env s1 w1))"
    by (simp add: taskLoop.simps[of env i s1 w1] split: prod.splits)
next
  fix s1 :: coordinator and w1 :: "('b, 'h, 'l) world" and e l1
  assume "chatMain env (messages s1) (modelState w1) = (Inl e, l1)"
  then show "taskIteration env s1 w1 =
      (s1\<lparr>messages := messages s1 @ [UserMessage (errorNote e)]\<rparr>, w1\<lparr>modelState := l1\<rparr>)"
    by (rule taskIteration_error)
next
  fix toolCall :: tool_call and s1 :: coordinator and w1 :: "('b, 'h, 'l) world"
  assume "callName toolCall \<noteq> ''task_complete''"
  then have both: "taskComplete (fst (executeTool env toolCall s1 w1)) = taskComplete s1 \<and>
      taskResult (fst (executeTool env toolCall s1 w1)) = taskResult s1"
    by (rule executeTool_keeps)
  from both show "taskComplete (fst (executeTool env toolCall s1 w1)) = taskComplete s1"
    by (rule conjunct1)
  from both show "taskResult (fst (executeTool env toolCall s1 w1)) = taskResult s1"
    by (rule conjunct2)
qed

theorem runTask_stops_at_budget_witness:
  "fst (runTask idleAgent ''find Go developers'' startCoordinator startWorld) =
       \<lparr>taskSuccess = False, candidates = JArr [],
        summary = JStr ''Task did not complete within 500 iterations.''\<rparr> \<and>
   fst (taskLoop idleAgent 0
          (startCoordinator\<lparr>taskComplete := False, taskResult := None,
             messages := [SystemMessage (systemPrompt idleAgent),
                          UserMessage (formatTaskPrompt idleAgent ''find Go developers'')]\<rparr>)
          startWorld) = 500"
proof -
  have "fst (runTask idleAgent ''find Go developers'' startCoordinator startWorld) =
       \<lparr>taskSuccess = False, candidates = JArr [],
        summary = JStr ''Task did not complete within 500 iterations.''\<rparr> \<and>
     fst (taskLoop idleAgent 0
            (startCoordinator\<lparr>taskComplete := False, taskResult := None,
               messages := [SystemMessage (systemPrompt idleAgent),
                            UserMessage (formatTaskPrompt idleAgent ''find Go developers'')]\<rparr>)
            startWorld) = 500 \<and>
     (\<forall>i s1 w1. \<not> taskComplete s1 \<and> i < 500 \<longrightarrow>
        taskLoop idleAgent i s1 w1 =
          taskLoop idleAgent (i + 1) (fst (taskIteration idleAgent s1 w1))
            (snd (taskIteration idleAgent s1 w1))) \<and>
     (\<forall>s1 w1 e l1. chatMain idleAgent (messages s1) (modelState w1) = (Inl e, l1) \<longrightarrow>
        taskIteration idleAgent s1 w1 =
          (s1\<lparr>messages := messages s1 @ [UserMessage (errorNote e)]\<rparr>, w1\<lparr>modelState := l1\<rparr>)) \<and>
     (\<forall>toolCall s1 w1. callName toolCall \<noteq> ''task_complete'' \<longrightarrow>
        taskComplete (fst (executeTool idleAgent toolCall s1 w1)) = taskComplete s1 \<and>
        taskResult (fst (executeTool idleAgent toolCall s1 w1)) = taskResult s1)"
    by (rule runTask_stops_at_budget)
       (auto simp: idleAgent_def simCollaborators_def scripted_def idleScript_def says_def
          split: if_splits)
  then show ?thesis by blast
qed

lemma getProp_defined:
  "args \<noteq> JNull \<Longrightarrow> args \<noteq> JUndefined \<Longrightarrow> \<exists>v. getProp args k = Inr v"
  by (cases args) simp_all

lemma handleRequestConfirmation_reply:
  assumes "args \<noteq> JNull" and "args \<noteq> JUndefined"
    and "question env ''Proceed? (yes/no): '' (humanState w) = (Inr reply, h1)"
  shows "handleRequestConfirmation env args s w =
     (Inr (confirmationResult (toLowerCase (trim reply) = ''yes'')), s, w\<lparr>humanState := h1\<rparr>)"
proof -
  from getProp_defined[OF assms(1,2)] obtain a where a: "getProp args ''action'' = Inr a" by blast
  from getProp_defined[OF assms(1,2)] obtain r where r: "getProp args ''reason'' = Inr r" by blast
  from getProp_defined[OF assms(1,2)] obtain i where i: "getProp args ''impact'' = Inr i" by blast
  from a r i assms(3) show ?thesis
    by (simp add: handleRequestConfirmation_def askHuman_def)
qed

lemma handleRequestConfirmation_frame:
  "handleRequestConfirmation env args s w = (r, s1, w1) \<Longrightarrow>
   s1 = s \<and> browserState w1 = browserState w \<and> modelState w1 = modelState w"
  by (auto simp: handleRequestConfirmation_def askHuman_def split: sum.splits prod.splits)

lemma executeTool_confirmation_frame:
  assumes "callName toolCall = ''request_confirmation''"
  shows "\<exists>v. executeTool env toolCall s w =
           (s\<lparr>messages := messages s @ [ToolMessage (callId toolCall) v]\<rparr>,
            snd (executeTool env toolCall s w)) \<and>
         browserState (snd (executeTool env toolCall s w)) = browserState w \<and>
         modelState (snd (executeTool env toolCall s w)) = modelState w"
proof -
  obtain r s1 w1 where h: "handleRequestConfirmation env (parseArguments env toolCall) s w = (r, s1, w1)"
    by (cases "handleRequestConfirmation env (parseArguments env toolCall) s w") auto
  from handleRequestConfirmation_frame[OF h] h assms show ?thesis
    by (auto simp: executeTool_def dispatch_def Let_def)
qed

lemma confirmed_only_by_result:
  "getProp (case r of Inr v \<Rightarrow> v | Inl e \<Rightarrow> JObj [(''error'', JStr (''Tool execution failed: '' @ e))])
     ''confirmed'' = Inr (JBool True) \<Longrightarrow>
   handleRequestConfirmation env args s w = (r, s1, w1) \<Longrightarrow>
   \<exists>answer h2. question env ''Proceed? (yes/no): '' (humanState w) = (Inr answer, h2) \<and>
      toLowerCase (trim answer) = ''yes''"
  by (auto simp: handleRequestConfirmation_def askHuman_def confirmationResult_def
        split: sum.splits prod.splits if_splits)

lemma executeTool_confirmation:
  assumes name: "callName toolCall = ''request_confirmation''"
  shows "\<exists>v. fst (executeTool env toolCall s w) =
             s\<lparr>messages := messages s @ [ToolMessage (callId toolCall) v]\<rparr> \<and>
           (getProp v ''confirmed'' = Inr (JBool True) \<longrightarrow>
              (\<exists>answer h2. question env ''Proceed? (yes/no): '' (humanState w) = (Inr answer, h2) \<and>
                 toLowerCase (trim answer) = ''yes''))"
proof -
  obtain r s1 w1 where
    h: "handleRequestConfirmation env (parseArguments env toolCall) s w = (r, s1, w1)"
    by (cases "handleRequestConfirmation env (parseArguments env toolCall) s w") auto
  let ?v = "case r of Inr v \<Rightarrow> v
            | Inl e \<Rightarrow> JObj [(''error'', JStr (''Tool execution failed: '' @ e))]"
  from handleRequestConfirmation_frame[OF h] have same: "s1 = s" by simp
  from h name same have "fst (executeTool env toolCall s w) =
      s\<lparr>messages := messages s @ [ToolMessage (callId toolCall) ?v]\<rparr>"
    by (simp add: executeTool_def dispatch_def Let_def)
  moreover have "getProp ?v ''confirmed'' = Inr (JBool True) \<longrightarrow>
      (\<exists>answer h2. question env ''Proceed? (yes/no): '' (humanState w) = (Inr answer, h2) \<and>
         toLowerCase (trim answer) = ''yes'')"
    using confirmed_only_by_result[OF _ h] by blast
  ultimately show ?thesis by blast
qed

text \<open>
  Claim C8, as stated, fails in its last clause: \<open>executeStep\<close> executes every invocation of
  a proposal in order and never reads the result of \<open>request_confirmation\<close>. When the model
  proposes \<open>request_confirmation\<close> and the click in one message and the reply is \<open>no\<close>, the
  conversation receives the entry with \<open>confirmed: false\<close> and then the entry of the click,
  which the browser has performed.
\<close>

theorem rejected_action_is_clicked:
  "messages (fst (taskIteration hastyAgent sendCoordinator rejectingWorld)) =
     [AssistantMessage hastyProposal,
      ToolMessage ''call_confirm''
        (JObj [(''success'', JBool False), (''confirmed'', JBool False),
               (''message'', JStr ''User rejected. Do not proceed. Consider alternative approaches.'')]),
      ToolMessage ''call_send''
        (JObj [(''success'', JBool True), (''data'', JObj [(''clicked'', JStr ''btn_1'')])])] \<and>
   journal (browserState rejectingWorld) = [] \<and>
   journal (browserState (snd (taskIteration hastyAgent sendCoordinator rejectingWorld))) =
     [''scroll to #go'', ''click #go'']"
  by code_simp

text \<open>
  Claim C8, amended. When the handler of \<open>request_confirmation\<close> has put its question and
  read a reply, its result carries \<open>confirmed\<close> and \<open>success\<close> equal to whether the trimmed,
  lower-cased reply is \<open>yes\<close>, and the coordinator with its controller (element map, retry
  state and page) is unchanged; only the terminal has been used. Executing the invocation
  appends exactly this result as the tool entry of the invocation and changes nothing else.
  The loop does not act on the verdict: it goes on to execute the remaining invocations of
  the proposal, whatever the reply. Whatever the arguments and the reply, executing a
  \<open>request_confirmation\<close> invocation appends one tool entry and changes nothing else in the
  coordinator, leaves the browser and the inference service untouched, and the entry carries
  \<open>confirmed: true\<close> only if a reply was read and was \<open>yes\<close>.
\<close>

theorem confirmation_reply_is_fed_back:
  assumes "args \<noteq> JNull" and "args \<noteq> JUndefined"
    and "question (env :: ('b, 'h, 'l) collaborators) ''Proceed? (yes/no): '' (humanState w) =
           (Inr reply, h1)"
  shows "handleRequestConfirmation env args s w =
       (Inr (JObj [(''success'', JBool (toLowerCase (trim reply) = ''yes'')),
                   (''confirmed'', JBool (toLowerCase (trim reply) = ''yes'')),
                   (''message'', JStr (if toLowerCase (trim reply) = ''yes''
                      then ''User approved. You may proceed with the action.''
                      else ''User rejected. Do not proceed. Consider alternative approaches.''))]),
        s, w\<lparr>humanState := h1\<rparr>) \<and>
     (\<forall>toolCall rest. callName toolCall = ''request_confirmation'' \<and>
        parseArguments env toolCall = args \<longrightarrow>
        executeTool env toolCall s w =
          (s\<lparr>messages := messages s @
               [ToolMessage (callId toolCall)
                  (JObj [(''success'', JBool (toLowerCase (trim reply) = ''yes'')),
                         (''confirmed'', JBool (toLowerCase (trim reply) = ''yes'')),
                         (''message'', JStr (if toLowerCase (trim reply) = ''yes''
                            then ''User approved. You may proceed with the action.''
                            else ''User rejected. Do not proceed. Consider alternative approaches.''))])]\<rparr>,
           w\<lparr>humanState := h1\<rparr>) \<and>
        executeTools env (toolCall # rest) s w =
          executeTools env rest
            (s\<lparr>messages := messages s @
               [ToolMessage (callId toolCall)
                  (JObj [(''success'', JBool (toLowerCase (trim reply) = ''yes'')),
                         (''confirmed'', JBool (toLowerCase (trim reply) = ''yes'')),
                         (''message'', JStr (if toLowerCase (trim reply) = ''yes''
                            then ''User approved. You may proceed with the action.''
                            else ''User rejected. Do not proceed. Consider alternative approaches.''))])]\<rparr>)
            (w\<lparr>humanState := h1\<rparr>)) \<and>
     (\<forall>toolCall s0 w0. callName toolCall = ''request_confirmation'' \<longrightarrow>
        (\<exists>v. fst (executeTool env toolCall s0 w0) =
                s0\<lparr>messages := messages s0 @ [ToolMessage (callId toolCall) v]\<rparr> \<and>
              (getProp v ''confirmed'' = Inr (JBool True) \<longrightarrow>
                 (\<exists>answer h2.
                    question env ''Proceed? (yes/no): '' (humanState w0) = (Inr answer, h2) \<and>
                    toLowerCase (trim answer) = ''yes''))) \<and>
        browserState (snd (executeTool env toolCall s0 w0)) = browserState w0 \<and>
        modelState (snd (executeTool env toolCall s0 w0)) = modelState w0)"
proof (intro conjI allI impI)
  note handled = handleRequestConfirmation_reply[OF assms]
  from handled
  show "handleRequestConfirmation env args s w =
       (Inr (JObj [(''success'', JBool (toLowerCase (trim reply) = ''yes'')),
                   (''confirmed'', JBool (toLowerCase (trim reply) = ''yes'')),
                   (''message'', JStr (if toLowerCase (trim reply) = ''yes''
                      then ''User approved. You may proceed with the action.''
                      else ''User rejected. Do not proceed. Consider alternative approaches.''))]),
        s, w\<lparr>humanState := h1\<rparr>)"
    by (simp add: confirmationResult_def)
  fix toolCall :: tool_call and rest :: "tool_call list"
  assume "callName toolCall = ''request_confirmation'' \<and> parseArguments env toolCall = args"
  with handled
  show run: "executeTool env toolCall s w =
          (s\<lparr>messages := messages s @
               [ToolMessage (callId toolCall)
                  (JObj [(''success'', JBool (toLowerCase (trim reply) = ''yes'')),
                         (''confirmed'', JBool (toLowerCase (trim reply) = ''yes'')),
                         (''message'', JStr (if toLowerCase (trim reply) = ''yes''
                            then ''User approved. You may proceed with the action.''
                            else ''User rejected. Do not proceed. Consider alternative approaches.''))])]\<rparr>,
           w\<lparr>humanState := h1\<rparr>)"
    by (simp add: executeTool_def dispatch_def confirmationResult_def)
  show "executeTools env (toolCall # rest) s w =
          executeTools env rest
            (s\<lparr>messages := messages s @
               [ToolMessage (callId toolCall)
                  (JObj [(''success'', JBool (toLowerCase (trim reply) = ''yes'')),
                         (''confirmed'', JBool (toLowerCase (trim reply) = ''yes'')),
                         (''message'', JStr (if toLowerCase (trim reply) = ''yes''
                            then ''User approved. You may proceed with the action.''
                            else ''User rejected. Do not proceed. Consider alternative approaches.''))])]\<rparr>)
            (w\<lparr>humanState := h1\<rparr>)"
    by (simp add: run)
next
  fix toolCall :: tool_call and s0 :: coordinator and w0 :: "('b, 'h, 'l) world"
  assume name: "callName toolCall = ''request_confirmation''"
  from executeTool_confirmation[OF name]
  show "\<exists>v. fst (executeTool env toolCall s0 w0) =
                s0\<lparr>messages := messages s0 @ [ToolMessage (callId toolCall) v]\<rparr> \<and>
              (getProp v ''confirmed'' = Inr (JBool True) \<longrightarrow>
                 (\<exists>answer h2.
                    question env ''Proceed? (yes/no): '' (humanState w0) = (Inr answer, h2) \<and>
                    toLowerCase (trim answer) = ''yes''))" .
  from executeTool_confirmation_frame[OF name, where env = env and s = s0 and w = w0]
  show "browserState (snd (executeTool env toolCall s0 w0)) = browserState w0"
    and "modelState (snd (executeTool env toolCall s0 w0)) = modelState w0"
    by blast+
qed

theorem confirmation_reply_is_fed_back_witness:
  "handleRequestConfirmation hastyAgent confirmArguments sendCoordinator rejectingWorld =
     (Inr (JObj [(''success'', JBool False), (''confirmed'', JBool False),
                 (''message'',
                  JStr ''User rejected. Do not proceed. Consider alternative approaches.'')]),
      sendCoordinator, rejectingWorld\<lparr>humanState := []\<rparr>) \<and>
   handleRequestConfirmation hastyAgent confirmArguments sendCoordinator approvingWorld =
     (Inr (JObj [(''success'', JBool True), (''confirmed'', JBool True),
                 (''message'', JStr ''User approved. You may proceed with the action.'')]),
      sendCoordinator, approvingWorld\<lparr>humanState := []\<rparr>) \<and>
   executeTool hastyAgent confirmCall sendCoordinator rejectingWorld =
     (sendCoordinator\<lparr>messages := messages sendCoordinator @
        [ToolMessage ''call_confirm''
           (JObj [(''success'', JBool False), (''confirmed'', JBool False),
                  (''message'',
                   JStr ''User rejected. Do not proceed. Consider alternative approaches.'')])]\<rparr>,
      rejectingWorld\<lparr>humanState := []\<rparr>) \<and>
   browserState (snd (executeTool hastyAgent confirmCall sendCoordinator approvingWorld)) =
     browserState approvingWorld"
proof -
  have args: "confirmArguments \<noteq> JNull" "confirmArguments \<noteq> JUndefined"
    by (simp_all add: confirmArguments_def)
  have no: "question hastyAgent ''Proceed? (yes/no): '' (humanState rejectingWorld) = (Inr ''no'', [])"
    by (simp add: hastyAgent_def simCollaborators_def typedLines_def rejectingWorld_def)
  have yes: "question hastyAgent ''Proceed? (yes/no): '' (humanState approvingWorld) =
      (Inr ''  YES '', [])"
    by (simp add: hastyAgent_def simCollaborators_def typedLines_def approvingWorld_def)
  have not_yes: "\<not> toLowerCase (trim ''no'') = ''yes''" by code_simp
  have is_yes: "toLowerCase (trim ''  YES '') = ''yes''" by code_simp
  have name: "callName confirmCall = ''request_confirmation''"
    and ident: "callId confirmCall = ''call_confirm''"
    by (simp_all add: confirmCall_def)
  have parsed: "parseArguments hastyAgent confirmCall = confirmArguments"
    by code_simp
  note rejected = confirmation_reply_is_fed_back[OF args no, of sendCoordinator]
  note approved = confirmation_reply_is_fed_back[OF args yes, of sendCoordinator]
  from rejected not_yes
  have first: "handleRequestConfirmation hastyAgent confirmArguments sendCoordinator rejectingWorld =
     (Inr (JObj [(''success'', JBool False), (''confirmed'', JBool False),
                 (''message'',
                  JStr ''User rejected. Do not proceed. Consider alternative approaches.'')]),
      sendCoordinator, rejectingWorld\<lparr>humanState := []\<rparr>)"
    by simp
  from approved is_yes
  have second: "handleRequestConfirmation hastyAgent confirmArguments sendCoordinator approvingWorld =
     (Inr (JObj [(''success'', JBool True), (''confirmed'', JBool True),
                 (''message'', JStr ''User approved. You may proceed with the action.'')]),
      sendCoordinator, approvingWorld\<lparr>humanState := []\<rparr>)"
    by simp
  from rejected name parsed
  have "executeTool hastyAgent confirmCall sendCoordinator rejectingWorld =
     (sendCoordinator\<lparr>messages := messages sendCoordinator @
        [ToolMessage (callId confirmCall)
           (JObj [(''success'', JBool (toLowerCase (trim ''no'') = ''yes'')),
                  (''confirmed'', JBool (toLowerCase (trim ''no'') = ''yes'')),
                  (''message'', JStr (if toLowerCase (trim ''no'') = ''yes''
                     then ''User approved. You may proceed with the action.''
                     else ''User rejected. Do not proceed. Consider alternative approaches.''))])]\<rparr>,
      rejectingWorld\<lparr>humanState := []\<rparr>)"
    by blast
  with not_yes ident
  have third: "executeTool hastyAgent confirmCall sendCoordinator rejectingWorld =
     (sendCoordinator\<lparr>messages := messages sendCoordinator @
        [ToolMessage ''call_confirm''
           (JObj [(''success'', JBool False), (''confirmed'', JBool False),
                  (''message'',
                   JStr ''User rejected. Do not proceed. Consider alternative approaches.'')])]\<rparr>,
      rejectingWorld\<lparr>humanState := []\<rparr>)"
    by simp
  from approved name
  have fourth: "browserState (snd (executeTool hastyAgent confirmCall sendCoordinator approvingWorld)) =
     browserState approvingWorld"
    by blast
  from first second third fourth show ?thesis by blast
qed
















end
